theory Spec2Isabelle
  imports Main "HOL-Library.Multiset"
begin

section \<open>The DAP client (src/src/dapClient.ts)\<close>

subsection \<open>Messages\<close>

text \<open>
  The interfaces \<open>Thread\<close> and \<open>StackFrame\<close>, and the properties of a response body
  that the server reads: \<open>response.threads\<close>, \<open>response.stackFrames\<close> and
  \<open>response.breakpoints\<close>. A property that is absent (\<open>undefined\<close>) is \<open>None\<close>.
\<close>

record Thread =
  thread_id :: int
  thread_name :: string

record StackFrame =
  frame_id :: int
  frame_name :: string
  frame_path :: "string option"
  frame_line :: int

record bp_reply =
  reply_id :: "int option"
  reply_verified :: "bool option"

record body =
  body_threads :: "Thread list option"
  body_stackFrames :: "StackFrame list option"
  body_breakpoints :: "bp_reply list option"

text \<open>The bodies of the events the server listens to.\<close>

record event_body =
  threadId :: "int option"
  reason :: "string option"
  exitCode :: "int option"

text \<open>The arguments of the typed requests, one shape for each.\<close>

datatype args =
    Args_none
  | Args_initialize
  | Args_launch string
  | Args_attach
  | Args_setBreakpoints string "int option list"
  | Args_threadId int
  | Args_frameId int
  | Args_variablesReference int
  | Args_evaluate string "int option"

record DAPRequest =
  req_seq :: nat
  req_command :: string
  req_arguments :: args

record DAPResponse =
  request_seq :: nat
  success :: bool
  message :: "string option"
  response_body :: "body option"

text \<open>An event; its \<open>body\<close> is optional.\<close>

record DAPEvent =
  event :: string
  event_body :: "event_body option"

text \<open>
  What \<open>JSON.parse\<close> hands to \<open>handleMessage\<close>, by the \<open>type\<close> property;
  \<open>Other\<close> is a value whose \<open>type\<close> is none of the three.
\<close>

datatype DAPMessage =
    Request DAPRequest
  | Response DAPResponse
  | Event DAPEvent
  | Other

subsection \<open>Errors and promises\<close>

datatype code = InvalidParams | InternalError | MethodNotFound

datatype error =
    Error string
  | TypeError
  | McpError code string

text \<open>How the promise returned by \<open>sendRequest\<close> ended.\<close>

datatype outcome = Resolved "body option" | Rejected error

subsection \<open>The client object\<close>

datatype wire_action = Write DAPRequest | End

datatype emission = Emit_event DAPEvent | Emit string "event_body option" | Emit_disconnected

text \<open>
  The fields of the class, and four logs of what the object did to its surroundings:
  \<open>wire\<close> are the calls on the socket (\<open>write\<close> of the frame of a request, \<open>end\<close>),
  \<open>timers\<close> are the \<open>setTimeout\<close> calls of \<open>sendRequest\<close> (delay in ms, sequence
  number and command of the request), \<open>settled\<close> are the promises that were resolved or
  rejected, by sequence number, and \<open>emitted\<close> the calls of \<open>emit\<close>. \<open>socket\<close> says whether
  \<open>this.socket\<close> is not \<open>null\<close>. A pending entry holds the command of its request, in
  place of the closures \<open>resolve\<close> and \<open>reject\<close> of that request's promise.
\<close>

record DAPClient =
  socket :: bool
  connected :: bool
  sequenceNumber :: nat
  pendingRequests :: "nat \<rightharpoonup> string"
  messageBuffer :: "nat list"
  wire :: "wire_action list"
  timers :: "(nat \<times> nat \<times> string) list"
  settled :: "nat \<rightharpoonup> outcome"
  emitted :: "emission list"

definition new_DAPClient :: DAPClient where
  "new_DAPClient =
     \<lparr>socket = False, connected = False, sequenceNumber = 1, pendingRequests = Map.empty,
      messageBuffer = [], wire = [], timers = [], settled = Map.empty, emitted = []\<rparr>"

text \<open>The socket's \<open>connect\<close> and \<open>close\<close> listeners, registered by \<open>connect\<close>.\<close>

definition on_socket_connect :: "DAPClient \<Rightarrow> DAPClient" where
  "on_socket_connect c = c\<lparr>socket := True, connected := True\<rparr>"

definition on_socket_close :: "DAPClient \<Rightarrow> DAPClient" where
  "on_socket_close c =
     c\<lparr>connected := False, emitted := emitted c @ [Emit_disconnected]\<rparr>"

definition close :: "DAPClient \<Rightarrow> DAPClient" where
  "close c =
     (let c1 = (if socket c then c\<lparr>wire := wire c @ [End], socket := False\<rparr> else c)
      in c1\<lparr>connected := False\<rparr>)"

subsection \<open>The correlator\<close>

text \<open>
  \<open>sendRequest\<close> up to the promise it returns: the error thrown, or the sequence number
  of the request, which names the promise.
\<close>

definition sendRequest :: "string \<Rightarrow> args \<Rightarrow> DAPClient \<Rightarrow> (error + nat) \<times> DAPClient" where
  "sendRequest command arguments c =
     (if \<not> connected c \<or> \<not> socket c then (Inl (Error ''DAP client not connected''), c)
      else
        let request = \<lparr>req_seq = sequenceNumber c, req_command = command, req_arguments = arguments\<rparr>;
            c1 = c\<lparr>sequenceNumber := sequenceNumber c + 1\<rparr>;
            c2 = c1\<lparr>pendingRequests := (pendingRequests c1)(req_seq request \<mapsto> command)\<rparr>;
            c3 = c2\<lparr>wire := wire c2 @ [Write request]\<rparr>;
            c4 = c3\<lparr>timers := timers c3 @ [(10000, req_seq request, command)]\<rparr>
        in (Inr (req_seq request), c4))"

text \<open>The callback of the timer that \<open>sendRequest\<close> sets.\<close>

definition request_timeout :: "nat \<Rightarrow> string \<Rightarrow> DAPClient \<Rightarrow> DAPClient" where
  "request_timeout seq command c =
     (if seq \<in> dom (pendingRequests c)
      then c\<lparr>pendingRequests := (pendingRequests c)(seq := None),
             settled := (settled c)(seq \<mapsto> Rejected (Error (''Request timeout: '' @ command)))\<rparr>
      else c)"

text \<open>\<open>response.message || 'Request failed'\<close>: an absent or empty message is falsy.\<close>

definition message_or_default :: "string option \<Rightarrow> string" where
  "message_or_default m = (case m of None \<Rightarrow> ''Request failed'' | Some s \<Rightarrow> if s = [] then ''Request failed'' else s)"

fun handleMessage :: "DAPMessage \<Rightarrow> DAPClient \<Rightarrow> DAPClient" where
  "handleMessage (Response response) c =
     (case pendingRequests c (request_seq response) of
        None \<Rightarrow> c
      | Some pending \<Rightarrow>
          let c1 = c\<lparr>pendingRequests := (pendingRequests c)(request_seq response := None)\<rparr>
          in if success response
             then c1\<lparr>settled := (settled c1)(request_seq response \<mapsto> Resolved (response_body response))\<rparr>
             else c1\<lparr>settled := (settled c1)(request_seq response \<mapsto>
                        Rejected (Error (message_or_default (message response))))\<rparr>)"
| "handleMessage (Event e) c =
     c\<lparr>emitted := emitted c @ [Emit_event e, Emit (event e) (event_body e)]\<rparr>"
| "handleMessage (Request r) c = c"
| "handleMessage Other c = c"

subsection \<open>The transport\<close>

text \<open>
  A string is the list of its UTF-16 code units, a \<open>Buffer\<close> the list of its bytes.
  \<open>toString\<close> is \<open>data.toString()\<close>: the bytes decoded as UTF-8, one chunk at a time,
  where every ill-formed or unfinished sequence of the chunk becomes U+FFFD (65533) and
  a code point past U+FFFF a surrogate pair. The state of the decoder is the code
  point so far, the number of bytes it still needs, and the bounds of the next byte.
\<close>

function utf8_decode :: "nat list \<Rightarrow> nat \<Rightarrow> nat \<Rightarrow> nat \<Rightarrow> nat \<Rightarrow> nat list" where
  "utf8_decode [] cp needed lower upper = (if needed = 0 then [] else [65533])"
| "utf8_decode (b # bs) cp needed lower upper =
     (if needed = 0 then
        (if b < 128 then b # utf8_decode bs 0 0 128 191
         else if 194 \<le> b \<and> b \<le> 223 then utf8_decode bs (b mod 32) 1 128 191
         else if 224 \<le> b \<and> b \<le> 239 then
           utf8_decode bs (b mod 16) 2 (if b = 224 then 160 else 128) (if b = 237 then 159 else 191)
         else if 240 \<le> b \<and> b \<le> 244 then
           utf8_decode bs (b mod 8) 3 (if b = 240 then 144 else 128) (if b = 244 then 143 else 191)
         else 65533 # utf8_decode bs 0 0 128 191)
      else if b < lower \<or> upper < b then 65533 # utf8_decode (b # bs) 0 0 128 191
      else if needed = 1 then
        (let c = cp * 64 + b mod 64
         in (if c < 65536 then [c]
             else [55296 + (c - 65536) div 1024, 56320 + (c - 65536) mod 1024])
            @ utf8_decode bs 0 0 128 191)
      else utf8_decode bs (cp * 64 + b mod 64) (needed - 1) 128 191)"
  by pat_completeness auto
termination
  by (relation "measure (\<lambda>(bs, cp, needed, lower, upper). 2 * length bs + (if needed = 0 then 0 else 1))") auto

definition toString :: "nat list \<Rightarrow> nat list" where
  "toString data = utf8_decode data 0 0 128 191"

text \<open>
  The pieces of \<open>handleData\<close>: \<open>indexOf\<close>, the match of
  \<open>/Content-Length: (\d+)/\<close> (the first place where the key is followed by a digit,
  and the digits from there) and \<open>parseInt\<close> of the digits.
\<close>

definition CRLFCRLF :: "nat list" where
  "CRLFCRLF = [13, 10, 13, 10]"

definition content_length_key :: "nat list" where
  "content_length_key = map of_char ''Content-Length: ''"

fun indexOf :: "nat list \<Rightarrow> nat list \<Rightarrow> nat option" where
  "indexOf [] needle = (if needle = [] then Some 0 else None)"
| "indexOf (c # cs) needle =
     (if take (length needle) (c # cs) = needle then Some 0
      else map_option Suc (indexOf cs needle))"

definition is_digit :: "nat \<Rightarrow> bool" where
  "is_digit c = (48 \<le> c \<and> c \<le> 57)"

fun match_content_length :: "nat list \<Rightarrow> nat list option" where
  "match_content_length [] = None"
| "match_content_length (c # cs) =
     (if take 16 (c # cs) = content_length_key \<and> takeWhile is_digit (drop 16 (c # cs)) \<noteq> []
      then Some (takeWhile is_digit (drop 16 (c # cs)))
      else match_content_length cs)"

definition parseInt :: "nat list \<Rightarrow> nat" where
  "parseInt ds = foldl (\<lambda>a d. 10 * a + (d - 48)) 0 ds"

text \<open>
  The loop of \<open>handleData\<close> over the buffer: the bodies it cuts out, in order, and the
  buffer it leaves. It stops where the source has \<open>break\<close>.
\<close>

function deframe :: "nat list \<Rightarrow> nat list list \<times> nat list" where
  "deframe buf =
     (case indexOf buf CRLFCRLF of
        None \<Rightarrow> ([], buf)
      | Some headerEnd \<Rightarrow>
          (case match_content_length (take headerEnd buf) of
             None \<Rightarrow> ([], buf)
           | Some ds \<Rightarrow>
               (let contentLength = parseInt ds;
                    messageStart = headerEnd + 4;
                    messageEnd = messageStart + contentLength
                in if length buf < messageEnd then ([], buf)
                   else (case deframe (drop messageEnd buf) of
                           (contents, rest) \<Rightarrow>
                             (take contentLength (drop messageStart buf) # contents, rest)))))"
  by pat_completeness auto
termination
  by (relation "measure length") auto

declare deframe.simps [simp del]

text \<open>
  \<open>handleData\<close>: the chunk is decoded and appended to the buffer, the loop cuts the
  bodies out, and each body that \<open>JSON.parse\<close> accepts goes to \<open>handleMessage\<close>
  (\<open>parse\<close> is \<open>JSON.parse\<close>, \<open>None\<close> where it throws). \<open>handleMessage\<close> does not touch
  the buffer, so the bodies are cut out first here and handled then.
\<close>

definition handleData :: "(nat list \<Rightarrow> DAPMessage option) \<Rightarrow> nat list \<Rightarrow> DAPClient \<Rightarrow> DAPClient" where
  "handleData parse data c =
     (case deframe (messageBuffer c @ toString data) of
        (contents, rest) \<Rightarrow>
          fold (\<lambda>messageContent c1. case parse messageContent of None \<Rightarrow> c1 | Some m \<Rightarrow> handleMessage m c1)
            contents (c\<lparr>messageBuffer := rest\<rparr>))"

text \<open>The decimal digits of a number, as a template string prints them.\<close>

function digits10 :: "nat \<Rightarrow> nat list" where
  "digits10 n = (if n < 10 then [n] else digits10 (n div 10) @ [n mod 10])"
  by pat_completeness auto
termination
  by (relation "measure (\<lambda>n. n)") auto

declare digits10.simps [simp del]

definition show_nat :: "nat \<Rightarrow> nat list" where
  "show_nat n = map (\<lambda>d. 48 + d) (digits10 n)"

text \<open>
  The frame that \<open>sendRequest\<close> writes for the text \<open>messageContent\<close> of a request:
  \<open>messageContent.length\<close> counts code units.
\<close>

definition frame :: "nat list \<Rightarrow> nat list" where
  "frame messageContent =
     content_length_key @ show_nat (length messageContent) @ CRLFCRLF @ messageContent"

subsection \<open>The typed operations\<close>

text \<open>
  Each typed operation up to its first \<open>await\<close>: the request it sends. \<open>threads\<close>,
  \<open>stackTrace\<close>, \<open>scopes\<close> and \<open>variables\<close> read a property of the body afterwards.
\<close>

definition initialize :: "DAPClient \<Rightarrow> (error + nat) \<times> DAPClient" where
  "initialize = sendRequest ''initialize'' Args_initialize"

definition launch :: "string \<Rightarrow> DAPClient \<Rightarrow> (error + nat) \<times> DAPClient" where
  "launch program = sendRequest ''launch'' (Args_launch program)"

definition attach :: "DAPClient \<Rightarrow> (error + nat) \<times> DAPClient" where
  "attach = sendRequest ''attach'' Args_attach"

definition dap_setBreakpoints :: "string \<Rightarrow> int option list \<Rightarrow> DAPClient \<Rightarrow> (error + nat) \<times> DAPClient" where
  "dap_setBreakpoints source lines = sendRequest ''setBreakpoints'' (Args_setBreakpoints source lines)"

definition configurationDone :: "DAPClient \<Rightarrow> (error + nat) \<times> DAPClient" where
  "configurationDone = sendRequest ''configurationDone'' Args_none"

definition continue :: "int \<Rightarrow> DAPClient \<Rightarrow> (error + nat) \<times> DAPClient" where
  "continue t = sendRequest ''continue'' (Args_threadId t)"

definition stepOver :: "int \<Rightarrow> DAPClient \<Rightarrow> (error + nat) \<times> DAPClient" where
  "stepOver t = sendRequest ''next'' (Args_threadId t)"

definition stepIn :: "int \<Rightarrow> DAPClient \<Rightarrow> (error + nat) \<times> DAPClient" where
  "stepIn t = sendRequest ''stepIn'' (Args_threadId t)"

definition stepOut :: "int \<Rightarrow> DAPClient \<Rightarrow> (error + nat) \<times> DAPClient" where
  "stepOut t = sendRequest ''stepOut'' (Args_threadId t)"

definition pause :: "int \<Rightarrow> DAPClient \<Rightarrow> (error + nat) \<times> DAPClient" where
  "pause t = sendRequest ''pause'' (Args_threadId t)"

definition threads :: "DAPClient \<Rightarrow> (error + nat) \<times> DAPClient" where
  "threads = sendRequest ''threads'' Args_none"

definition stackTrace :: "int \<Rightarrow> DAPClient \<Rightarrow> (error + nat) \<times> DAPClient" where
  "stackTrace t = sendRequest ''stackTrace'' (Args_threadId t)"

definition scopes :: "int \<Rightarrow> DAPClient \<Rightarrow> (error + nat) \<times> DAPClient" where
  "scopes f = sendRequest ''scopes'' (Args_frameId f)"

definition variables :: "int \<Rightarrow> DAPClient \<Rightarrow> (error + nat) \<times> DAPClient" where
  "variables v = sendRequest ''variables'' (Args_variablesReference v)"

definition evaluate :: "string \<Rightarrow> int option \<Rightarrow> DAPClient \<Rightarrow> (error + nat) \<times> DAPClient" where
  "evaluate expression f = sendRequest ''evaluate'' (Args_evaluate expression f)"

text \<open>
  \<open>disconnect\<close> catches what \<open>sendRequest\<close> throws. When the request was sent it waits
  for the promise (\<open>Inr seq\<close>) and \<open>disconnect_finish\<close> runs once that is settled;
  when \<open>sendRequest\<close> threw, the rest of the body runs at once.
\<close>

definition disconnect_finish :: "DAPClient \<Rightarrow> DAPClient" where
  "disconnect_finish c =
     (let c1 = (if socket c then c\<lparr>wire := wire c @ [End], socket := False\<rparr> else c)
      in c1\<lparr>connected := False\<rparr>)"

definition disconnect :: "DAPClient \<Rightarrow> (unit + nat) \<times> DAPClient" where
  "disconnect c =
     (case sendRequest ''disconnect'' Args_none c of
        (Inl e, c1) \<Rightarrow> (Inl (), disconnect_finish c1)
      | (Inr seq, c1) \<Rightarrow> (Inr seq, c1))"

text \<open>
  The typed operations by name, and what invoking one does up to its first \<open>await\<close>:
  it throws, it waits for the promise of the request it sent, or it returns.
\<close>

datatype typed_op =
    Op_initialize
  | Op_launch string
  | Op_attach
  | Op_setBreakpoints string "int option list"
  | Op_configurationDone
  | Op_continue int
  | Op_stepOver int
  | Op_stepIn int
  | Op_stepOut int
  | Op_pause int
  | Op_threads
  | Op_stackTrace int
  | Op_scopes int
  | Op_variables int
  | Op_evaluate string "int option"
  | Op_disconnect

datatype invoked = Threw error | Awaiting nat | Returned

definition started :: "(error + nat) \<times> DAPClient \<Rightarrow> invoked \<times> DAPClient" where
  "started r = (case r of (Inl e, c) \<Rightarrow> (Threw e, c) | (Inr seq, c) \<Rightarrow> (Awaiting seq, c))"

fun invoke :: "typed_op \<Rightarrow> DAPClient \<Rightarrow> invoked \<times> DAPClient" where
  "invoke Op_initialize c = started (initialize c)"
| "invoke (Op_launch program) c = started (launch program c)"
| "invoke Op_attach c = started (attach c)"
| "invoke (Op_setBreakpoints source lines) c = started (dap_setBreakpoints source lines c)"
| "invoke Op_configurationDone c = started (configurationDone c)"
| "invoke (Op_continue t) c = started (continue t c)"
| "invoke (Op_stepOver t) c = started (stepOver t c)"
| "invoke (Op_stepIn t) c = started (stepIn t c)"
| "invoke (Op_stepOut t) c = started (stepOut t c)"
| "invoke (Op_pause t) c = started (pause t c)"
| "invoke Op_threads c = started (threads c)"
| "invoke (Op_stackTrace t) c = started (stackTrace t c)"
| "invoke (Op_scopes f) c = started (scopes f c)"
| "invoke (Op_variables v) c = started (variables v c)"
| "invoke (Op_evaluate expression f) c = started (evaluate expression f c)"
| "invoke Op_disconnect c =
     (case disconnect c of (Inl u, c1) \<Rightarrow> (Returned, c1) | (Inr seq, c1) \<Rightarrow> (Awaiting seq, c1))"

text \<open>
  What the typed operations do with the settled promise: \<open>response.threads || []\<close> and
  \<open>response.stackFrames || []\<close>, where reading a property of \<open>undefined\<close> throws.
\<close>

definition threads_result :: "outcome \<Rightarrow> error + Thread list" where
  "threads_result out =
     (case out of
        Rejected e \<Rightarrow> Inl e
      | Resolved None \<Rightarrow> Inl TypeError
      | Resolved (Some b) \<Rightarrow> Inr (case body_threads b of None \<Rightarrow> [] | Some ts \<Rightarrow> ts))"

definition stackTrace_result :: "outcome \<Rightarrow> error + StackFrame list" where
  "stackTrace_result out =
     (case out of
        Rejected e \<Rightarrow> Inl e
      | Resolved None \<Rightarrow> Inl TypeError
      | Resolved (Some b) \<Rightarrow> Inr (case body_stackFrames b of None \<Rightarrow> [] | Some fs \<Rightarrow> fs))"

subsection \<open>A request and its answer\<close>

text \<open>
  What the adapter does with one request: it answers (\<open>success\<close>, \<open>message\<close>,
  \<open>body\<close>), or it never does and the request's own timer fires.
  \<open>await_request\<close> runs a typed operation and what settles its promise, one after the
  other, and returns how the promise ended. The promise is settled by then (lemma
  \<open>await_request_settled\<close>), so the last case is never taken.
\<close>

datatype reply = Respond bool "string option" "body option" | No_response

definition settle :: "nat \<Rightarrow> reply \<Rightarrow> DAPClient \<Rightarrow> DAPClient" where
  "settle seq reply c =
     (case reply of
        Respond ok msg b \<Rightarrow>
          handleMessage (Response \<lparr>request_seq = seq, success = ok, message = msg, response_body = b\<rparr>) c
      | No_response \<Rightarrow>
          (case pendingRequests c seq of None \<Rightarrow> c | Some command \<Rightarrow> request_timeout seq command c))"

definition await_request :: "(DAPClient \<Rightarrow> (error + nat) \<times> DAPClient) \<Rightarrow> reply \<Rightarrow> DAPClient \<Rightarrow> outcome \<times> DAPClient" where
  "await_request operation reply c =
     (case operation c of
        (Inl e, c1) \<Rightarrow> (Rejected e, c1)
      | (Inr seq, c1) \<Rightarrow>
          (let c2 = settle seq reply c1
           in (case settled c2 seq of Some out \<Rightarrow> (out, c2) | None \<Rightarrow> (Rejected (Error ''pending''), c2))))"

section \<open>The session manager (src/src/sessionManager.ts)\<close>

datatype session_state = Starting | Running | Paused | Stopped | Errored

record Breakpoint =
  bp_id :: int
  bp_file :: string
  bp_line :: "int option"
  bp_verified :: "bool option"

text \<open>
  The session object. \<open>pythonProcess\<close> and \<open>dapClient\<close> are references (\<open>None\<close> is
  \<open>null\<close>); \<open>breakpoints\<close> is the \<open>Map\<close> from file to breakpoints in insertion order.
\<close>

record DebugSession =
  session_id :: string
  scriptPath :: string
  pythonProcess :: "nat option"
  dapClient :: "nat option"
  port :: nat
  state :: session_state
  breakpoints :: "(string \<times> Breakpoint list) list"
  currentThreadId :: "int option"
  currentFrameId :: "int option"

text \<open>
  Node's \<open>ChildProcess\<close>: \<open>killed\<close> is its flag, \<open>exited\<close> says whether the process is
  gone, \<open>signals\<close> are the calls of \<open>kill\<close>. \<open>kill\<close> sets the flag when the signal is
  delivered, which it is while the process has not exited.
\<close>

datatype signal = SIGTERM | SIGKILL

record ChildProcess =
  killed :: bool
  exited :: bool
  signals :: "signal list"

definition kill :: "signal \<Rightarrow> ChildProcess \<Rightarrow> ChildProcess" where
  "kill sig p =
     (let p1 = p\<lparr>signals := signals p @ [sig]\<rparr>
      in if exited p then p1 else p1\<lparr>killed := True\<rparr>)"

text \<open>
  The objects of the server: session, client and process objects by reference, and the
  \<open>SessionManager\<close> with its \<open>sessions\<close> map from session id to session object and its
  \<open>portCounter\<close>. \<open>timeouts\<close> are the \<open>setTimeout\<close> calls outside the client, in
  order, each with its delay in ms and its callback: the forced kill that
  \<open>terminateSession\<close> schedules (for the session object), the waits between attempts
  (\<open>Sleep\<close>), and the deadline of the attach sequence, which rejects the promise for
  the \<open>initialized\<close> event. The handle that \<open>setTimeout\<close> returns is the place of the
  call in \<open>timeouts\<close>, and \<open>cleared\<close> are the handles given to \<open>clearTimeout\<close>.
  \<open>listeners\<close> are the listeners registered with \<open>once\<close> on a client and not yet
  called: the client, the name of the event and the callback, which clears the
  timer with the given handle and resolves the promise for the event.
\<close>

datatype timeout_action = Force_kill nat | Sleep | Reject_initialized

datatype listener = Resolve_initialized nat

record world =
  sessions :: "string \<rightharpoonup> nat"
  portCounter :: nat
  session_heap :: "nat \<rightharpoonup> DebugSession"
  client_heap :: "nat \<rightharpoonup> DAPClient"
  process_heap :: "nat \<rightharpoonup> ChildProcess"
  timeouts :: "(nat \<times> timeout_action) list"
  listeners :: "(nat \<times> string \<times> listener) list"
  cleared :: "nat list"

definition initial_world :: world where
  "initial_world =
     \<lparr>sessions = Map.empty, portCounter = 5678, session_heap = Map.empty,
      client_heap = Map.empty, process_heap = Map.empty, timeouts = [],
      listeners = [], cleared = []\<rparr>"

definition update_session :: "nat \<Rightarrow> (DebugSession \<Rightarrow> DebugSession) \<Rightarrow> world \<Rightarrow> world" where
  "update_session r f w =
     (case session_heap w r of
        None \<Rightarrow> w
      | Some s \<Rightarrow> w\<lparr>session_heap := (session_heap w)(r \<mapsto> f s)\<rparr>)"

definition update_client :: "nat \<Rightarrow> (DAPClient \<Rightarrow> DAPClient) \<Rightarrow> world \<Rightarrow> world" where
  "update_client r f w =
     (case client_heap w r of
        None \<Rightarrow> w
      | Some c \<Rightarrow> w\<lparr>client_heap := (client_heap w)(r \<mapsto> f c)\<rparr>)"

definition update_process :: "nat \<Rightarrow> (ChildProcess \<Rightarrow> ChildProcess) \<Rightarrow> world \<Rightarrow> world" where
  "update_process r f w =
     (case process_heap w r of
        None \<Rightarrow> w
      | Some p \<Rightarrow> w\<lparr>process_heap := (process_heap w)(r \<mapsto> f p)\<rparr>)"

text \<open>
  \<open>createSession\<close>: \<open>sessionId\<close> is the identifier that \<open>uuidv4\<close> draws and \<open>r\<close> the
  new object.
\<close>

definition createSession :: "string \<Rightarrow> nat \<Rightarrow> string \<Rightarrow> world \<Rightarrow> world" where
  "createSession sessionId r path w =
     (let p = portCounter w + 1;
          session = \<lparr>session_id = sessionId, scriptPath = path, pythonProcess = None,
                     dapClient = None, port = p, state = Starting, breakpoints = [],
                     currentThreadId = None, currentFrameId = None\<rparr>
      in w\<lparr>portCounter := p,
           session_heap := (session_heap w)(r \<mapsto> session),
           sessions := (sessions w)(sessionId \<mapsto> r)\<rparr>)"

definition getSession :: "string \<Rightarrow> world \<Rightarrow> (nat \<times> DebugSession) option" where
  "getSession sessionId w =
     (case sessions w sessionId of
        None \<Rightarrow> None
      | Some r \<Rightarrow> (case session_heap w r of None \<Rightarrow> None | Some s \<Rightarrow> Some (r, s)))"

definition updateSessionState :: "string \<Rightarrow> session_state \<Rightarrow> world \<Rightarrow> world" where
  "updateSessionState sessionId st w =
     (case getSession sessionId w of
        None \<Rightarrow> w
      | Some (r, session) \<Rightarrow> update_session r (\<lambda>s. s\<lparr>state := st\<rparr>) w)"

definition terminateSession :: "string \<Rightarrow> world \<Rightarrow> world" where
  "terminateSession sessionId w =
     (case getSession sessionId w of
        None \<Rightarrow> w
      | Some (r, session) \<Rightarrow>
          let w1 = (case dapClient session of
                      None \<Rightarrow> w
                    | Some cr \<Rightarrow> update_session r (\<lambda>s. s\<lparr>dapClient := None\<rparr>) (update_client cr close w));
              w2 = (case pythonProcess session of
                      None \<Rightarrow> w1
                    | Some pr \<Rightarrow>
                        (case process_heap w1 pr of
                           None \<Rightarrow> w1
                         | Some p \<Rightarrow>
                             if killed p then w1
                             else (update_process pr (kill SIGTERM) w1)
                                    \<lparr>timeouts := timeouts w1 @ [(2000, Force_kill r)]\<rparr>));
              w3 = update_session r (\<lambda>s. s\<lparr>state := Stopped\<rparr>) w2
          in w3\<lparr>sessions := (sessions w3)(sessionId := None)\<rparr>)"

text \<open>The callback of the timer that \<open>terminateSession\<close> sets, for the session object \<open>r\<close>.\<close>

definition force_kill :: "nat \<Rightarrow> world \<Rightarrow> world" where
  "force_kill r w =
     (case session_heap w r of
        None \<Rightarrow> w
      | Some session \<Rightarrow>
          (case pythonProcess session of
             None \<Rightarrow> w
           | Some pr \<Rightarrow>
               (case process_heap w pr of
                  None \<Rightarrow> w
                | Some p \<Rightarrow> if killed p then w else update_process pr (kill SIGKILL) w)))"

text \<open>\<open>Map.set\<close> keeps the place of a key that is there and appends a new one.\<close>

fun map_set :: "'k \<Rightarrow> 'v \<Rightarrow> ('k \<times> 'v) list \<Rightarrow> ('k \<times> 'v) list" where
  "map_set k v [] = [(k, v)]"
| "map_set k v (p # ps) = (if fst p = k then (k, v) # ps else p # map_set k v ps)"

definition setBreakpoints :: "string \<Rightarrow> string \<Rightarrow> Breakpoint list \<Rightarrow> world \<Rightarrow> world" where
  "setBreakpoints sessionId f bps w =
     (case getSession sessionId w of
        None \<Rightarrow> w
      | Some (r, session) \<Rightarrow> update_session r (\<lambda>s. s\<lparr>breakpoints := map_set f bps (breakpoints s)\<rparr>) w)"

text \<open>\<open>if (file)\<close>: an absent and an empty file name both ask for all breakpoints.\<close>

definition getBreakpoints :: "string \<Rightarrow> string option \<Rightarrow> world \<Rightarrow> Breakpoint list" where
  "getBreakpoints sessionId f w =
     (case getSession sessionId w of
        None \<Rightarrow> []
      | Some (r, session) \<Rightarrow>
          (case f of
             None \<Rightarrow> concat (map snd (breakpoints session))
           | Some name \<Rightarrow>
               if name = [] then concat (map snd (breakpoints session))
               else (case map_of (breakpoints session) name of None \<Rightarrow> [] | Some bps \<Rightarrow> bps)))"

section \<open>The tools and the event handlers (src/src/index.ts)\<close>

subsection \<open>Errors in messages\<close>

definition show_int :: "int \<Rightarrow> string" where
  "show_int i =
     (if i < 0 then CHR ''-'' # map (\<lambda>d. char_of (48 + d)) (digits10 (nat (- i)))
      else map (\<lambda>d. char_of (48 + d)) (digits10 (nat i)))"

fun error_to_string :: "error \<Rightarrow> string" where
  "error_to_string (Error m) = ''Error: '' @ m"
| "error_to_string TypeError = ''TypeError''"
| "error_to_string (McpError c m) = ''McpError: '' @ m"

text \<open>The handler's outer \<open>catch\<close>: an \<open>McpError\<close> passes, anything else is wrapped.\<close>

definition tool_error :: "string \<Rightarrow> error \<Rightarrow> error" where
  "tool_error name e =
     (case e of
        McpError c m \<Rightarrow> e
      | _ \<Rightarrow> McpError InternalError (''Error executing tool '' @ name @ '': '' @ error_to_string e))"

subsection \<open>Calling the client of a session\<close>

definition call_client :: "nat \<Rightarrow> (DAPClient \<Rightarrow> (error + nat) \<times> DAPClient) \<Rightarrow> reply \<Rightarrow> world \<Rightarrow> outcome \<times> world" where
  "call_client cr operation reply w =
     (case client_heap w cr of
        None \<Rightarrow> (Rejected TypeError, w)
      | Some c \<Rightarrow>
          (case await_request operation reply c of
             (out, c1) \<Rightarrow> (out, w\<lparr>client_heap := (client_heap w)(cr \<mapsto> c1)\<rparr>)))"

definition sleep :: "nat \<Rightarrow> world \<Rightarrow> world" where
  "sleep ms w = w\<lparr>timeouts := timeouts w @ [(ms, Sleep)]\<rparr>"

text \<open>
  \<open>retryDAPOperation\<close>: the loop over \<open>attempt\<close>, from 1. \<open>replies\<close> gives the adapter's
  answer to each attempt. \<open>None\<close> is the \<open>undefined\<close> that the function returns when
  the loop body never runs.
\<close>

function retryDAPOperation ::
  "(reply \<Rightarrow> world \<Rightarrow> (error + 'a) \<times> world) \<Rightarrow> nat \<Rightarrow> (nat \<Rightarrow> reply) \<Rightarrow> nat \<Rightarrow> world
     \<Rightarrow> (error + 'a) option \<times> world" where
  "retryDAPOperation operation maxRetries replies attempt w =
     (if attempt \<le> maxRetries then
        (case operation (replies attempt) w of
           (Inr v, w1) \<Rightarrow> (Some (Inr v), w1)
         | (Inl e, w1) \<Rightarrow>
             if attempt = maxRetries then (Some (Inl e), w1)
             else retryDAPOperation operation maxRetries replies (attempt + 1)
                    (sleep (min (1000 * 2 ^ (attempt - 1)) 5000) w1))
      else (None, w))"
  by pat_completeness auto
termination
  by (relation "measure (\<lambda>(operation, maxRetries, replies, attempt, w). maxRetries + 1 - attempt)") auto

declare retryDAPOperation.simps [simp del]

definition validateDAPConnection :: "nat \<Rightarrow> reply \<Rightarrow> world \<Rightarrow> (error + unit) \<times> world" where
  "validateDAPConnection cr reply w =
     (case call_client cr threads reply w of
        (out, w1) \<Rightarrow>
          (case threads_result out of
             Inl e \<Rightarrow> (Inl (Error (''DAP connection validation failed: '' @ error_to_string e)), w1)
           | Inr ts \<Rightarrow> (Inr (), w1)))"

subsection \<open>Breakpoints\<close>

text \<open>
  The mapping of \<open>response.breakpoints\<close> in \<open>set_breakpoint\<close> and \<open>remove_breakpoint\<close>:
  \<open>bp.id || index\<close> takes the index for an absent id and for the id 0, and
  \<open>existingLines[index]\<close> is \<open>undefined\<close> past the end of the lines.
\<close>

definition id_or_index :: "int option \<Rightarrow> nat \<Rightarrow> int" where
  "id_or_index i index = (case i of None \<Rightarrow> int index | Some n \<Rightarrow> if n = 0 then int index else n)"

definition line_at :: "int option list \<Rightarrow> nat \<Rightarrow> int option" where
  "line_at lines index = (if index < length lines then lines ! index else None)"

definition response_mapping :: "string \<Rightarrow> int option list \<Rightarrow> bp_reply list \<Rightarrow> Breakpoint list" where
  "response_mapping f lines bps =
     map (\<lambda>(index, bp). \<lparr>bp_id = id_or_index (reply_id bp) index, bp_file = f,
                         bp_line = line_at lines index, bp_verified = reply_verified bp\<rparr>)
       (enumerate 0 bps)"

definition session_not_connected :: "string \<Rightarrow> error" where
  "session_not_connected sid = McpError InvalidParams (''Session '' @ sid @ '' not found or not connected'')"

definition session_not_found :: "string \<Rightarrow> error" where
  "session_not_found sid = McpError InvalidParams (''Session '' @ sid @ '' not found'')"

text \<open>
  The lines that \<open>set_breakpoint\<close> sends: those of the breakpoints it holds for the
  file and, if it is not among them, the new line at the end.
\<close>

definition requested_lines :: "string \<Rightarrow> string \<Rightarrow> int \<Rightarrow> world \<Rightarrow> int option list" where
  "requested_lines sid f ln w =
     (let existingBreakpoints = getBreakpoints sid (Some f) w;
          existingLines = map bp_line existingBreakpoints
      in if Some ln \<in> set existingLines then existingLines else existingLines @ [Some ln])"

text \<open>
  \<open>!response || !response.breakpoints\<close> in \<open>set_breakpoint\<close>, and the read of
  \<open>response.breakpoints\<close> without that test in \<open>remove_breakpoint\<close>.
\<close>

definition checked_breakpoints :: "outcome \<Rightarrow> error + bp_reply list" where
  "checked_breakpoints out =
     (case out of
        Rejected e \<Rightarrow> Inl e
      | Resolved None \<Rightarrow> Inl (Error ''Invalid response from debugpy setBreakpoints'')
      | Resolved (Some b) \<Rightarrow>
          (case body_breakpoints b of
             None \<Rightarrow> Inl (Error ''Invalid response from debugpy setBreakpoints'')
           | Some bps \<Rightarrow> Inr bps))"

definition unchecked_breakpoints :: "outcome \<Rightarrow> error + bp_reply list" where
  "unchecked_breakpoints out =
     (case out of
        Rejected e \<Rightarrow> Inl e
      | Resolved None \<Rightarrow> Inl TypeError
      | Resolved (Some b) \<Rightarrow>
          (case body_breakpoints b of None \<Rightarrow> Inl TypeError | Some bps \<Rightarrow> Inr bps))"

text \<open>
  \<open>set_breakpoint\<close>, run from its call to its return: \<open>validation\<close> and \<open>reply\<close> are the
  adapter's answers to the \<open>threads\<close> and the \<open>setBreakpoints\<close> request, and \<open>resolve\<close>
  is \<open>path.resolve\<close>. The result is \<open>targetBreakpoint?.verified\<close>, where the target
  is at \<open>existingLines.indexOf(line)\<close>.
\<close>

definition set_breakpoint ::
  "(string \<Rightarrow> string) \<Rightarrow> string \<Rightarrow> string \<Rightarrow> int \<Rightarrow> reply \<Rightarrow> reply \<Rightarrow> world \<Rightarrow> (error + bool option) \<times> world" where
  "set_breakpoint resolve sid f ln validation reply w =
     (case getSession sid w of
        None \<Rightarrow> (Inl (session_not_connected sid), w)
      | Some (r, session) \<Rightarrow>
          (case dapClient session of
             None \<Rightarrow> (Inl (session_not_connected sid), w)
           | Some cr \<Rightarrow>
               if ln < 1 then (Inl (McpError InvalidParams ''Line number must be >= 1''), w)
               else
                 (case validateDAPConnection cr validation w of
                    (Inl e, w1) \<Rightarrow>
                      (Inl (McpError InternalError (''DAP connection validation failed: '' @ error_to_string e)), w1)
                  | (Inr u, w1) \<Rightarrow>
                      (case call_client cr (dap_setBreakpoints (resolve f) (requested_lines sid f ln w1)) reply w1 of
                         (out, w2) \<Rightarrow>
                           (case checked_breakpoints out of
                              Inl e \<Rightarrow>
                                (Inl (McpError InternalError
                                   (''Failed to set breakpoint at '' @ f @ '':'' @ show_int ln @ '': '' @ error_to_string e)), w2)
                            | Inr bps \<Rightarrow>
                                (let existingLines = requested_lines sid f ln w1;
                                     target = length (takeWhile (\<lambda>l. l \<noteq> Some ln) existingLines)
                                 in (Inr (if target < length bps then reply_verified (bps ! target) else None),
                                     setBreakpoints sid f (response_mapping f existingLines bps) w2)))))))"

definition remove_breakpoint ::
  "(string \<Rightarrow> string) \<Rightarrow> string \<Rightarrow> string \<Rightarrow> int \<Rightarrow> reply \<Rightarrow> world \<Rightarrow> (error + unit) \<times> world" where
  "remove_breakpoint resolve sid f ln reply w =
     (case getSession sid w of
        None \<Rightarrow> (Inl (session_not_connected sid), w)
      | Some (r, session) \<Rightarrow>
          (case dapClient session of
             None \<Rightarrow> (Inl (session_not_connected sid), w)
           | Some cr \<Rightarrow>
               (let existingBreakpoints = getBreakpoints sid (Some f) w;
                    updatedLines = map bp_line (filter (\<lambda>bp. bp_line bp \<noteq> Some ln) existingBreakpoints)
                in (case call_client cr (dap_setBreakpoints (resolve f) updatedLines) reply w of
                      (out, w1) \<Rightarrow>
                        (case unchecked_breakpoints out of
                           Inl e \<Rightarrow> (Inl (tool_error ''remove_breakpoint'' e), w1)
                         | Inr bps \<Rightarrow>
                             (Inr (), setBreakpoints sid f (response_mapping f updatedLines bps) w1))))))"

definition list_breakpoints :: "string \<Rightarrow> string option \<Rightarrow> world \<Rightarrow> error + Breakpoint list" where
  "list_breakpoints sid f w =
     (case getSession sid w of
        None \<Rightarrow> Inl (session_not_found sid)
      | Some (r, session) \<Rightarrow> Inr (getBreakpoints sid f w))"

subsection \<open>Execution control\<close>

text \<open>
  The guard of the four tools: \<open>!session || !session.dapClient || !session.currentThreadId\<close>,
  where the thread id 0 is falsy as an absent one is.
\<close>

definition no_active_thread :: "string \<Rightarrow> error" where
  "no_active_thread sid =
     McpError InvalidParams (''Session '' @ sid @ '' not found, not connected, or no active thread'')"

definition thread_guard :: "string \<Rightarrow> world \<Rightarrow> error + (nat \<times> int)" where
  "thread_guard sid w =
     (case getSession sid w of
        None \<Rightarrow> Inl (no_active_thread sid)
      | Some (r, session) \<Rightarrow>
          (case dapClient session of
             None \<Rightarrow> Inl (no_active_thread sid)
           | Some cr \<Rightarrow>
               (case currentThreadId session of
                  None \<Rightarrow> Inl (no_active_thread sid)
                | Some t \<Rightarrow> if t = 0 then Inl (no_active_thread sid) else Inr (cr, t))))"

text \<open>Each tool from its call to its return; \<open>reply\<close> is the adapter's answer to its request.\<close>

definition debug_continue :: "string \<Rightarrow> reply \<Rightarrow> world \<Rightarrow> (error + unit) \<times> world" where
  "debug_continue sid reply w =
     (case thread_guard sid w of
        Inl e \<Rightarrow> (Inl e, w)
      | Inr (cr, t) \<Rightarrow>
          (case call_client cr (continue t) reply w of
             (Rejected e, w1) \<Rightarrow> (Inl (tool_error ''debug_continue'' e), w1)
           | (Resolved b, w1) \<Rightarrow> (Inr (), updateSessionState sid Running w1)))"

definition debug_step_over :: "string \<Rightarrow> reply \<Rightarrow> world \<Rightarrow> (error + unit) \<times> world" where
  "debug_step_over sid reply w =
     (case thread_guard sid w of
        Inl e \<Rightarrow> (Inl e, w)
      | Inr (cr, t) \<Rightarrow>
          (case call_client cr (stepOver t) reply w of
             (Rejected e, w1) \<Rightarrow> (Inl (tool_error ''debug_step_over'' e), w1)
           | (Resolved b, w1) \<Rightarrow> (Inr (), w1)))"

definition debug_step_in :: "string \<Rightarrow> reply \<Rightarrow> world \<Rightarrow> (error + unit) \<times> world" where
  "debug_step_in sid reply w =
     (case thread_guard sid w of
        Inl e \<Rightarrow> (Inl e, w)
      | Inr (cr, t) \<Rightarrow>
          (case call_client cr (stepIn t) reply w of
             (Rejected e, w1) \<Rightarrow> (Inl (tool_error ''debug_step_in'' e), w1)
           | (Resolved b, w1) \<Rightarrow> (Inr (), w1)))"

definition debug_step_out :: "string \<Rightarrow> reply \<Rightarrow> world \<Rightarrow> (error + unit) \<times> world" where
  "debug_step_out sid reply w =
     (case thread_guard sid w of
        Inl e \<Rightarrow> (Inl e, w)
      | Inr (cr, t) \<Rightarrow>
          (case call_client cr (stepOut t) reply w of
             (Rejected e, w1) \<Rightarrow> (Inl (tool_error ''debug_step_out'' e), w1)
           | (Resolved b, w1) \<Rightarrow> (Inr (), w1)))"

definition stop_debug_session :: "string \<Rightarrow> world \<Rightarrow> (error + unit) \<times> world" where
  "stop_debug_session sid w =
     (case getSession sid w of
        None \<Rightarrow> (Inl (session_not_found sid), w)
      | Some (r, session) \<Rightarrow> (Inr (), terminateSession sid w))"

subsection \<open>The event handlers of a session\<close>

text \<open>
  \<open>setupDAPEventHandlers\<close> registers closures over the session object \<open>r\<close>. The state
  is written through the session manager, by the session's id. The handlers of
  \<open>continued\<close> and \<open>exited\<close> are given the body that the protocol requires of these
  events. A \<open>terminated\<close> event may come without a body: the handler reads
  \<open>body.reason\<close> first, which throws for a body that is \<open>undefined\<close>, and the state is
  left as it is.
\<close>

definition set_state_of :: "nat \<Rightarrow> session_state \<Rightarrow> world \<Rightarrow> world" where
  "set_state_of r st w =
     (case session_heap w r of
        None \<Rightarrow> w
      | Some session \<Rightarrow> updateSessionState (session_id session) st w)"

definition on_continued :: "nat \<Rightarrow> event_body \<Rightarrow> world \<Rightarrow> world" where
  "on_continued r b w = set_state_of r Running w"

definition on_terminated :: "nat \<Rightarrow> event_body option \<Rightarrow> world \<Rightarrow> world" where
  "on_terminated r b w = (case b of None \<Rightarrow> w | Some given \<Rightarrow> set_state_of r Stopped w)"

definition on_exited :: "nat \<Rightarrow> event_body \<Rightarrow> world \<Rightarrow> world" where
  "on_exited r b w = set_state_of r Stopped w"

text \<open>
  The \<open>stopped\<close> handler in its three parts: what it does before it waits
  (\<open>stopped_event\<close>, for a thread id that is there and not 0), the stack trace it waits
  for, with one retry (\<open>stopped_stackTrace\<close>), and what it does with the frames
  (\<open>stopped_frames\<close>).
\<close>

definition stopped_thread :: "event_body \<Rightarrow> int option" where
  "stopped_thread b = (case threadId b of None \<Rightarrow> None | Some t \<Rightarrow> if t = 0 then None else Some t)"

definition stopped_event :: "nat \<Rightarrow> int \<Rightarrow> world \<Rightarrow> world" where
  "stopped_event r t w =
     set_state_of r Paused (update_session r (\<lambda>s. s\<lparr>currentThreadId := Some t\<rparr>) w)"

definition stopped_stackTrace :: "nat \<Rightarrow> int \<Rightarrow> reply \<Rightarrow> world \<Rightarrow> (error + StackFrame list) \<times> world" where
  "stopped_stackTrace r t reply w =
     (case session_heap w r of
        None \<Rightarrow> (Inl TypeError, w)
      | Some session \<Rightarrow>
          (case dapClient session of
             None \<Rightarrow> (Inl TypeError, w)
           | Some cr \<Rightarrow>
               (case call_client cr (stackTrace t) reply w of
                  (out, w1) \<Rightarrow> (stackTrace_result out, w1))))"

definition stopped_frames :: "nat \<Rightarrow> StackFrame list \<Rightarrow> world \<Rightarrow> world" where
  "stopped_frames r frames w =
     (case frames of
        [] \<Rightarrow> w
      | frame0 # rest \<Rightarrow> update_session r (\<lambda>s. s\<lparr>currentFrameId := Some (frame_id frame0)\<rparr>) w)"

definition on_stopped :: "nat \<Rightarrow> event_body \<Rightarrow> (nat \<Rightarrow> reply) \<Rightarrow> world \<Rightarrow> world" where
  "on_stopped r b replies w =
     (case stopped_thread b of
        None \<Rightarrow> w
      | Some t \<Rightarrow>
          (case retryDAPOperation (stopped_stackTrace r t) 2 replies 1 (stopped_event r t w) of
             (Some (Inr frames), w1) \<Rightarrow> stopped_frames r frames w1
           | (other, w1) \<Rightarrow> w1))"

text \<open>
  \<open>initializeThreadContext\<close>, the last step of the handshake, and its end: the state
  becomes \<open>running\<close>.
\<close>

definition initializeThreadContext :: "nat \<Rightarrow> nat \<Rightarrow> reply \<Rightarrow> reply \<Rightarrow> world \<Rightarrow> world" where
  "initializeThreadContext r cr threads_reply frames_reply w =
     (case call_client cr threads threads_reply w of
        (out, w1) \<Rightarrow>
          (case threads_result out of
             Inl e \<Rightarrow> w1
           | Inr [] \<Rightarrow> w1
           | Inr (first # others) \<Rightarrow>
               let w2 = update_session r (\<lambda>s. s\<lparr>currentThreadId := Some (thread_id first)\<rparr>) w1
               in (case call_client cr (stackTrace (thread_id first)) frames_reply w2 of
                     (out2, w3) \<Rightarrow>
                       (case stackTrace_result out2 of
                          Inl e \<Rightarrow> w3
                        | Inr [] \<Rightarrow> w3
                        | Inr (frame0 # rest) \<Rightarrow>
                            update_session r (\<lambda>s. s\<lparr>currentFrameId := Some (frame_id frame0)\<rparr>) w3))))"

subsection \<open>The attach sequence\<close>

text \<open>
  The calls that the sequence makes on timers and on the client as an event emitter.
\<close>

definition setTimeout :: "nat \<Rightarrow> timeout_action \<Rightarrow> world \<Rightarrow> world" where
  "setTimeout ms callback w = w\<lparr>timeouts := timeouts w @ [(ms, callback)]\<rparr>"

definition clearTimeout :: "nat \<Rightarrow> world \<Rightarrow> world" where
  "clearTimeout handle w = w\<lparr>cleared := cleared w @ [handle]\<rparr>"

definition once :: "nat \<Rightarrow> string \<Rightarrow> listener \<Rightarrow> world \<Rightarrow> world" where
  "once cr name l w = w\<lparr>listeners := listeners w @ [(cr, name, l)]\<rparr>"

fun run_listener :: "listener \<Rightarrow> world \<Rightarrow> world" where
  "run_listener (Resolve_initialized handle) w = clearTimeout handle w"

text \<open>
  The client \<open>cr\<close> receives the \<open>initialized\<close> event, which has no body:
  \<open>handleMessage\<close> emits it, and the emitter removes the listeners registered with
  \<open>once\<close> for it on this client and calls them, in the order of their registration.
  No other listener is registered for this event.
\<close>

definition initialized_event :: DAPEvent where
  "initialized_event = \<lparr>event = ''initialized'', event_body = None\<rparr>"

definition listens :: "nat \<Rightarrow> string \<Rightarrow> nat \<times> string \<times> listener \<Rightarrow> bool" where
  "listens cr name entry = (fst entry = cr \<and> fst (snd entry) = name)"

definition receive_initialized :: "nat \<Rightarrow> world \<Rightarrow> world" where
  "receive_initialized cr w =
     (let w1 = update_client cr (handleMessage (Event initialized_event)) w;
          called = filter (listens cr ''initialized'') (listeners w1);
          w2 = w1\<lparr>listeners := filter (\<lambda>entry. \<not> listens cr ''initialized'' entry) (listeners w1)\<rparr>
      in fold (\<lambda>entry. run_listener (snd (snd entry))) called w2)"

text \<open>
  A typed operation of the client \<open>cr\<close> up to the promise it returns, and the
  settling of that promise by the adapter's answer: the two halves of \<open>call_client\<close>
  (lemma \<open>call_client_halves\<close>), between which an event may arrive.
\<close>

definition request_client ::
  "nat \<Rightarrow> (DAPClient \<Rightarrow> (error + nat) \<times> DAPClient) \<Rightarrow> world \<Rightarrow> (error + nat) \<times> world" where
  "request_client cr operation w =
     (case client_heap w cr of
        None \<Rightarrow> (Inl TypeError, w)
      | Some c \<Rightarrow>
          (case operation c of
             (sent, c1) \<Rightarrow> (sent, w\<lparr>client_heap := (client_heap w)(cr \<mapsto> c1)\<rparr>)))"

definition answer_client :: "nat \<Rightarrow> nat \<Rightarrow> reply \<Rightarrow> world \<Rightarrow> world" where
  "answer_client cr seq reply w = update_client cr (settle seq reply) w"

text \<open>
  What the adapter does in one attempt: its answer to the \<open>attach\<close> request, when
  the \<open>initialized\<close> event arrives, in ms after the listener was registered, if it
  does, and whether it arrives before the promise of the \<open>attach\<close> request is
  settled. An event that arrives before the deadline of 15000 ms arrives while the
  attempt waits; one that arrives later finds the promise rejected, and is received
  during the wait of 2000 ms that follows, or belongs to the next attempt.
\<close>

record attempt =
  attach_answer :: reply
  initialized_at :: "nat option"
  before_answer :: bool

definition initialized_in_time :: "nat \<Rightarrow> attempt \<Rightarrow> bool" where
  "initialized_in_time deadline a = (case initialized_at a of None \<Rightarrow> False | Some t \<Rightarrow> t < deadline)"

definition initialized_in_wait :: "nat \<Rightarrow> nat \<Rightarrow> attempt \<Rightarrow> bool" where
  "initialized_in_wait deadline wait a =
     (case initialized_at a of None \<Rightarrow> False | Some t \<Rightarrow> deadline \<le> t \<and> t < deadline + wait)"

text \<open>
  One run of the body of the loop of \<open>performAttachSequence\<close>, up to the end of
  \<open>await initializedPromise\<close>: whether that promise was resolved, and the states of
  the server after each action, in order. The executor of the promise sets the timer
  and registers the listener; then \<open>attach\<close> is called and awaited, and what it
  throws is caught; then the promise is awaited. The promise is resolved by the
  listener and by nothing else, and the emitter removes the listener when it calls
  it: the promise is resolved when the listener is not registered any more, and is
  rejected by the timer otherwise.
\<close>

definition attach_attempt :: "nat \<Rightarrow> attempt \<Rightarrow> world \<Rightarrow> bool \<times> world list" where
  "attach_attempt cr a w =
     (let handle = length (timeouts w);
          w1 = setTimeout 15000 Reject_initialized w;
          w2 = once cr ''initialized'' (Resolve_initialized handle) w1;
          (sent, w3) = request_client cr attach w2;
          early = (if initialized_in_time 15000 a \<and> before_answer a
                   then [receive_initialized cr w3] else []);
          w4 = last (w3 # early);
          answer = (case sent of
                      Inl e \<Rightarrow> []
                    | Inr seq \<Rightarrow> [answer_client cr seq (attach_answer a) w4]);
          w5 = last (w4 # answer);
          late = (if initialized_in_time 15000 a \<and> \<not> before_answer a
                  then [receive_initialized cr w5] else []);
          w6 = last (w5 # late)
      in ((cr, ''initialized'', Resolve_initialized handle) \<notin> set (listeners w6),
          [w1, w2, w3] @ early @ answer @ late))"

text \<open>
  \<open>performAttachSequence\<close>: the loop over \<open>attempt\<close>, from 1. Next to its result the
  function gives the states of the server after each of its actions, in order; the
  server is left in the last of them.
\<close>

function attach_attempts :: "nat \<Rightarrow> (nat \<Rightarrow> attempt) \<Rightarrow> nat \<Rightarrow> world \<Rightarrow> bool \<times> world list" where
  "attach_attempts cr env attempt w =
     (if attempt \<le> 3 then
        (case attach_attempt cr (env attempt) w of
           (resolved, states) \<Rightarrow>
             if resolved then (True, states)
             else
               (let waited =
                      (if attempt < 3
                       then sleep 2000 (last states) #
                              (if initialized_in_wait 15000 2000 (env attempt)
                               then [receive_initialized cr (sleep 2000 (last states))] else [])
                       else [])
                in (case attach_attempts cr env (attempt + 1) (last (states @ waited)) of
                      (result, rest) \<Rightarrow> (result, states @ waited @ rest))))
      else (False, []))"
  by pat_completeness auto
termination
  by (relation "measure (\<lambda>(cr, env, attempt, w). 4 - attempt)") auto

declare attach_attempts.simps [simp del]

definition performAttachSequence :: "nat \<Rightarrow> (nat \<Rightarrow> attempt) \<Rightarrow> world \<Rightarrow> bool \<times> world list" where
  "performAttachSequence cr env w = attach_attempts cr env 1 w"

section \<open>Notions used in the statements\<close>

text \<open>The responses among the messages received, in order, and how each settles its request.\<close>

fun responses :: "DAPMessage list \<Rightarrow> DAPResponse list" where
  "responses [] = []"
| "responses (Response r # ms) = r # responses ms"
| "responses (m # ms) = responses ms"

definition response_outcome :: "DAPResponse \<Rightarrow> outcome" where
  "response_outcome r =
     (if success r then Resolved (response_body r)
      else Rejected (Error (message_or_default (message r))))"

text \<open>A connected client that has sent one request, and has no answer yet.\<close>

definition requested :: "string \<Rightarrow> DAPClient" where
  "requested command = snd (sendRequest command Args_none (on_socket_connect new_DAPClient))"

text \<open>
  A server with one session \<open>s1\<close>, whose client waits for the answer to a \<open>variables\<close>
  request and whose process runs.
\<close>

definition world1 :: world where
  "world1 =
     (let w = createSession ''s1'' 0 ''/t/a.py'' initial_world
      in (update_session 0 (\<lambda>s. s\<lparr>dapClient := Some 0, pythonProcess := Some 0\<rparr>) w)
           \<lparr>client_heap := [0 \<mapsto> requested ''variables''],
            process_heap := [0 \<mapsto> \<lparr>killed = False, exited = False, signals = []\<rparr>]\<rparr>)"

text \<open>A connected client that has sent the requests A and B, with sequence numbers 1 and 2.\<close>

definition two_requests :: DAPClient where
  "two_requests = snd (sendRequest ''B'' Args_none (requested ''A''))"

text \<open>
  What can happen to a client object: the listeners of its socket are called
  (\<open>connect\<close>, \<open>data\<close> with a chunk, \<open>error\<close>, \<open>close\<close>), \<open>close\<close> is called, a typed
  operation calls \<open>sendRequest\<close>, \<open>disconnect\<close> ends after its request, or the timer
  of a request fires. \<open>parse\<close> is \<open>JSON.parse\<close>.
\<close>

datatype client_action =
    Socket_connect
  | Socket_data "nat list"
  | Socket_error
  | Socket_close
  | Call_close
  | Call_sendRequest string args
  | Finish_disconnect
  | Timer nat string

fun perform :: "(nat list \<Rightarrow> DAPMessage option) \<Rightarrow> client_action \<Rightarrow> DAPClient \<Rightarrow> DAPClient" where
  "perform parse Socket_connect c = on_socket_connect c"
| "perform parse (Socket_data data) c = handleData parse data c"
| "perform parse Socket_error c = c"
| "perform parse Socket_close c = on_socket_close c"
| "perform parse Call_close c = close c"
| "perform parse (Call_sendRequest command a) c = snd (sendRequest command a c)"
| "perform parse Finish_disconnect c = disconnect_finish c"
| "perform parse (Timer seq command) c = request_timeout seq command c"

text \<open>
  How the promise of a request with the command \<open>command\<close> ends when the adapter's
  answer is \<open>reply\<close>, whether the answer is a success, and the client after it has sent
  the request and the promise is settled.
\<close>

definition reply_outcome :: "string \<Rightarrow> reply \<Rightarrow> outcome" where
  "reply_outcome command reply =
     (case reply of
        Respond ok msg b \<Rightarrow> if ok then Resolved b else Rejected (Error (message_or_default msg))
      | No_response \<Rightarrow> Rejected (Error (''Request timeout: '' @ command)))"

definition succeeds :: "reply \<Rightarrow> bool" where
  "succeeds reply = (case reply of Respond ok msg b \<Rightarrow> ok | No_response \<Rightarrow> False)"

definition answered :: "string \<Rightarrow> args \<Rightarrow> reply \<Rightarrow> DAPClient \<Rightarrow> DAPClient" where
  "answered command a reply c =
     c\<lparr>sequenceNumber := sequenceNumber c + 1,
       pendingRequests := (pendingRequests c)(sequenceNumber c := None),
       wire := wire c @ [Write \<lparr>req_seq = sequenceNumber c, req_command = command, req_arguments = a\<rparr>],
       timers := timers c @ [(10000, sequenceNumber c, command)],
       settled := (settled c)(sequenceNumber c \<mapsto> reply_outcome command reply)\<rparr>"

text \<open>
  A server with one session \<open>s1\<close> that has a connected client and is running, and the
  same after a \<open>stopped\<close> event for thread 1 has been received.
\<close>

definition world_running :: world where
  "world_running =
     updateSessionState ''s1'' Running
       ((update_session 0 (\<lambda>s. s\<lparr>pythonProcess := None, dapClient := Some 0, port := 5679\<rparr>)
           (createSession ''s1'' 0 ''/t/a.py'' initial_world))
          \<lparr>client_heap := [0 \<mapsto> on_socket_connect new_DAPClient],
           process_heap := Map.empty, timeouts := []\<rparr>)"

definition world_paused :: world where
  "world_paused = stopped_event 0 1 world_running"

text \<open>
  What can happen to the server, one step at a time: the tools, the event handlers
  (the \<open>stopped\<close> handler in its three parts, so that the states in which it waits
  are states of the server), the steps of the handshake that write to a session,
  \<open>objects\<close> for everything that happens to clients, processes and timers only, and
  \<open>emitter\<close> for what happens to the listeners and the cleared timers.
  \<open>create\<close> takes an object and an identifier that were never used, as \<open>uuidv4\<close>
  gives. \<open>reachable\<close> are the states the server can be in.
\<close>

inductive step :: "world \<Rightarrow> world \<Rightarrow> bool" where
  create: "r \<notin> dom (session_heap w) \<Longrightarrow> sid \<notin> session_id ` ran (session_heap w) \<Longrightarrow>
      step w (createSession sid r path w)"
| store: "step w (update_session r (\<lambda>s. s\<lparr>pythonProcess := pr, dapClient := cr, port := p\<rparr>) w)"
| objects: "step w (w\<lparr>client_heap := ch, process_heap := ph, timeouts := ts\<rparr>)"
| emitter: "step w (w\<lparr>listeners := ls, cleared := cl\<rparr>)"
| handshake_done: "step w (updateSessionState sid Running w)"
| thread_context: "step w (initializeThreadContext r cr threads_reply frames_reply w)"
| terminate: "step w (terminateSession sid w)"
| forced_kill: "step w (force_kill r w)"
| set_bp: "step w (snd (set_breakpoint resolve sid f ln validation reply w))"
| remove_bp: "step w (snd (remove_breakpoint resolve sid f ln reply w))"
| continue_tool: "step w (snd (debug_continue sid reply w))"
| step_over_tool: "step w (snd (debug_step_over sid reply w))"
| step_in_tool: "step w (snd (debug_step_in sid reply w))"
| step_out_tool: "step w (snd (debug_step_out sid reply w))"
| stop_tool: "step w (snd (stop_debug_session sid w))"
| continued: "step w (on_continued r b w)"
| terminated: "step w (on_terminated r b w)"
| exited: "step w (on_exited r b w)"
| stopped_begin: "stopped_thread b = Some t \<Longrightarrow> step w (stopped_event r t w)"
| stopped_trace: "step w (snd (stopped_stackTrace r t reply w))"
| stopped_end: "step w (stopped_frames r frames w)"

definition reachable :: "world \<Rightarrow> bool" where
  "reachable w = step\<^sup>*\<^sup>* initial_world w"

text \<open>
  The invariant: a paused session has a thread id, and a session object is registered
  under its own id only. \<open>refines w w'\<close> says that \<open>w'\<close> has the session objects of
  \<open>w\<close>, each with its id, still with a thread id if paused and still with a frame id if
  it had one, and no new registration.
\<close>

definition paused_ok :: "DebugSession \<Rightarrow> bool" where
  "paused_ok s = (state s = Paused \<longrightarrow> currentThreadId s \<noteq> None)"

definition consistent :: "world \<Rightarrow> bool" where
  "consistent w =
     (\<forall>r s. session_heap w r = Some s \<longrightarrow>
        paused_ok s \<and> (\<forall>r'. sessions w (session_id s) = Some r' \<longrightarrow> r' = r))"

definition refines :: "world \<Rightarrow> world \<Rightarrow> bool" where
  "refines w w' =
     ((\<forall>k. sessions w' k = None \<or> sessions w' k = sessions w k) \<and>
      (\<forall>r s'. session_heap w' r = Some s' \<longrightarrow>
         (\<exists>s. session_heap w r = Some s \<and> session_id s' = session_id s \<and>
              (paused_ok s \<longrightarrow> paused_ok s') \<and>
              (currentFrameId s \<noteq> None \<longrightarrow> currentFrameId s' \<noteq> None))) \<and>
      (\<forall>r s. session_heap w r = Some s \<longrightarrow> session_heap w' r \<noteq> None))"

text \<open>
  Calls of \<open>set_breakpoint\<close> for one file, one after the other, each with its line and
  the adapter's two answers; a session that is registered and has a connected client;
  and an adapter that answers every call as the protocol asks: the \<open>threads\<close> request
  with success and a body, the \<open>setBreakpoints\<close> request with success and as many
  breakpoints as lines were sent.
\<close>

definition ready :: "string \<Rightarrow> world \<Rightarrow> bool" where
  "ready sid w =
     (case getSession sid w of
        None \<Rightarrow> False
      | Some (r, s) \<Rightarrow>
          (case dapClient s of
             None \<Rightarrow> False
           | Some cr \<Rightarrow>
               (case client_heap w cr of None \<Rightarrow> False | Some c \<Rightarrow> connected c \<and> socket c)))"

fun set_breakpoint_calls ::
  "(string \<Rightarrow> string) \<Rightarrow> string \<Rightarrow> string \<Rightarrow> (int \<times> reply \<times> reply) list \<Rightarrow> world \<Rightarrow> world" where
  "set_breakpoint_calls resolve sid f [] w = w"
| "set_breakpoint_calls resolve sid f ((ln, validation, reply) # calls) w =
     set_breakpoint_calls resolve sid f calls (snd (set_breakpoint resolve sid f ln validation reply w))"

definition answers_threads :: "reply \<Rightarrow> bool" where
  "answers_threads reply = (case reply of Respond ok msg (Some b) \<Rightarrow> ok | _ \<Rightarrow> False)"

definition answers_lines :: "nat \<Rightarrow> reply \<Rightarrow> bool" where
  "answers_lines n reply =
     (case reply of
        Respond ok msg (Some b) \<Rightarrow>
          ok \<and> (case body_breakpoints b of None \<Rightarrow> False | Some bps \<Rightarrow> length bps = n)
      | _ \<Rightarrow> False)"

fun adapter_conforms ::
  "(string \<Rightarrow> string) \<Rightarrow> string \<Rightarrow> string \<Rightarrow> (int \<times> reply \<times> reply) list \<Rightarrow> world \<Rightarrow> bool" where
  "adapter_conforms resolve sid f [] w = True"
| "adapter_conforms resolve sid f ((ln, validation, reply) # calls) w =
     (1 \<le> ln \<and> answers_threads validation \<and>
      answers_lines (length (requested_lines sid f ln w)) reply \<and>
      adapter_conforms resolve sid f calls (snd (set_breakpoint resolve sid f ln validation reply w)))"

text \<open>Answers of the adapter, for the examples.\<close>

definition breakpoints_reply :: "bp_reply list \<Rightarrow> reply" where
  "breakpoints_reply bps =
     Respond True None (Some \<lparr>body_threads = None, body_stackFrames = None, body_breakpoints = Some bps\<rparr>)"

definition threads_reply :: reply where
  "threads_reply =
     Respond True None
       (Some \<lparr>body_threads = Some [\<lparr>thread_id = 1, thread_name = ''MainThread''\<rparr>],
              body_stackFrames = None, body_breakpoints = None\<rparr>)"

text \<open>
  Chunks handed to \<open>handleData\<close> one after the other, from the buffer \<open>buf\<close>: the
  bodies cut out in all, and the buffer left.
\<close>

fun feed :: "nat list list \<Rightarrow> nat list \<Rightarrow> nat list list \<times> nat list" where
  "feed [] buf = ([], buf)"
| "feed (data # chunks) buf =
     (case deframe (buf @ toString data) of
        (contents, rest) \<Rightarrow>
          (case feed chunks rest of (contents', rest') \<Rightarrow> (contents @ contents', rest')))"

section \<open>The client without a connection\<close>

lemma sendRequest_not_connected:
  "\<not> connected c \<or> \<not> socket c \<Longrightarrow>
   sendRequest command arguments c = (Inl (Error ''DAP client not connected''), c)"
  by (simp add: sendRequest_def)

lemmas typed_defs = initialize_def launch_def attach_def dap_setBreakpoints_def
  configurationDone_def continue_def stepOver_def stepIn_def stepOut_def pause_def
  threads_def stackTrace_def scopes_def variables_def evaluate_def

lemma requested_simps:
  "pendingRequests (requested command) = [1 \<mapsto> command]"
  "settled (requested command) = Map.empty"
  "connected (requested command)"
  "socket (requested command)"
  "sequenceNumber (requested command) = 2"
  "wire (requested command) = [Write \<lparr>req_seq = 1, req_command = command, req_arguments = Args_none\<rparr>]"
  by (simp_all add: requested_def sendRequest_def on_socket_connect_def new_DAPClient_def)

lemma connected_client_simps:
  "connected (on_socket_connect new_DAPClient)"
  "socket (on_socket_connect new_DAPClient)"
  "sequenceNumber (on_socket_connect new_DAPClient) = 1"
  "timers (on_socket_connect new_DAPClient) = []"
  by (simp_all add: on_socket_connect_def new_DAPClient_def)

text \<open>
  C10, as amended. Every typed operation but \<open>disconnect\<close>, invoked on a client that is
  not connected, throws \<open>DAP client not connected\<close> and leaves the client as it was:
  nothing is written, no sequence number is used, no pending entry is added.
  \<open>disconnect\<close> catches that error and returns; it ends and drops the socket if there is
  one, and also writes no request, uses no sequence number and adds no pending entry.
\<close>

theorem not_connected_throws:
  assumes "\<not> connected c \<or> \<not> socket c"
  shows "(op \<noteq> Op_disconnect \<longrightarrow> invoke op c = (Threw (Error ''DAP client not connected''), c)) \<and>
         (op = Op_disconnect \<longrightarrow>
            fst (invoke op c) = Returned \<and>
            sequenceNumber (snd (invoke op c)) = sequenceNumber c \<and>
            pendingRequests (snd (invoke op c)) = pendingRequests c \<and>
            timers (snd (invoke op c)) = timers c \<and>
            settled (snd (invoke op c)) = settled c \<and>
            wire (snd (invoke op c)) = (if socket c then wire c @ [End] else wire c) \<and>
            \<not> socket (snd (invoke op c)) \<and> \<not> connected (snd (invoke op c)))"
proof (cases op)
  case Op_disconnect
  then show ?thesis
    using assms by (simp add: disconnect_def sendRequest_not_connected disconnect_finish_def)
qed (use assms in \<open>simp_all add: started_def sendRequest_not_connected typed_defs\<close>)

theorem not_connected_throws_witness:
  "\<not> connected new_DAPClient \<and>
   invoke Op_threads new_DAPClient = (Threw (Error ''DAP client not connected''), new_DAPClient) \<and>
   fst (invoke Op_disconnect new_DAPClient) = Returned"
  using not_connected_throws [of new_DAPClient Op_threads]
    not_connected_throws [of new_DAPClient Op_disconnect]
  by (simp add: new_DAPClient_def)

text \<open>
  C10 as stated fails for \<open>disconnect\<close>: on a client whose socket has closed it does not
  throw, and it ends the socket.
\<close>

theorem disconnect_counterexample:
  "\<not> connected (on_socket_close (on_socket_connect new_DAPClient)) \<and>
   fst (invoke Op_disconnect (on_socket_close (on_socket_connect new_DAPClient))) = Returned \<and>
   wire (snd (invoke Op_disconnect (on_socket_close (on_socket_connect new_DAPClient)))) = [End] \<and>
   invoke Op_disconnect (on_socket_close (on_socket_connect new_DAPClient))
     \<noteq> (Threw (Error ''DAP client not connected''), on_socket_close (on_socket_connect new_DAPClient))"
  by (simp add: disconnect_def sendRequest_def on_socket_close_def on_socket_connect_def
      new_DAPClient_def disconnect_finish_def)

section \<open>Responses and pending requests\<close>

lemma fold_pending:
  "pendingRequests (fold handleMessage ms c) k =
     (if k \<in> request_seq ` set (responses ms) then None else pendingRequests c k)"
proof (induction ms arbitrary: c)
  case Nil
  then show ?case by simp
next
  case (Cons m ms)
  show ?case
  proof (cases m)
    case (Response r)
    then show ?thesis
      by (auto simp: Cons.IH Let_def split: option.splits)
  qed (simp_all add: Cons.IH)
qed

lemma fold_settled:
  "settled (fold handleMessage ms c) k =
     (if k \<in> dom (pendingRequests c) \<and> k \<in> request_seq ` set (responses ms)
      then map_of (map (\<lambda>r. (request_seq r, response_outcome r)) (responses ms)) k
      else settled c k)"
proof (induction ms arbitrary: c)
  case Nil
  then show ?case by simp
next
  case (Cons m ms)
  show ?case
  proof (cases m)
    case (Response r)
    then show ?thesis
      by (auto simp: Cons.IH Let_def response_outcome_def dom_def split: option.splits)
  qed (simp_all add: Cons.IH)
qed

lemma mset_responses:
  assumes "mset ms' = mset ms"
  shows "mset (responses ms') = mset (responses ms)"
proof -
  have "mset (responses xs) =
          image_mset (\<lambda>m. case m of Response r \<Rightarrow> r)
            (filter_mset (\<lambda>m. case m of Response r \<Rightarrow> True | _ \<Rightarrow> False) (mset xs))" for xs
    by (induction xs rule: responses.induct) auto
  with assms show ?thesis by simp
qed

lemma arrival_order:
  assumes "mset ms' = mset ms" and "distinct (map request_seq (responses ms))"
  shows "pendingRequests (fold handleMessage ms' c) = pendingRequests (fold handleMessage ms c) \<and>
         settled (fold handleMessage ms' c) = settled (fold handleMessage ms c)"
proof -
  have m: "mset (responses ms') = mset (responses ms)"
    using assms(1) by (rule mset_responses)
  then have s: "set (responses ms') = set (responses ms)"
    by (metis set_mset_mset)
  have "mset (map request_seq (responses ms')) = mset (map request_seq (responses ms))"
    using m by (metis mset_map)
  then have d: "distinct (map request_seq (responses ms'))"
    using assms(2) by (metis mset_eq_imp_distinct_iff)
  let ?f = "\<lambda>r. (request_seq r, response_outcome r)"
  have "map_of (map ?f (responses ms')) = map_of (map ?f (responses ms))"
  proof (rule map_of_inject_set[THEN iffD2])
    show "distinct (map fst (map ?f (responses ms')))" using d by (simp add: comp_def)
    show "distinct (map fst (map ?f (responses ms)))" using assms(2) by (simp add: comp_def)
    show "set (map ?f (responses ms')) = set (map ?f (responses ms))" using s by simp
  qed
  then have "settled (fold handleMessage ms' c) = settled (fold handleMessage ms c)"
    by (auto simp: fun_eq_iff fold_settled s)
  moreover have "pendingRequests (fold handleMessage ms' c) = pendingRequests (fold handleMessage ms c)"
    by (auto simp: fun_eq_iff fold_pending s)
  ultimately show ?thesis by simp
qed

text \<open>
  C6, as amended. A response whose \<open>request_seq\<close> names a pending request removes the
  entry and settles that request's promise: resolved with \<open>response.body\<close> when
  \<open>success\<close> is true; otherwise rejected with an error that carries \<open>response.message\<close>
  when that is a string that is not empty, and \<open>Request failed\<close> when the message is
  absent or empty. No other entry and no other promise is touched, and when the
  responses among the messages received name different requests, the pending table and
  the settled promises at the end are the same in whatever order the messages arrive.
\<close>

theorem response_settles_request:
  assumes "pendingRequests c (request_seq r) = Some command"
  shows "pendingRequests (handleMessage (Response r) c) = (pendingRequests c)(request_seq r := None) \<and>
         settled (handleMessage (Response r) c) = (settled c)(request_seq r \<mapsto> response_outcome r) \<and>
         (success r \<longrightarrow> response_outcome r = Resolved (response_body r)) \<and>
         (\<not> success r \<and> message r = Some m \<and> m \<noteq> [] \<longrightarrow> response_outcome r = Rejected (Error m)) \<and>
         (\<not> success r \<and> (message r = None \<or> message r = Some []) \<longrightarrow>
            response_outcome r = Rejected (Error ''Request failed'')) \<and>
         (mset ms' = mset ms \<and> distinct (map request_seq (responses ms)) \<longrightarrow>
            pendingRequests (fold handleMessage ms' c0) = pendingRequests (fold handleMessage ms c0) \<and>
            settled (fold handleMessage ms' c0) = settled (fold handleMessage ms c0))"
  using assms arrival_order [of ms' ms c0]
  by (auto simp: response_outcome_def message_or_default_def Let_def)

lemma two_requests_pending: "pendingRequests two_requests = [1 \<mapsto> ''A'', 2 \<mapsto> ''B'']"
  by (simp add: two_requests_def sendRequest_def requested_simps)

theorem response_settles_request_witness:
  "pendingRequests two_requests 2 = Some ''B'' \<and>
   pendingRequests (handleMessage (Response \<lparr>request_seq = 2, success = True, message = None, response_body = None\<rparr>) two_requests)
     = [1 \<mapsto> ''A''] \<and>
   settled (handleMessage (Response \<lparr>request_seq = 2, success = True, message = None, response_body = None\<rparr>) two_requests) 2
     = Some (Resolved None) \<and>
   settled (fold handleMessage
       [Response \<lparr>request_seq = 2, success = True, message = None, response_body = None\<rparr>,
        Response \<lparr>request_seq = 1, success = False, message = Some ''no'', response_body = None\<rparr>] two_requests)
     = settled (fold handleMessage
       [Response \<lparr>request_seq = 1, success = False, message = Some ''no'', response_body = None\<rparr>,
        Response \<lparr>request_seq = 2, success = True, message = None, response_body = None\<rparr>] two_requests)"
  using response_settles_request [of two_requests
      "\<lparr>request_seq = 2, success = True, message = None, response_body = None\<rparr>" "''B''" "''x''"
      "[Response \<lparr>request_seq = 2, success = True, message = None, response_body = None\<rparr>,
        Response \<lparr>request_seq = 1, success = False, message = Some ''no'', response_body = None\<rparr>]"
      "[Response \<lparr>request_seq = 1, success = False, message = Some ''no'', response_body = None\<rparr>,
        Response \<lparr>request_seq = 2, success = True, message = None, response_body = None\<rparr>]"
      two_requests]
  by (simp add: two_requests_pending response_outcome_def fun_upd_twist)

text \<open>
  C6 as stated fails for a failed response whose message is empty or absent: the error
  carries \<open>Request failed\<close>.
\<close>

theorem empty_message_counterexample:
  "settled (handleMessage (Response \<lparr>request_seq = 1, success = False, message = Some [], response_body = None\<rparr>)
      (requested ''threads'')) 1 = Some (Rejected (Error ''Request failed'')) \<and>
   settled (handleMessage (Response \<lparr>request_seq = 1, success = False, message = Some [], response_body = None\<rparr>)
      (requested ''threads'')) 1 \<noteq> Some (Rejected (Error [])) \<and>
   settled (handleMessage (Response \<lparr>request_seq = 1, success = False, message = None, response_body = None\<rparr>)
      (requested ''threads'')) 1 = Some (Rejected (Error ''Request failed''))"
  by (simp add: requested_simps message_or_default_def)

section \<open>Closing the socket and ending a session\<close>

lemma close_pending:
  "pendingRequests (close c) = pendingRequests c"
  "settled (close c) = settled c"
  by (simp_all add: close_def Let_def)

lemma terminate_client:
  assumes "getSession sid w = Some (r, s)" and "dapClient s = Some cr" and "client_heap w cr = Some c"
  shows "client_heap (terminateSession sid w) cr = Some (close c)"
  using assms
  by (auto simp: terminateSession_def Let_def update_session_def update_client_def
      update_process_def getSession_def split: option.splits)

lemma world1_session:
  "getSession ''s1'' world1 =
     Some (0, \<lparr>session_id = ''s1'', scriptPath = ''/t/a.py'', pythonProcess = Some 0,
               dapClient = Some 0, port = 5679, state = Starting, breakpoints = [],
               currentThreadId = None, currentFrameId = None\<rparr>)"
  by (simp add: world1_def createSession_def initial_world_def update_session_def getSession_def Let_def)

lemma world1_heaps:
  "client_heap world1 0 = Some (requested ''variables'')"
  "process_heap world1 0 = Some \<lparr>killed = False, exited = False, signals = []\<rparr>"
  "timeouts world1 = []"
  by (simp_all add: world1_def createSession_def initial_world_def update_session_def getSession_def Let_def)

lemma handleMessage_settled_changed:
  assumes "settled (handleMessage m c) seq \<noteq> settled c seq"
  shows "\<exists>response. m = Response response \<and> request_seq response = seq"
  using assms
  by (cases m) (auto simp: Let_def split: option.splits if_splits)

lemma fold_settled_changed:
  assumes "settled (fold (\<lambda>content c1. case parse content of None \<Rightarrow> c1 | Some m \<Rightarrow> handleMessage m c1)
             contents c) seq \<noteq> settled c seq"
  shows "\<exists>content\<in>set contents. \<exists>response. parse content = Some (Response response) \<and> request_seq response = seq"
  using assms
proof (induction contents arbitrary: c)
  case Nil
  then show ?case by simp
next
  case (Cons content contents)
  let ?c1 = "case parse content of None \<Rightarrow> c | Some m \<Rightarrow> handleMessage m c"
  show ?case
  proof (cases "settled ?c1 seq = settled c seq")
    case True
    with Cons.prems have "settled (fold (\<lambda>content c1. case parse content of None \<Rightarrow> c1 | Some m \<Rightarrow> handleMessage m c1)
             contents ?c1) seq \<noteq> settled ?c1 seq"
      by simp
    then show ?thesis
      using Cons.IH [of ?c1] by auto
  next
    case False
    then obtain m where m: "parse content = Some m" "settled (handleMessage m c) seq \<noteq> settled c seq"
      by (cases "parse content") auto
    then show ?thesis
      using handleMessage_settled_changed [OF m(2)] by auto
  qed
qed

lemma perform_settled_changed:
  assumes "settled (perform parse action c) seq \<noteq> settled c seq"
  shows "(\<exists>command. action = Timer seq command) \<or>
         (\<exists>data. action = Socket_data data \<and>
            (\<exists>content\<in>set (fst (deframe (messageBuffer c @ toString data))).
               \<exists>response. parse content = Some (Response response) \<and> request_seq response = seq))"
proof (cases action)
  case (Socket_data data)
  obtain contents rest where d: "deframe (messageBuffer c @ toString data) = (contents, rest)"
    by force
  have "settled (fold (\<lambda>content c1. case parse content of None \<Rightarrow> c1 | Some m \<Rightarrow> handleMessage m c1)
          contents (c\<lparr>messageBuffer := rest\<rparr>)) seq \<noteq> settled (c\<lparr>messageBuffer := rest\<rparr>) seq"
    using assms Socket_data d by (simp add: handleData_def)
  then show ?thesis
    using fold_settled_changed [of parse contents "c\<lparr>messageBuffer := rest\<rparr>" seq] Socket_data d
    by simp
next
  case (Timer seq' command)
  then show ?thesis
    using assms by (auto simp: request_timeout_def split: if_splits)
qed (use assms in \<open>simp_all add: on_socket_connect_def on_socket_close_def close_def
      disconnect_finish_def sendRequest_def Let_def split: if_splits\<close>)

text \<open>
  C4, as amended. Closing the socket rejects no pending request: \<open>close\<close>, the socket's
  \<open>close\<close> listener and \<open>terminateSession\<close> (which calls \<open>close\<close> on the session's
  client) leave the pending table and the settled promises as they were. A request
  that is pending then stays pending until its own 10 second timer fires, which
  rejects it with \<open>Request timeout\<close> and its command, or until a response for it
  arrives, which settles it as it does on an open socket: \<open>close\<close> only ends the
  socket, and the \<open>data\<close> listener stays. Nothing else that happens to a client
  settles a promise: a promise is settled only by the timer of its request and by a
  chunk of data that holds a response for it.
\<close>

theorem closing_keeps_requests_pending:
  "pendingRequests (close c) = pendingRequests c \<and> settled (close c) = settled c \<and>
   pendingRequests (on_socket_close c) = pendingRequests c \<and> settled (on_socket_close c) = settled c \<and>
   (getSession sid w = Some (r, s) \<and> dapClient s = Some cr \<and> client_heap w cr = Some c \<longrightarrow>
      client_heap (terminateSession sid w) cr = Some (close c)) \<and>
   (connected c0 \<and> socket c0 \<longrightarrow>
      timers (snd (sendRequest command a c0)) = timers c0 @ [(10000, sequenceNumber c0, command)]) \<and>
   (pendingRequests c seq = Some command \<longrightarrow>
      settled (request_timeout seq command (close c)) seq
        = Some (Rejected (Error (''Request timeout: '' @ command))) \<and>
      pendingRequests (request_timeout seq command (close c)) seq = None) \<and>
   (pendingRequests c (request_seq response) = Some command \<longrightarrow>
      settled (handleMessage (Response response) (close c)) (request_seq response)
        = Some (response_outcome response) \<and>
      pendingRequests (handleMessage (Response response) (close c)) (request_seq response) = None) \<and>
   (settled (perform parse action c) seq \<noteq> settled c seq \<longrightarrow>
      (\<exists>command. action = Timer seq command) \<or>
      (\<exists>data. action = Socket_data data \<and>
         (\<exists>content\<in>set (fst (deframe (messageBuffer c @ toString data))).
            \<exists>response. parse content = Some (Response response) \<and> request_seq response = seq)))"
  using perform_settled_changed [of parse action c seq]
  by (auto simp: close_pending terminate_client on_socket_close_def request_timeout_def
      sendRequest_def Let_def response_outcome_def)

theorem closing_keeps_requests_pending_witness:
  "timers (snd (sendRequest ''variables'' Args_none (on_socket_connect new_DAPClient)))
     = [(10000, 1, ''variables'')] \<and>
   client_heap (terminateSession ''s1'' world1) 0 = Some (close (requested ''variables'')) \<and>
   settled (request_timeout 1 ''variables'' (close (requested ''variables''))) 1
     = Some (Rejected (Error ''Request timeout: variables'')) \<and>
   settled (handleMessage
       (Response \<lparr>request_seq = 1, success = False, message = Some ''boom'', response_body = None\<rparr>)
       (close (requested ''variables''))) 1
     = Some (Rejected (Error ''boom'')) \<and>
   settled (perform (\<lambda>content. None) (Timer 1 ''variables'') (requested ''variables'')) 1
     \<noteq> settled (requested ''variables'') 1"
  using closing_keeps_requests_pending [where c = "requested ''variables''" and sid = "''s1''"
      and w = world1 and r = 0 and cr = 0 and c0 = "on_socket_connect new_DAPClient"
      and command = "''variables''" and a = Args_none and seq = 1
      and response = "\<lparr>request_seq = 1, success = False, message = Some ''boom'', response_body = None\<rparr>"
      and parse = "\<lambda>content. None" and action = "Timer 1 ''variables''"
      and s = "\<lparr>session_id = ''s1'', scriptPath = ''/t/a.py'', pythonProcess = Some 0,
        dapClient = Some 0, port = 5679, state = Starting, breakpoints = [],
        currentThreadId = None, currentFrameId = None\<rparr>"]
  by (simp add: world1_session world1_heaps requested_simps connected_client_simps
      response_outcome_def message_or_default_def request_timeout_def)

text \<open>
  C4 as stated fails: with a \<open>variables\<close> request pending, \<open>close\<close>, the socket's
  \<open>close\<close> listener and \<open>terminateSession\<close> all leave it pending and unsettled.
\<close>

theorem close_rejects_counterexample:
  "pendingRequests (requested ''variables'') 1 = Some ''variables'' \<and>
   pendingRequests (close (requested ''variables'')) 1 = Some ''variables'' \<and>
   settled (close (requested ''variables'')) 1 = None \<and>
   settled (on_socket_close (requested ''variables'')) 1 = None \<and>
   (case client_heap (terminateSession ''s1'' world1) 0 of
      None \<Rightarrow> False
    | Some c \<Rightarrow> pendingRequests c 1 = Some ''variables'' \<and> settled c 1 = None)"
  by (simp add: close_pending requested_simps on_socket_close_def
      terminate_client[OF world1_session _ world1_heaps(1)])

lemma terminateSession_effect:
  assumes "getSession sid w = Some (r, s)"
  shows "sessions (terminateSession sid w) sid = None \<and>
         (\<exists>s'. session_heap (terminateSession sid w) r = Some s' \<and> state s' = Stopped \<and> dapClient s' = None) \<and>
         (dapClient s = Some cr \<and> client_heap w cr = Some c \<longrightarrow>
            client_heap (terminateSession sid w) cr = Some (close c) \<and>
            \<not> connected (close c) \<and> \<not> socket (close c) \<and>
            (socket c \<longrightarrow> wire (close c) = wire c @ [End])) \<and>
         (pythonProcess s = Some pr \<and> process_heap w pr = Some p \<and> \<not> killed p \<longrightarrow>
            process_heap (terminateSession sid w) pr = Some (kill SIGTERM p) \<and>
            signals (kill SIGTERM p) = signals p @ [SIGTERM] \<and>
            timeouts (terminateSession sid w) = timeouts w @ [(2000, Force_kill r)])"
  using assms
  by (auto simp: terminateSession_def Let_def update_session_def update_client_def
      update_process_def getSession_def close_def kill_def split: option.splits)

text \<open>
  C3, as amended. \<open>terminateSession\<close> on a registered session closes its client (ends
  and drops the socket), calls \<open>kill\<close> with \<open>SIGTERM\<close> on its process when there is one
  that is not flagged killed and sets a timer of 2000 ms for the forced kill, sets the
  state of the session object to \<open>stopped\<close> and removes the session from the registry.
\<close>

theorem terminate_session:
  assumes "getSession sid w = Some (r, s)"
  shows "sessions (terminateSession sid w) sid = None \<and>
         (\<exists>s'. session_heap (terminateSession sid w) r = Some s' \<and> state s' = Stopped \<and> dapClient s' = None) \<and>
         (dapClient s = Some cr \<and> client_heap w cr = Some c \<longrightarrow>
            client_heap (terminateSession sid w) cr = Some (close c) \<and>
            \<not> connected (close c) \<and> \<not> socket (close c) \<and>
            (socket c \<longrightarrow> wire (close c) = wire c @ [End])) \<and>
         (pythonProcess s = Some pr \<and> process_heap w pr = Some p \<and> \<not> killed p \<longrightarrow>
            process_heap (terminateSession sid w) pr = Some (kill SIGTERM p) \<and>
            signals (kill SIGTERM p) = signals p @ [SIGTERM] \<and>
            timeouts (terminateSession sid w) = timeouts w @ [(2000, Force_kill r)])"
  using assms by (rule terminateSession_effect)

theorem terminate_session_witness:
  "sessions (terminateSession ''s1'' world1) ''s1'' = None \<and>
   (\<exists>s'. session_heap (terminateSession ''s1'' world1) 0 = Some s' \<and> state s' = Stopped \<and> dapClient s' = None) \<and>
   client_heap (terminateSession ''s1'' world1) 0 = Some (close (requested ''variables'')) \<and>
   process_heap (terminateSession ''s1'' world1) 0 = Some \<lparr>killed = True, exited = False, signals = [SIGTERM]\<rparr> \<and>
   timeouts (terminateSession ''s1'' world1) = [(2000, Force_kill 0)]"
  using terminate_session [OF world1_session, of 0 "requested ''variables''" 0
      "\<lparr>killed = False, exited = False, signals = []\<rparr>"]
  by (simp add: world1_heaps requested_simps kill_def)

text \<open>C3 as stated fails: the timer for the forced kill is set to 2000 ms, not 5000 ms.\<close>

theorem terminate_grace_counterexample:
  "timeouts (terminateSession ''s1'' world1) = [(2000, Force_kill 0)] \<and>
   (5000, Force_kill 0) \<notin> set (timeouts (terminateSession ''s1'' world1))"
  using terminateSession_effect [OF world1_session, of 0 "requested ''variables''" 0
      "\<lparr>killed = False, exited = False, signals = []\<rparr>"]
  by (simp add: world1_heaps)

section \<open>Requests and their answers\<close>

lemma await_request_settled:
  assumes "connected c" and "socket c"
  shows "await_request (sendRequest command a) reply c = (reply_outcome command reply, answered command a reply c)"
  using assms
  by (cases reply)
     (simp_all add: await_request_def sendRequest_def settle_def Let_def reply_outcome_def
        answered_def request_timeout_def)

lemma await_request_not_connected:
  assumes "\<not> connected c \<or> \<not> socket c"
  shows "await_request (sendRequest command a) reply c = (Rejected (Error ''DAP client not connected''), c)"
  using assms by (simp add: await_request_def sendRequest_def)

lemma call_client_frame:
  "session_heap (snd (call_client cr operation reply w)) = session_heap w"
  "sessions (snd (call_client cr operation reply w)) = sessions w"
  "process_heap (snd (call_client cr operation reply w)) = process_heap w"
  "timeouts (snd (call_client cr operation reply w)) = timeouts w"
  "portCounter (snd (call_client cr operation reply w)) = portCounter w"
  by (simp_all add: call_client_def split: option.splits prod.splits)

lemma call_client_connected:
  assumes "client_heap w cr = Some c" and "connected c" and "socket c"
  shows "call_client cr (sendRequest command a) reply w =
           (reply_outcome command reply, w\<lparr>client_heap := (client_heap w)(cr \<mapsto> answered command a reply c)\<rparr>)"
  using assms by (simp add: call_client_def await_request_settled)

lemma getSession_client_upd [simp]:
  "getSession sid (w\<lparr>client_heap := h\<rparr>) = getSession sid w"
  by (simp add: getSession_def split: option.splits)

lemma updateSessionState_state:
  assumes "getSession sid w = Some (r, s)"
  shows "getSession sid (updateSessionState sid st w) = Some (r, s\<lparr>state := st\<rparr>)"
  using assms by (auto simp: updateSessionState_def update_session_def getSession_def split: option.splits)

lemma updateSessionState_client [simp]:
  "client_heap (updateSessionState sid st w) = client_heap w"
  by (auto simp: updateSessionState_def update_session_def split: option.splits)

lemma thread_guard_Inr:
  "thread_guard sid w = Inr (cr, t) \<longleftrightarrow>
     (\<exists>r s. getSession sid w = Some (r, s) \<and> dapClient s = Some cr \<and> currentThreadId s = Some t \<and> t \<noteq> 0)"
  by (auto simp: thread_guard_def split: option.splits)

section \<open>Continue and step\<close>

lemma succeeds_outcome:
  "succeeds reply \<longleftrightarrow> (\<exists>b. reply_outcome command reply = Resolved b)"
  by (cases reply) (simp_all add: succeeds_def reply_outcome_def)

lemma execution_control:
  assumes "getSession sid w = Some (r, s)" and "dapClient s = Some cr" and "currentThreadId s = Some t" and "t \<noteq> 0"
    and "client_heap w cr = Some c" and "connected c" and "socket c" and "session_id s = sid"
  shows "client_heap (snd (debug_continue sid reply w)) cr = Some (answered ''continue'' (Args_threadId t) reply c) \<and>
         (getSession sid (snd (debug_continue sid reply w)) =
            Some (r, if succeeds reply then s\<lparr>state := Running\<rparr> else s)) \<and>
         snd (debug_step_over sid reply w) = w\<lparr>client_heap := (client_heap w)(cr \<mapsto> answered ''next'' (Args_threadId t) reply c)\<rparr> \<and>
         snd (debug_step_in sid reply w) = w\<lparr>client_heap := (client_heap w)(cr \<mapsto> answered ''stepIn'' (Args_threadId t) reply c)\<rparr> \<and>
         snd (debug_step_out sid reply w) = w\<lparr>client_heap := (client_heap w)(cr \<mapsto> answered ''stepOut'' (Args_threadId t) reply c)\<rparr> \<and>
         getSession sid (on_continued r b w) = Some (r, s\<lparr>state := Running\<rparr>)"
proof -
  have g: "thread_guard sid w = Inr (cr, t)"
    using assms by (simp add: thread_guard_Inr)
  have cc: "call_client cr (sendRequest command a) reply w =
           (reply_outcome command reply, w\<lparr>client_heap := (client_heap w)(cr \<mapsto> answered command a reply c)\<rparr>)" for command a
    using assms(5-7) by (rule call_client_connected)
  have 1: "client_heap (snd (debug_continue sid reply w)) cr = Some (answered ''continue'' (Args_threadId t) reply c)"
    by (simp add: debug_continue_def g continue_def cc split: outcome.splits)
  have 2: "getSession sid (snd (debug_continue sid reply w)) =
            Some (r, if succeeds reply then s\<lparr>state := Running\<rparr> else s)"
    using assms(1) succeeds_outcome [of reply "''continue''"]
    by (auto simp: debug_continue_def g continue_def cc updateSessionState_state split: outcome.splits)
  have 3: "snd (debug_step_over sid reply w) = w\<lparr>client_heap := (client_heap w)(cr \<mapsto> answered ''next'' (Args_threadId t) reply c)\<rparr>"
    by (simp add: debug_step_over_def g stepOver_def cc split: outcome.splits)
  have 4: "snd (debug_step_in sid reply w) = w\<lparr>client_heap := (client_heap w)(cr \<mapsto> answered ''stepIn'' (Args_threadId t) reply c)\<rparr>"
    by (simp add: debug_step_in_def g stepIn_def cc split: outcome.splits)
  have 5: "snd (debug_step_out sid reply w) = w\<lparr>client_heap := (client_heap w)(cr \<mapsto> answered ''stepOut'' (Args_threadId t) reply c)\<rparr>"
    by (simp add: debug_step_out_def g stepOut_def cc split: outcome.splits)
  have 6: "getSession sid (on_continued r b w) = Some (r, s\<lparr>state := Running\<rparr>)"
    using assms(1,8)
    by (auto simp: on_continued_def set_state_of_def getSession_def updateSessionState_def update_session_def split: option.splits)
  show ?thesis using 1 2 3 4 5 6 by simp
qed


section \<open>Paused sessions\<close>

lemma refines_refl: "refines w w"
  by (auto simp: refines_def)

lemma refines_trans: "refines w w1 \<Longrightarrow> refines w1 w2 \<Longrightarrow> refines w w2"
  unfolding refines_def
  apply (intro conjI allI impI)
    apply (metis)
   apply (metis)
  apply (metis option.exhaust)
  done

lemma refines_consistent: "refines w w' \<Longrightarrow> consistent w \<Longrightarrow> consistent w'"
  unfolding refines_def consistent_def
  by (metis option.distinct(1))

lemma refines_frame:
  "sessions w' = sessions w \<Longrightarrow> session_heap w' = session_heap w \<Longrightarrow> refines w w'"
  by (auto simp: refines_def)

lemma refines_update_session:
  assumes "\<And>s. session_id (f s) = session_id s"
    and "\<And>s. paused_ok s \<Longrightarrow> paused_ok (f s)"
    and "\<And>s. currentFrameId s \<noteq> None \<Longrightarrow> currentFrameId (f s) \<noteq> None"
  shows "refines w (update_session r f w)"
  using assms by (auto simp: refines_def update_session_def split: option.splits)

lemma refines_call_client: "refines w (snd (call_client cr operation reply w))"
  by (rule refines_frame) (simp_all add: call_client_frame)

lemma refines_updateSessionState:
  "st \<noteq> Paused \<Longrightarrow> refines w (updateSessionState sid st w)"
  unfolding updateSessionState_def
  by (auto split: option.splits intro!: refines_refl refines_update_session simp: paused_ok_def)

lemma refines_set_state_of:
  "st \<noteq> Paused \<Longrightarrow> refines w (set_state_of r st w)"
  unfolding set_state_of_def
  by (auto split: option.splits intro!: refines_refl refines_updateSessionState)

lemma refines_setBreakpoints: "refines w (setBreakpoints sid f bps w)"
  unfolding setBreakpoints_def
  by (auto split: option.splits intro!: refines_refl refines_update_session simp: paused_ok_def)

lemma refines_call_clientI: "call_client cr operation reply w = (out, w') \<Longrightarrow> refines w w'"
  using refines_call_client [of w cr operation reply] by simp

lemma refines_validate: "refines w (snd (validateDAPConnection cr reply w))"
  unfolding validateDAPConnection_def
  by (auto split: prod.splits sum.splits intro: refines_call_clientI)

lemma refines_validateI: "validateDAPConnection cr reply w = (res, w') \<Longrightarrow> refines w w'"
  using refines_validate [of w cr reply] by simp

lemma refines_set_breakpoint: "refines w (snd (set_breakpoint resolve sid f ln validation reply w))"
  unfolding set_breakpoint_def Let_def
  by (auto split: option.splits prod.splits sum.splits
      intro: refines_refl refines_validateI
        refines_trans[OF refines_validateI refines_call_clientI]
        refines_trans[OF refines_validateI refines_trans[OF refines_call_clientI refines_setBreakpoints]])

lemma refines_remove_breakpoint: "refines w (snd (remove_breakpoint resolve sid f ln reply w))"
  unfolding remove_breakpoint_def Let_def
  by (auto split: option.splits prod.splits sum.splits
      intro: refines_refl refines_call_clientI refines_trans[OF refines_call_clientI refines_setBreakpoints])

lemma refines_debug_continue: "refines w (snd (debug_continue sid reply w))"
  unfolding debug_continue_def
  by (auto split: option.splits prod.splits sum.splits outcome.splits
      intro: refines_refl refines_call_clientI refines_trans[OF refines_call_clientI refines_updateSessionState])

lemma refines_debug_step:
  "refines w (snd (debug_step_over sid reply w))"
  "refines w (snd (debug_step_in sid reply w))"
  "refines w (snd (debug_step_out sid reply w))"
  unfolding debug_step_over_def debug_step_in_def debug_step_out_def
  by (auto split: option.splits prod.splits sum.splits outcome.splits
      intro: refines_refl refines_call_clientI)

lemma refines_terminateSession: "refines w (terminateSession sid w)"
  unfolding refines_def terminateSession_def Let_def
  by (auto simp: update_session_def update_client_def update_process_def getSession_def paused_ok_def
      split: option.splits if_splits)

lemma refines_stop: "refines w (snd (stop_debug_session sid w))"
  unfolding stop_debug_session_def
  by (auto split: option.splits intro: refines_refl refines_terminateSession)

lemma refines_force_kill: "refines w (force_kill r w)"
  unfolding force_kill_def
  by (auto split: option.splits intro!: refines_refl refines_frame simp: update_process_def)

lemma refines_stopped_stackTrace: "refines w (snd (stopped_stackTrace r t reply w))"
  unfolding stopped_stackTrace_def
  by (auto split: option.splits prod.splits intro: refines_refl refines_call_clientI)

lemma refines_stopped_frames: "refines w (stopped_frames r frames w)"
  unfolding stopped_frames_def
  by (auto split: list.splits intro!: refines_refl refines_update_session simp: paused_ok_def)

lemma refines_set_thread: "refines w (update_session r (\<lambda>s. s\<lparr>currentThreadId := Some t\<rparr>) w)"
  by (rule refines_update_session) (simp_all add: paused_ok_def)

lemma refines_set_frame: "refines w (update_session r (\<lambda>s. s\<lparr>currentFrameId := Some i\<rparr>) w)"
  by (rule refines_update_session) (simp_all add: paused_ok_def)

lemma refines_initializeThreadContext: "refines w (initializeThreadContext r cr tr fr w)"
  unfolding initializeThreadContext_def Let_def
  by (auto split: prod.splits sum.splits list.splits
      intro: refines_call_clientI
        refines_trans[OF refines_call_clientI refines_trans[OF refines_set_thread refines_call_clientI]]
        refines_trans[OF refines_call_clientI refines_trans[OF refines_set_thread refines_trans[OF refines_call_clientI refines_set_frame]]])

lemma refines_store: "refines w (update_session r (\<lambda>s. s\<lparr>pythonProcess := pr, dapClient := cr, port := p\<rparr>) w)"
  by (rule refines_update_session) (simp_all add: paused_ok_def)

lemma consistent_createSession:
  assumes "consistent w" and "r \<notin> dom (session_heap w)" and "sid \<notin> session_id ` ran (session_heap w)"
  shows "consistent (createSession sid r path w)"
  using assms
  unfolding consistent_def createSession_def Let_def
  by (auto simp: paused_ok_def ran_def image_iff split: if_splits)

lemma refines_stopped_event:
  assumes "consistent w"
  shows "refines w (stopped_event r t w)"
proof (cases "session_heap w r")
  case None
  then show ?thesis
    by (simp add: stopped_event_def update_session_def set_state_of_def refines_refl)
next
  case (Some s)
  show ?thesis
  proof (cases "sessions w (session_id s)")
    case None
    with Some have "stopped_event r t w = update_session r (\<lambda>s. s\<lparr>currentThreadId := Some t\<rparr>) w"
      by (simp add: stopped_event_def set_state_of_def updateSessionState_def getSession_def update_session_def)
    then show ?thesis by (simp add: refines_set_thread)
  next
    case (Some r')
    then have "r' = r"
      using assms \<open>session_heap w r = Some s\<close> by (auto simp: consistent_def)
    with Some have reg: "sessions w (session_id s) = Some r" by simp
    have "stopped_event r t w =
            w\<lparr>session_heap := (session_heap w)(r \<mapsto> s\<lparr>currentThreadId := Some t, state := Paused\<rparr>)\<rparr>"
      using \<open>session_heap w r = Some s\<close> reg
      by (simp add: stopped_event_def set_state_of_def updateSessionState_def getSession_def update_session_def)
    then show ?thesis
      using \<open>session_heap w r = Some s\<close> by (auto simp: refines_def paused_ok_def)
  qed
qed

lemma step_refines:
  assumes "step w w'" and "consistent w"
  shows "refines w w' \<or> (\<exists>sid r path. w' = createSession sid r path w \<and> r \<notin> dom (session_heap w)
            \<and> sid \<notin> session_id ` ran (session_heap w))"
  using assms
proof (cases rule: step.cases)
  case (create r sid path)
  then show ?thesis by blast
next
  case (store r pr cr p)
  then show ?thesis by (simp add: refines_store)
next
  case (objects ch ph ts)
  then show ?thesis by (simp add: refines_frame)
next
  case (emitter ls cl)
  then show ?thesis by (simp add: refines_frame)
next
  case (handshake_done sid)
  then show ?thesis by (simp add: refines_updateSessionState)
next
  case (thread_context r cr threads_reply frames_reply)
  then show ?thesis by (simp add: refines_initializeThreadContext)
next
  case (terminate sid)
  then show ?thesis by (simp add: refines_terminateSession)
next
  case (forced_kill r)
  then show ?thesis by (simp add: refines_force_kill)
next
  case (set_bp resolve sid f ln validation reply)
  then show ?thesis by (simp add: refines_set_breakpoint)
next
  case (remove_bp resolve sid f ln reply)
  then show ?thesis by (simp add: refines_remove_breakpoint)
next
  case (continue_tool sid reply)
  then show ?thesis by (simp add: refines_debug_continue)
next
  case (step_over_tool sid reply)
  then show ?thesis by (simp add: refines_debug_step)
next
  case (step_in_tool sid reply)
  then show ?thesis by (simp add: refines_debug_step)
next
  case (step_out_tool sid reply)
  then show ?thesis by (simp add: refines_debug_step)
next
  case (stop_tool sid)
  then show ?thesis by (simp add: refines_stop)
next
  case (continued r b)
  then show ?thesis by (simp add: on_continued_def refines_set_state_of)
next
  case (terminated r b)
  then show ?thesis by (simp add: on_terminated_def refines_set_state_of refines_refl split: option.splits)
next
  case (exited r b)
  then show ?thesis by (simp add: on_exited_def refines_set_state_of)
next
  case (stopped_begin b t r)
  then show ?thesis using assms(2) by (simp add: refines_stopped_event)
next
  case (stopped_trace r t reply)
  then show ?thesis by (simp add: refines_stopped_stackTrace)
next
  case (stopped_end r frames)
  then show ?thesis by (simp add: refines_stopped_frames)
qed

lemma step_consistent: "step w w' \<Longrightarrow> consistent w \<Longrightarrow> consistent w'"
  using step_refines refines_consistent consistent_createSession by blast


lemma consistent_initial: "consistent initial_world"
  by (simp add: consistent_def initial_world_def)

lemma reachable_consistent: "reachable w \<Longrightarrow> consistent w"
  unfolding reachable_def
  by (induction rule: rtranclp_induct) (auto intro: consistent_initial step_consistent)

lemma stopped_event_registered:
  assumes "getSession sid w = Some (r, s)" and "session_id s = sid"
  shows "stopped_event r t w =
           w\<lparr>session_heap := (session_heap w)(r \<mapsto> s\<lparr>currentThreadId := Some t, state := Paused\<rparr>)\<rparr>"
  using assms
  by (auto simp: stopped_event_def set_state_of_def updateSessionState_def getSession_def update_session_def
      split: option.splits)

lemma on_stopped_frames:
  assumes "getSession sid w = Some (r, s)" and "session_id s = sid"
    and "dapClient s = Some cr" and "client_heap w cr = Some c" and "connected c" and "socket c"
    and "stopped_thread b = Some t"
    and "replies 1 = Respond True msg (Some bd)" and "body_stackFrames bd = Some (frame0 # rest)"
  shows "getSession sid (on_stopped r b replies w) =
           Some (r, s\<lparr>currentThreadId := Some t, state := Paused, currentFrameId := Some (frame_id frame0)\<rparr>)"
proof -
  let ?s1 = "s\<lparr>currentThreadId := Some t, state := Paused\<rparr>"
  let ?w1 = "w\<lparr>session_heap := (session_heap w)(r \<mapsto> ?s1)\<rparr>"
  have e: "stopped_event r t w = ?w1"
    using assms(1,2) by (rule stopped_event_registered)
  have reg: "sessions w sid = Some r" "session_heap w r = Some s"
    using assms(1) by (auto simp: getSession_def split: option.splits)
  have cc: "call_client cr (sendRequest ''stackTrace'' (Args_threadId t)) (replies 1) ?w1 =
              (Resolved (Some bd), ?w1\<lparr>client_heap := (client_heap ?w1)(cr \<mapsto> answered ''stackTrace'' (Args_threadId t) (replies 1) c)\<rparr>)"
    using call_client_connected [of ?w1 cr c "''stackTrace''" "Args_threadId t" "replies 1"] assms(4-6,8)
    by (simp add: reply_outcome_def)
  have st: "stopped_stackTrace r t (replies 1) ?w1 =
              (Inr (frame0 # rest), ?w1\<lparr>client_heap := (client_heap ?w1)(cr \<mapsto> answered ''stackTrace'' (Args_threadId t) (replies 1) c)\<rparr>)"
    using assms(3,9) cc by (simp add: stopped_stackTrace_def stackTrace_def stackTrace_result_def)
  have rt: "retryDAPOperation (stopped_stackTrace r t) 2 replies 1 ?w1 =
              (Some (Inr (frame0 # rest)), ?w1\<lparr>client_heap := (client_heap ?w1)(cr \<mapsto> answered ''stackTrace'' (Args_threadId t) (replies 1) c)\<rparr>)"
    by (subst retryDAPOperation.simps) (simp add: st [unfolded One_nat_def])
  show ?thesis
    using reg
    by (simp add: on_stopped_def assms(7) e rt [unfolded One_nat_def] stopped_frames_def update_session_def getSession_def)
qed

lemma step_frame_kept:
  assumes "step w w'" and "consistent w" and "session_heap w r = Some s" and "currentFrameId s \<noteq> None"
    and "session_heap w' r = Some s'"
  shows "currentFrameId s' \<noteq> None"
  using step_refines [OF assms(1,2)]
proof
  assume "refines w w'"
  then show ?thesis
    using assms(3-5) unfolding refines_def by (metis option.inject)
next
  assume "\<exists>sid r path. w' = createSession sid r path w \<and> r \<notin> dom (session_heap w)
            \<and> sid \<notin> session_id ` ran (session_heap w)"
  then show ?thesis
    using assms(3-5) by (auto simp: createSession_def Let_def split: if_splits)
qed



section \<open>The state of a session\<close>

lemma world_running_session:
  "getSession ''s1'' world_running =
     Some (0, \<lparr>session_id = ''s1'', scriptPath = ''/t/a.py'', pythonProcess = None,
               dapClient = Some 0, port = 5679, state = Running, breakpoints = [],
               currentThreadId = None, currentFrameId = None\<rparr>)"
  by (simp add: world_running_def createSession_def initial_world_def update_session_def
      updateSessionState_def getSession_def Let_def)

lemma world_running_client: "client_heap world_running 0 = Some (on_socket_connect new_DAPClient)"
  by (simp add: world_running_def createSession_def initial_world_def update_session_def
      updateSessionState_def getSession_def Let_def)

lemma world_paused_eq:
  "world_paused = world_running\<lparr>session_heap := (session_heap world_running)(0 \<mapsto>
      \<lparr>session_id = ''s1'', scriptPath = ''/t/a.py'', pythonProcess = None,
               dapClient = Some 0, port = 5679, state = Paused, breakpoints = [],
               currentThreadId = Some 1, currentFrameId = None\<rparr>)\<rparr>"
  unfolding world_paused_def
  by (subst stopped_event_registered [OF world_running_session]) simp_all

lemma world_paused_session:
  "getSession ''s1'' world_paused =
     Some (0, \<lparr>session_id = ''s1'', scriptPath = ''/t/a.py'', pythonProcess = None,
               dapClient = Some 0, port = 5679, state = Paused, breakpoints = [],
               currentThreadId = Some 1, currentFrameId = None\<rparr>)"
  using world_running_session
  by (auto simp: world_paused_eq getSession_def split: option.splits)

lemma world_paused_client: "client_heap world_paused 0 = Some (on_socket_connect new_DAPClient)"
  by (simp add: world_paused_eq world_running_client)

lemma world_running_reachable: "reachable world_running"
proof -
  let ?w1 = "createSession ''s1'' 0 ''/t/a.py'' initial_world"
  let ?w2 = "update_session 0 (\<lambda>s. s\<lparr>pythonProcess := None, dapClient := Some 0, port := 5679\<rparr>) ?w1"
  let ?w3 = "?w2\<lparr>client_heap := [0 \<mapsto> on_socket_connect new_DAPClient], process_heap := Map.empty, timeouts := []\<rparr>"
  have "step initial_world ?w1"
    by (rule step.create) (simp_all add: initial_world_def)
  moreover have "step ?w1 ?w2" by (rule step.store)
  moreover have "step ?w2 ?w3" by (rule step.objects)
  moreover have "step ?w3 (updateSessionState ''s1'' Running ?w3)" by (rule step.handshake_done)
  ultimately show ?thesis
    unfolding reachable_def world_running_def
    by (meson rtranclp.rtrancl_into_rtrancl rtranclp.rtrancl_refl)
qed

lemma world_paused_reachable: "reachable world_paused"
proof -
  have "step world_running (stopped_event 0 1 world_running)"
    by (rule step.stopped_begin [of "\<lparr>threadId = Some 1, reason = None, exitCode = None\<rparr>"])
       (simp add: stopped_thread_def)
  then show ?thesis
    using world_running_reachable unfolding reachable_def world_paused_def
    by (rule rtranclp.rtrancl_into_rtrancl [rotated])
qed

text \<open>
  C1, as amended. On a registered session with a connected client and a current thread
  id that is there and not 0, each of the four tools sends its request (\<open>continue\<close>,
  \<open>next\<close>, \<open>stepIn\<close>, \<open>stepOut\<close>, with that thread id). \<open>debug_step_over\<close>,
  \<open>debug_step_in\<close> and \<open>debug_step_out\<close> change nothing but the client, whatever the
  answer, so the state is left as it is; \<open>debug_continue\<close> sets the state to
  \<open>running\<close> when the answer to its request is a success, and leaves it otherwise.
  The \<open>continued\<close> event sets the state to \<open>running\<close>.
\<close>

theorem continue_and_step:
  assumes "getSession sid w = Some (r, s)" and "session_id s = sid" and "dapClient s = Some cr"
    and "currentThreadId s = Some t" and "t \<noteq> 0"
    and "client_heap w cr = Some c" and "connected c" and "socket c"
  shows "client_heap (snd (debug_continue sid reply w)) cr = Some (answered ''continue'' (Args_threadId t) reply c) \<and>
         (getSession sid (snd (debug_continue sid reply w)) =
            Some (r, if succeeds reply then s\<lparr>state := Running\<rparr> else s)) \<and>
         snd (debug_step_over sid reply w) = w\<lparr>client_heap := (client_heap w)(cr \<mapsto> answered ''next'' (Args_threadId t) reply c)\<rparr> \<and>
         snd (debug_step_in sid reply w) = w\<lparr>client_heap := (client_heap w)(cr \<mapsto> answered ''stepIn'' (Args_threadId t) reply c)\<rparr> \<and>
         snd (debug_step_out sid reply w) = w\<lparr>client_heap := (client_heap w)(cr \<mapsto> answered ''stepOut'' (Args_threadId t) reply c)\<rparr> \<and>
         getSession sid (on_continued r b w) = Some (r, s\<lparr>state := Running\<rparr>)"
  using assms(1,3,4,5,6,7,8,2) by (rule execution_control)

theorem continue_and_step_witness:
  "getSession ''s1'' (snd (debug_continue ''s1'' (Respond True None None) world_paused)) =
     Some (0, \<lparr>session_id = ''s1'', scriptPath = ''/t/a.py'', pythonProcess = None,
               dapClient = Some 0, port = 5679, state = Running, breakpoints = [],
               currentThreadId = Some 1, currentFrameId = None\<rparr>) \<and>
   getSession ''s1'' (snd (debug_step_over ''s1'' (Respond True None None) world_paused)) =
     Some (0, \<lparr>session_id = ''s1'', scriptPath = ''/t/a.py'', pythonProcess = None,
               dapClient = Some 0, port = 5679, state = Paused, breakpoints = [],
               currentThreadId = Some 1, currentFrameId = None\<rparr>) \<and>
   client_heap (snd (debug_step_over ''s1'' (Respond True None None) world_paused)) 0 =
     Some (answered ''next'' (Args_threadId 1) (Respond True None None) (on_socket_connect new_DAPClient)) \<and>
   getSession ''s1'' (on_continued 0 \<lparr>threadId = Some 1, reason = None, exitCode = None\<rparr> world_paused) =
     Some (0, \<lparr>session_id = ''s1'', scriptPath = ''/t/a.py'', pythonProcess = None,
               dapClient = Some 0, port = 5679, state = Running, breakpoints = [],
               currentThreadId = Some 1, currentFrameId = None\<rparr>)"
  using continue_and_step [OF world_paused_session _ _ _ _ world_paused_client, of 1
      "Respond True None None" "\<lparr>threadId = Some 1, reason = None, exitCode = None\<rparr>"]
    world_paused_session
  by (simp add: connected_client_simps succeeds_def)

text \<open>
  C1 as stated fails for \<open>debug_continue\<close>: a paused session is running once the
  answer to the \<open>continue\<close> request has arrived, and the client has received no event.
\<close>

theorem continue_response_counterexample:
  "(case getSession ''s1'' world_paused of None \<Rightarrow> False | Some (r, s) \<Rightarrow> state s = Paused) \<and>
   (case getSession ''s1'' (snd (debug_continue ''s1'' (Respond True None None) world_paused)) of
      None \<Rightarrow> False | Some (r, s) \<Rightarrow> state s = Running) \<and>
   (case client_heap (snd (debug_continue ''s1'' (Respond True None None) world_paused)) 0 of
      None \<Rightarrow> False | Some c \<Rightarrow> emitted c = [])"
  using execution_control [OF world_paused_session _ _ _ world_paused_client, of 1
      "Respond True None None"]
  by (simp add: connected_client_simps succeeds_def world_paused_session answered_def
      on_socket_connect_def new_DAPClient_def)


text \<open>
  C2. In every state the server can be in, a session whose state is \<open>paused\<close> has a
  current thread id. A frame id that is set stays set with every step. When a
  \<open>stopped\<close> event with a thread id arrives for a registered session with a
  connected client and the stack trace fetched for it has a frame, the handler leaves
  the session paused, with that thread id and with the id of the top frame as the
  current frame id.
\<close>

theorem paused_session_has_thread_and_frame:
  "(reachable w \<and> session_heap w r = Some s \<and> state s = Paused \<longrightarrow> currentThreadId s \<noteq> None) \<and>
   (reachable w \<and> step w w' \<and> session_heap w r = Some s \<and> currentFrameId s \<noteq> None \<and>
      session_heap w' r = Some s' \<longrightarrow> currentFrameId s' \<noteq> None) \<and>
   (getSession sid w0 = Some (r0, s0) \<and> session_id s0 = sid \<and> dapClient s0 = Some cr \<and>
      client_heap w0 cr = Some c \<and> connected c \<and> socket c \<and> stopped_thread b = Some t \<and>
      replies 1 = Respond True msg (Some bd) \<and> body_stackFrames bd = Some (frame0 # rest) \<longrightarrow>
      getSession sid (on_stopped r0 b replies w0) =
        Some (r0, s0\<lparr>currentThreadId := Some t, state := Paused, currentFrameId := Some (frame_id frame0)\<rparr>))"
proof (intro conjI impI)
  assume "reachable w \<and> session_heap w r = Some s \<and> state s = Paused"
  then show "currentThreadId s \<noteq> None"
    using reachable_consistent [of w] by (auto simp: consistent_def paused_ok_def)
next
  assume "reachable w \<and> step w w' \<and> session_heap w r = Some s \<and> currentFrameId s \<noteq> None \<and>
      session_heap w' r = Some s'"
  then show "currentFrameId s' \<noteq> None"
    using step_frame_kept [of w w' r s s'] reachable_consistent [of w] by blast
next
  assume "getSession sid w0 = Some (r0, s0) \<and> session_id s0 = sid \<and> dapClient s0 = Some cr \<and>
      client_heap w0 cr = Some c \<and> connected c \<and> socket c \<and> stopped_thread b = Some t \<and>
      replies 1 = Respond True msg (Some bd) \<and> body_stackFrames bd = Some (frame0 # rest)"
  then show "getSession sid (on_stopped r0 b replies w0) =
        Some (r0, s0\<lparr>currentThreadId := Some t, state := Paused, currentFrameId := Some (frame_id frame0)\<rparr>)"
    using on_stopped_frames [of sid w0 r0 s0 cr c b t replies msg bd frame0 rest] by blast
qed

lemma world_paused_heap:
  "session_heap world_paused 0 =
     Some \<lparr>session_id = ''s1'', scriptPath = ''/t/a.py'', pythonProcess = None,
               dapClient = Some 0, port = 5679, state = Paused, breakpoints = [],
               currentThreadId = Some 1, currentFrameId = None\<rparr>"
  by (simp add: world_paused_eq)

theorem paused_session_has_thread_and_frame_witness:
  "reachable world_paused \<and>
   (\<exists>s. session_heap world_paused 0 = Some s \<and> state s = Paused \<and> currentThreadId s = Some 1) \<and>
   getSession ''s1''
     (on_stopped 0 \<lparr>threadId = Some 1, reason = Some ''breakpoint'', exitCode = None\<rparr>
        (\<lambda>attempt. Respond True None
           (Some \<lparr>body_threads = None,
                  body_stackFrames = Some [\<lparr>frame_id = 10, frame_name = ''f'', frame_path = Some ''/t/a.py'', frame_line = 25\<rparr>],
                  body_breakpoints = None\<rparr>))
        world_running) =
     Some (0, \<lparr>session_id = ''s1'', scriptPath = ''/t/a.py'', pythonProcess = None,
               dapClient = Some 0, port = 5679, state = Paused, breakpoints = [],
               currentThreadId = Some 1, currentFrameId = Some 10\<rparr>)"
  using paused_session_has_thread_and_frame [of world_paused 0
      "\<lparr>session_id = ''s1'', scriptPath = ''/t/a.py'', pythonProcess = None,
               dapClient = Some 0, port = 5679, state = Paused, breakpoints = [],
               currentThreadId = Some 1, currentFrameId = None\<rparr>" world_paused _ "''s1''" world_running 0
      "\<lparr>session_id = ''s1'', scriptPath = ''/t/a.py'', pythonProcess = None,
               dapClient = Some 0, port = 5679, state = Running, breakpoints = [],
               currentThreadId = None, currentFrameId = None\<rparr>" 0 "on_socket_connect new_DAPClient"
      "\<lparr>threadId = Some 1, reason = Some ''breakpoint'', exitCode = None\<rparr>" 1
      "\<lambda>attempt. Respond True None
           (Some \<lparr>body_threads = None,
                  body_stackFrames = Some [\<lparr>frame_id = 10, frame_name = ''f'', frame_path = Some ''/t/a.py'', frame_line = 25\<rparr>],
                  body_breakpoints = None\<rparr>)" None
      "\<lparr>body_threads = None,
                  body_stackFrames = Some [\<lparr>frame_id = 10, frame_name = ''f'', frame_path = Some ''/t/a.py'', frame_line = 25\<rparr>],
                  body_breakpoints = None\<rparr>"
      "\<lparr>frame_id = 10, frame_name = ''f'', frame_path = Some ''/t/a.py'', frame_line = 25\<rparr>" "[]"]
  by (simp add: world_paused_reachable world_paused_heap world_running_session world_running_client
      connected_client_simps stopped_thread_def)


section \<open>Breakpoints\<close>

lemma map_of_map_set: "map_of (map_set k v al) k' = (if k' = k then Some v else map_of al k')"
  by (induction al) auto

lemma line_at_nth: "i < length lines \<Longrightarrow> line_at lines i = lines ! i"
  by (simp add: line_at_def)

lemma response_mapping_lines:
  assumes "length bps = length lines"
  shows "map bp_line (response_mapping f lines bps) = lines"
  using assms
  by (auto simp: response_mapping_def list_eq_iff_nth_eq nth_enumerate_eq line_at_def)

lemma answered_connected: "connected (answered command a reply c) = connected c"
  "socket (answered command a reply c) = socket c"
  by (simp_all add: answered_def)

lemma validate_connected:
  assumes "client_heap w cr = Some c" and "connected c" and "socket c" and "answers_threads v"
  shows "validateDAPConnection cr v w =
           (Inr (), w\<lparr>client_heap := (client_heap w)(cr \<mapsto> answered ''threads'' Args_none v c)\<rparr>)"
proof -
  obtain ok msg b where v: "v = Respond ok msg (Some b)" and ok
    using assms(4) by (auto simp: answers_threads_def split: reply.splits option.splits)
  show ?thesis
    using call_client_connected [OF assms(1-3), of "''threads''" Args_none v] v \<open>ok\<close>
    by (simp add: validateDAPConnection_def threads_def threads_result_def reply_outcome_def)
qed

lemma getBreakpoints_client_upd [simp]:
  "getBreakpoints sid f (w\<lparr>client_heap := h\<rparr>) = getBreakpoints sid f w"
  by (simp add: getBreakpoints_def)

lemma requested_lines_client_upd [simp]:
  "requested_lines sid f ln (w\<lparr>client_heap := h\<rparr>) = requested_lines sid f ln w"
  by (simp add: requested_lines_def)

lemma set_breakpoint_answered:
  assumes "ready sid w" and "f \<noteq> []" and "1 \<le> ln" and "answers_threads v"
    and "rp = Respond True msg (Some b)" and "body_breakpoints b = Some bps"
  shows "ready sid (snd (set_breakpoint resolve sid f ln v rp w)) \<and>
         getBreakpoints sid (Some f) (snd (set_breakpoint resolve sid f ln v rp w))
           = response_mapping f (requested_lines sid f ln w) bps"
proof -
  obtain r s cr c where g: "getSession sid w = Some (r, s)" and d: "dapClient s = Some cr"
    and h: "client_heap w cr = Some c" and cn: "connected c" "socket c"
    using assms(1) by (auto simp: ready_def split: option.splits)
  let ?c1 = "answered ''threads'' Args_none v c"
  let ?w1 = "w\<lparr>client_heap := (client_heap w)(cr \<mapsto> ?c1)\<rparr>"
  have val: "validateDAPConnection cr v w = (Inr (), ?w1)"
    using h cn assms(4) by (rule validate_connected)
  let ?lines = "requested_lines sid f ln w"
  let ?c2 = "answered ''setBreakpoints'' (Args_setBreakpoints (resolve f) ?lines) rp ?c1"
  let ?w2 = "?w1\<lparr>client_heap := (client_heap ?w1)(cr \<mapsto> ?c2)\<rparr>"
  have cc: "call_client cr (dap_setBreakpoints (resolve f) ?lines) rp ?w1 = (Resolved (Some b), ?w2)"
    using call_client_connected [of ?w1 cr ?c1 "''setBreakpoints''" "Args_setBreakpoints (resolve f) ?lines" rp]
      cn assms(5)
    by (simp add: dap_setBreakpoints_def answered_connected reply_outcome_def)
  have res: "snd (set_breakpoint resolve sid f ln v rp w) =
               setBreakpoints sid f (response_mapping f ?lines bps) ?w2"
    using g d assms(3,6)
    by (simp add: set_breakpoint_def val cc checked_breakpoints_def Let_def)
  have reg: "sessions w sid = Some r" "session_heap w r = Some s"
    using g by (auto simp: getSession_def split: option.splits)
  have fin: "setBreakpoints sid f (response_mapping f ?lines bps) ?w2 =
               ?w2\<lparr>session_heap := (session_heap w)(r \<mapsto> s\<lparr>breakpoints := map_set f (response_mapping f ?lines bps) (breakpoints s)\<rparr>)\<rparr>"
    using reg by (simp add: setBreakpoints_def g update_session_def)
  show ?thesis
    unfolding res fin
    using reg d cn assms(2)
    by (simp add: ready_def getSession_def getBreakpoints_def map_of_map_set answered_connected)
qed

lemma set_breakpoint_conforming:
  assumes "ready sid w" and "f \<noteq> []" and "1 \<le> ln"
    and "answers_threads v" and "answers_lines (length (requested_lines sid f ln w)) rp"
  shows "ready sid (snd (set_breakpoint resolve sid f ln v rp w)) \<and>
         map bp_line (getBreakpoints sid (Some f) (snd (set_breakpoint resolve sid f ln v rp w)))
           = requested_lines sid f ln w"
proof -
  obtain msg b bps where rp: "rp = Respond True msg (Some b)"
    and bb: "body_breakpoints b = Some bps" and len: "length bps = length (requested_lines sid f ln w)"
    using assms(5) by (auto simp: answers_lines_def split: reply.splits option.splits)
  show ?thesis
    using set_breakpoint_answered [OF assms(1-4) rp bb, of resolve] len
    by (simp add: response_mapping_lines)
qed


lemma distinct_count_list: "distinct xs \<Longrightarrow> x \<in> set xs \<Longrightarrow> count_list xs x = 1"
  by (induction xs) auto

lemma requested_lines_props:
  assumes "distinct (map bp_line (getBreakpoints sid (Some f) w))"
  shows "distinct (requested_lines sid f ln w)"
    and "set (requested_lines sid f ln w) = insert (Some ln) (set (map bp_line (getBreakpoints sid (Some f) w)))"
  using assms by (auto simp: requested_lines_def Let_def)

lemma calls_invariant:
  assumes "ready sid w" and "f \<noteq> []" and "adapter_conforms resolve sid f calls w"
    and "distinct (map bp_line (getBreakpoints sid (Some f) w))"
  shows "ready sid (set_breakpoint_calls resolve sid f calls w) \<and>
         distinct (map bp_line (getBreakpoints sid (Some f) (set_breakpoint_calls resolve sid f calls w))) \<and>
         set (map bp_line (getBreakpoints sid (Some f) (set_breakpoint_calls resolve sid f calls w)))
           = set (map bp_line (getBreakpoints sid (Some f) w)) \<union> (\<lambda>call. Some (fst call)) ` set calls"
  using assms
proof (induction calls arbitrary: w)
  case Nil
  then show ?case by simp
next
  case (Cons call calls)
  obtain ln v rp where call: "call = (ln, v, rp)" by (cases call)
  let ?w1 = "snd (set_breakpoint resolve sid f ln v rp w)"
  have conf: "1 \<le> ln" "answers_threads v" "answers_lines (length (requested_lines sid f ln w)) rp"
    "adapter_conforms resolve sid f calls ?w1"
    using Cons.prems(3) call by simp_all
  have one: "ready sid ?w1 \<and> map bp_line (getBreakpoints sid (Some f) ?w1) = requested_lines sid f ln w"
    using Cons.prems(1,2) conf(1-3) by (rule set_breakpoint_conforming)
  have d1: "distinct (map bp_line (getBreakpoints sid (Some f) ?w1))"
    using one requested_lines_props(1) [OF Cons.prems(4)] by simp
  have s1: "set (map bp_line (getBreakpoints sid (Some f) ?w1))
              = insert (Some ln) (set (map bp_line (getBreakpoints sid (Some f) w)))"
    using one requested_lines_props(2) [OF Cons.prems(4)] by simp
  have ih: "ready sid (set_breakpoint_calls resolve sid f calls ?w1) \<and>
         distinct (map bp_line (getBreakpoints sid (Some f) (set_breakpoint_calls resolve sid f calls ?w1))) \<and>
         set (map bp_line (getBreakpoints sid (Some f) (set_breakpoint_calls resolve sid f calls ?w1)))
           = set (map bp_line (getBreakpoints sid (Some f) ?w1)) \<union> (\<lambda>call. Some (fst call)) ` set calls"
    using one Cons.prems(2) conf(4) d1 by (intro Cons.IH) simp_all
  show ?case
    using ih s1 by (simp add: call)
qed

lemma list_breakpoints_ready:
  "ready sid w \<Longrightarrow> list_breakpoints sid f w = Inr (getBreakpoints sid f w)"
  by (auto simp: ready_def list_breakpoints_def split: option.splits)

lemma world_running_ready: "ready ''s1'' world_running"
  by (simp add: ready_def world_running_session world_running_client connected_client_simps)

lemma world_running_breakpoints: "getBreakpoints ''s1'' (Some ''/t/a.py'') world_running = []"
  by (simp add: getBreakpoints_def world_running_session)

lemma threads_reply_answers: "answers_threads threads_reply"
  by (simp add: answers_threads_def threads_reply_def)

lemma first_call:
  "ready ''s1'' (snd (set_breakpoint (\<lambda>p. p) ''s1'' ''/t/a.py'' 10 threads_reply (breakpoints_reply [b1]) world_running)) \<and>
   getBreakpoints ''s1'' (Some ''/t/a.py'')
     (snd (set_breakpoint (\<lambda>p. p) ''s1'' ''/t/a.py'' 10 threads_reply (breakpoints_reply [b1]) world_running))
     = [\<lparr>bp_id = id_or_index (reply_id b1) 0, bp_file = ''/t/a.py'', bp_line = Some 10, bp_verified = reply_verified b1\<rparr>]"
  using set_breakpoint_answered [OF world_running_ready _ _ threads_reply_answers, of "''/t/a.py''" 10
      "breakpoints_reply [b1]" None _ "[b1]" "\<lambda>p. p"]
  by (simp add: breakpoints_reply_def requested_lines_def world_running_breakpoints response_mapping_def
      enumerate_eq_zip line_at_def)

text \<open>
  C8. Let a session be registered with a connected client, the file name not be
  empty, and the lines held for the file be distinct (as they are in a new session).
  After any calls of \<open>set_breakpoint\<close> for the file, run one after the other, each
  with a line of at least 1 and answered by the adapter as the protocol asks, of which
  at least one is for the line \<open>ln\<close>, \<open>list_breakpoints\<close> for the file returns a list
  that has the line \<open>ln\<close> exactly once, however often it was set.
\<close>

theorem breakpoint_listed_once:
  assumes "ready sid w" and "f \<noteq> []" and "adapter_conforms resolve sid f calls w"
    and "distinct (map bp_line (getBreakpoints sid (Some f) w))"
    and "ln \<in> fst ` set calls"
  shows "\<exists>bps. list_breakpoints sid (Some f) (set_breakpoint_calls resolve sid f calls w) = Inr bps \<and>
           count_list (map bp_line bps) (Some ln) = 1"
proof -
  let ?w' = "set_breakpoint_calls resolve sid f calls w"
  have inv: "ready sid ?w'" "distinct (map bp_line (getBreakpoints sid (Some f) ?w'))"
    "set (map bp_line (getBreakpoints sid (Some f) ?w'))
       = set (map bp_line (getBreakpoints sid (Some f) w)) \<union> (\<lambda>call. Some (fst call)) ` set calls"
    using calls_invariant [OF assms(1-4)] by simp_all
  have "Some ln \<in> set (map bp_line (getBreakpoints sid (Some f) ?w'))"
    using assms(5) inv(3) by auto
  then have "count_list (map bp_line (getBreakpoints sid (Some f) ?w')) (Some ln) = 1"
    using inv(2) by (simp add: distinct_count_list)
  then show ?thesis
    using list_breakpoints_ready [OF inv(1)] by simp
qed


theorem breakpoint_listed_once_witness:
  "\<exists>bps. list_breakpoints ''s1'' (Some ''/t/a.py'')
            (set_breakpoint_calls (\<lambda>p. p) ''s1'' ''/t/a.py''
               [(10, threads_reply, breakpoints_reply [\<lparr>reply_id = Some 7, reply_verified = Some True\<rparr>]),
                (10, threads_reply, breakpoints_reply [\<lparr>reply_id = Some 8, reply_verified = Some True\<rparr>])]
               world_running) = Inr bps \<and>
          count_list (map bp_line bps) (Some 10) = 1"
proof -
  let ?b1 = "\<lparr>reply_id = Some 7, reply_verified = Some True\<rparr>"
  let ?w1 = "snd (set_breakpoint (\<lambda>p. p) ''s1'' ''/t/a.py'' 10 threads_reply (breakpoints_reply [?b1]) world_running)"
  have 2: "getBreakpoints ''s1'' (Some ''/t/a.py'') ?w1 =
      [\<lparr>bp_id = 7, bp_file = ''/t/a.py'', bp_line = Some 10, bp_verified = Some True\<rparr>]"
    using first_call [of ?b1] by (simp_all add: id_or_index_def)
  have conf: "adapter_conforms (\<lambda>p. p) ''s1'' ''/t/a.py''
               [(10, threads_reply, breakpoints_reply [\<lparr>reply_id = Some 7, reply_verified = Some True\<rparr>]),
                (10, threads_reply, breakpoints_reply [\<lparr>reply_id = Some 8, reply_verified = Some True\<rparr>])]
               world_running"
    by (simp add: threads_reply_answers answers_lines_def breakpoints_reply_def requested_lines_def
        world_running_breakpoints 2 [unfolded breakpoints_reply_def])
  show ?thesis
    using breakpoint_listed_once [OF world_running_ready _ conf, of 10]
    by (simp add: world_running_breakpoints)
qed


text \<open>
  C7 at the input where the code and the claim part: the adapter answers the second
  call with the ids 7 and 0, and the breakpoint at line 20 is stored with the id 1, its
  index, not with the id 0 that the adapter gave it.
\<close>

theorem zero_id_replaced:
  "getBreakpoints ''s1'' (Some ''/t/a.py'')
     (set_breakpoint_calls (\<lambda>p. p) ''s1'' ''/t/a.py''
        [(10, threads_reply, breakpoints_reply [\<lparr>reply_id = Some 7, reply_verified = Some True\<rparr>]),
         (20, threads_reply, breakpoints_reply [\<lparr>reply_id = Some 7, reply_verified = Some True\<rparr>,
                                              \<lparr>reply_id = Some 0, reply_verified = Some True\<rparr>])]
        world_running)
   = [\<lparr>bp_id = 7, bp_file = ''/t/a.py'', bp_line = Some 10, bp_verified = Some True\<rparr>,
      \<lparr>bp_id = 1, bp_file = ''/t/a.py'', bp_line = Some 20, bp_verified = Some True\<rparr>]"
proof -
  let ?b1 = "\<lparr>reply_id = Some 7, reply_verified = Some True\<rparr>"
  let ?b0 = "\<lparr>reply_id = Some 0, reply_verified = Some True\<rparr>"
  let ?w1 = "snd (set_breakpoint (\<lambda>p. p) ''s1'' ''/t/a.py'' 10 threads_reply (breakpoints_reply [?b1]) world_running)"
  have 1: "ready ''s1'' ?w1" and 2: "getBreakpoints ''s1'' (Some ''/t/a.py'') ?w1 =
      [\<lparr>bp_id = 7, bp_file = ''/t/a.py'', bp_line = Some 10, bp_verified = Some True\<rparr>]"
    using first_call [of ?b1] by (simp_all add: id_or_index_def)
  have "getBreakpoints ''s1'' (Some ''/t/a.py'')
          (snd (set_breakpoint (\<lambda>p. p) ''s1'' ''/t/a.py'' 20 threads_reply (breakpoints_reply [?b1, ?b0]) ?w1))
        = response_mapping ''/t/a.py'' (requested_lines ''s1'' ''/t/a.py'' 20 ?w1) [?b1, ?b0]"
    using set_breakpoint_answered [OF 1 _ _ threads_reply_answers, of "''/t/a.py''" 20
      "breakpoints_reply [?b1, ?b0]" None _ "[?b1, ?b0]" "\<lambda>p. p"]
    by (simp add: breakpoints_reply_def)
  then show ?thesis
    by (simp add: requested_lines_def 2 response_mapping_def enumerate_eq_zip line_at_def id_or_index_def
        upt_rec)
qed


text \<open>
  What the mapping of the response does in general: one stored breakpoint for each
  breakpoint of the response, in order, with the file, the line sent at the same
  index (\<open>undefined\<close> past the end of the lines), the adapter's \<open>verified\<close>, and as id
  the adapter's id when it gives one that is not 0, and the index otherwise.
\<close>

theorem response_mapping_positional:
  "length (response_mapping f lines bps) = length bps \<and>
   (i < length bps \<longrightarrow>
      bp_file (response_mapping f lines bps ! i) = f \<and>
      bp_line (response_mapping f lines bps ! i) = (if i < length lines then lines ! i else None) \<and>
      bp_verified (response_mapping f lines bps ! i) = reply_verified (bps ! i) \<and>
      bp_id (response_mapping f lines bps ! i) =
        (case reply_id (bps ! i) of None \<Rightarrow> int i | Some n \<Rightarrow> if n = 0 then int i else n))"
  by (simp add: response_mapping_def nth_enumerate_eq line_at_def id_or_index_def)

theorem response_mapping_positional_witness:
  "bp_line (response_mapping ''/t/a.py'' [Some 10, Some 20]
      [\<lparr>reply_id = Some 7, reply_verified = Some True\<rparr>, \<lparr>reply_id = None, reply_verified = Some False\<rparr>] ! 1)
     = Some 20 \<and>
   bp_id (response_mapping ''/t/a.py'' [Some 10, Some 20]
      [\<lparr>reply_id = Some 7, reply_verified = Some True\<rparr>, \<lparr>reply_id = None, reply_verified = Some False\<rparr>] ! 1)
     = 1 \<and>
   bp_id (response_mapping ''/t/a.py'' [Some 10, Some 20]
      [\<lparr>reply_id = Some 7, reply_verified = Some True\<rparr>, \<lparr>reply_id = None, reply_verified = Some False\<rparr>] ! 0)
     = 7"
  using response_mapping_positional [of "''/t/a.py''" "[Some 10, Some 20]"
      "[\<lparr>reply_id = Some 7, reply_verified = Some True\<rparr>, \<lparr>reply_id = None, reply_verified = Some False\<rparr>]" 1]
    response_mapping_positional [of "''/t/a.py''" "[Some 10, Some 20]"
      "[\<lparr>reply_id = Some 7, reply_verified = Some True\<rparr>, \<lparr>reply_id = None, reply_verified = Some False\<rparr>]" 0]
  by simp

section \<open>The transport\<close>

lemma key_eval: "content_length_key = [67, 111, 110, 116, 101, 110, 116, 45, 76, 101, 110, 103, 116, 104, 58, 32]"
  by (simp add: content_length_key_def)

lemma decode_first_chunk: "toString [67, 111, 110, 116, 101, 110, 116, 45, 76, 101, 110, 103, 116, 104, 58, 32, 57, 13, 10, 13, 10, 123, 34, 97, 34, 58, 34, 195] =
  [67, 111, 110, 116, 101, 110, 116, 45, 76, 101, 110, 103, 116, 104, 58, 32, 57, 13, 10, 13, 10, 123, 34, 97, 34, 58, 34, 65533]"
  by (simp add: toString_def)

lemma decode_second_chunk: "toString [169, 34, 125] = [65533, 34, 125]"
  by (simp add: toString_def)

lemma decode_whole: "toString [67, 111, 110, 116, 101, 110, 116, 45, 76, 101, 110, 103, 116, 104, 58, 32, 57, 13, 10, 13, 10, 123, 34, 97, 34, 58, 34, 195,169, 34, 125] =
   [67, 111, 110, 116, 101, 110, 116, 45, 76, 101, 110, 103, 116, 104, 58, 32, 57, 13, 10, 13, 10, 123, 34, 97, 34, 58, 34, 233, 34, 125]"
  by (simp add: toString_def)

lemma frame_example: "frame [123, 34, 97, 34, 58, 34, 233, 34, 125] = [67, 111, 110, 116, 101, 110, 116, 45, 76, 101, 110, 103, 116, 104, 58, 32, 57, 13, 10, 13, 10, 123, 34, 97, 34, 58, 34, 233, 34, 125]"
  by (simp add: frame_def key_eval show_nat_def digits10.simps CRLFCRLF_def)

lemma deframe_first_chunk: "deframe [67, 111, 110, 116, 101, 110, 116, 45, 76, 101, 110, 103, 116, 104, 58, 32, 57, 13, 10, 13, 10, 123, 34, 97, 34, 58, 34, 65533] 
   = ([], [67, 111, 110, 116, 101, 110, 116, 45, 76, 101, 110, 103, 116, 104, 58, 32, 57, 13, 10, 13, 10, 123, 34, 97, 34, 58, 34, 65533])"
  by (subst deframe.simps) (simp add: CRLFCRLF_def key_eval is_digit_def parseInt_def)

lemma deframe_brace: "deframe [125] = ([], [125])"
  by (subst deframe.simps) (simp add: CRLFCRLF_def)

lemma deframe_both_chunks: "deframe [67, 111, 110, 116, 101, 110, 116, 45, 76, 101, 110, 103, 116, 104, 58, 32, 57, 13, 10, 13, 10, 123, 34, 97, 34, 58, 34, 65533, 65533, 34, 125] 
   = ([[123, 34, 97, 34, 58, 34, 65533, 65533, 34]], [125])"
  by (subst deframe.simps) (simp add: CRLFCRLF_def key_eval is_digit_def parseInt_def deframe_brace)


lemma utf8_decode_ascii:
  "\<forall>b\<in>set bs. b < 128 \<Longrightarrow> utf8_decode bs 0 0 128 191 = bs"
  by (induction bs) simp_all

lemma toString_ascii: "\<forall>b\<in>set bs. b < 128 \<Longrightarrow> toString bs = bs"
  by (simp add: toString_def utf8_decode_ascii)

lemma take_length_le:
  assumes "take (length needle) hay = needle"
  shows "length needle \<le> length hay"
proof -
  have "length (take (length needle) hay) = length needle"
    by (simp only: assms)
  then show ?thesis by simp
qed

lemma indexOf_bound: "indexOf hay needle = Some i \<Longrightarrow> i + length needle \<le> length hay"
proof (induction hay arbitrary: i)
  case Nil
  then show ?case by (simp split: if_splits)
next
  case (Cons c cs)
  show ?case
  proof (cases "take (length needle) (c # cs) = needle")
    case True
    have "length needle \<le> length (c # cs)"
      using True by (rule take_length_le)
    with True Cons.prems show ?thesis by simp
  next
    case False
    with Cons.prems obtain j where "indexOf cs needle = Some j" "i = Suc j"
      by auto
    with Cons.IH show ?thesis by simp
  qed
qed

lemma indexOf_append: "indexOf hay needle = Some i \<Longrightarrow> indexOf (hay @ extra) needle = Some i"
proof (induction hay arbitrary: i)
  case Nil
  then show ?case by (cases extra) (simp_all split: if_splits)
next
  case (Cons c cs)
  show ?case
  proof (cases "take (length needle) (c # cs) = needle")
    case True
    have l: "length needle \<le> length (c # cs)"
      using True by (rule take_length_le)
    then have "take (length needle) ((c # cs) @ extra) = needle"
      using True by (simp del: take_Suc_Cons append_Cons)
    with True Cons.prems show ?thesis by simp
  next
    case False
    with Cons.prems obtain j where j: "indexOf cs needle = Some j" "i = Suc j"
      by auto
    then have b: "j + length needle \<le> length cs" by (simp add: indexOf_bound)
    have "take (length needle) ((c # cs) @ extra) \<noteq> needle"
    proof
      assume a: "take (length needle) ((c # cs) @ extra) = needle"
      have "length needle \<le> length (c # cs)" using b by simp
      then have "take (length needle) ((c # cs) @ extra) = take (length needle) (c # cs)"
        by (simp del: take_Suc_Cons append_Cons)
      with a False show False by simp
    qed
    then show ?thesis using j Cons.IH by simp
  qed
qed

lemma deframe_stuck_append:
  "deframe buf = ([], buf) \<Longrightarrow>
     deframe (buf @ chunk) = (case deframe buf of (ms, rest) \<Rightarrow> case deframe (rest @ chunk) of (ms', rest') \<Rightarrow> (ms @ ms', rest'))"
  by (simp split: prod.splits)

lemma deframe_append:
  "deframe (buf @ chunk) =
     (case deframe buf of (ms, rest) \<Rightarrow> case deframe (rest @ chunk) of (ms', rest') \<Rightarrow> (ms @ ms', rest'))"
proof (induction buf rule: deframe.induct)
  case (1 buf)
  show ?case
  proof (cases "indexOf buf CRLFCRLF")
    case None
    then have "deframe buf = ([], buf)" by (subst deframe.simps) simp
    then show ?thesis by (rule deframe_stuck_append)
  next
    case (Some headerEnd)
    have hb: "headerEnd + 4 \<le> length buf"
      using indexOf_bound [OF Some] by (simp add: CRLFCRLF_def)
    have ia: "indexOf (buf @ chunk) CRLFCRLF = Some headerEnd"
      using Some by (rule indexOf_append)
    have ta: "take headerEnd (buf @ chunk) = take headerEnd buf"
      using hb by simp
    show ?thesis
    proof (cases "match_content_length (take headerEnd buf)")
      case None
      then have "deframe buf = ([], buf)" using Some by (subst deframe.simps) simp
      then show ?thesis by (rule deframe_stuck_append)
    next
      case (Some ds)
      let ?n = "parseInt ds"
      let ?end = "headerEnd + 4 + ?n"
      show ?thesis
      proof (cases "length buf < ?end")
        case True
        then have "deframe buf = ([], buf)"
          using Some \<open>indexOf buf CRLFCRLF = Some headerEnd\<close> by (subst deframe.simps) (simp add: Let_def)
        then show ?thesis by (rule deframe_stuck_append)
      next
        case False
        obtain ms1 rest1 where r1: "deframe (drop ?end buf) = (ms1, rest1)" by force
        obtain ms2 rest2 where r2: "deframe (rest1 @ chunk) = (ms2, rest2)" by force
        have ih: "deframe (drop ?end buf @ chunk) = (ms1 @ ms2, rest2)"
          using "1.IH" [OF \<open>indexOf buf CRLFCRLF = Some headerEnd\<close> Some refl refl refl] False r1 r2
          by simp
        have d: "deframe buf = (take ?n (drop (headerEnd + 4) buf) # ms1, rest1)"
          using Some \<open>indexOf buf CRLFCRLF = Some headerEnd\<close> False r1
          by (subst deframe.simps) (simp add: Let_def)
        have da: "deframe (buf @ chunk) = (take ?n (drop (headerEnd + 4) buf) # ms1 @ ms2, rest2)"
          using Some ia ta False ih
          by (subst deframe.simps) (simp add: Let_def)
        show ?thesis by (simp add: d da r2)
      qed
    qed
  qed
qed

lemma deframe_rest_stuck: "deframe (snd (deframe buf)) = ([], snd (deframe buf))"
proof (induction buf rule: deframe.induct)
  case (1 buf)
  show ?case
  proof (cases "indexOf buf CRLFCRLF")
    case None
    then have "deframe buf = ([], buf)" by (subst deframe.simps) simp
    then show ?thesis by simp
  next
    case (Some headerEnd)
    show ?thesis
    proof (cases "match_content_length (take headerEnd buf)")
      case None
      then have "deframe buf = ([], buf)" using Some by (subst deframe.simps) simp
      then show ?thesis by simp
    next
      case (Some ds)
      let ?n = "parseInt ds"
      let ?end = "headerEnd + 4 + ?n"
      show ?thesis
      proof (cases "length buf < ?end")
        case True
        then have "deframe buf = ([], buf)"
          using Some \<open>indexOf buf CRLFCRLF = Some headerEnd\<close> by (subst deframe.simps) (simp add: Let_def)
        then show ?thesis by simp
      next
        case False
        have "snd (deframe buf) = snd (deframe (drop ?end buf))"
          using Some \<open>indexOf buf CRLFCRLF = Some headerEnd\<close> False
          by (subst deframe.simps) (simp add: Let_def split: prod.splits)
        then show ?thesis
          using "1.IH" [OF \<open>indexOf buf CRLFCRLF = Some headerEnd\<close> Some refl refl refl] False
          by simp
      qed
    qed
  qed
qed


lemma handleMessage_buffer [simp]: "messageBuffer (handleMessage m c) = messageBuffer c"
  by (cases m) (simp_all add: Let_def split: option.splits)

lemma fold_handle_buffer:
  "messageBuffer (fold (\<lambda>messageContent c1. case parse messageContent of None \<Rightarrow> c1 | Some m \<Rightarrow> handleMessage m c1) contents c)
     = messageBuffer c"
  by (induction contents arbitrary: c) (simp_all split: option.splits)

lemma handleData_buffer:
  "messageBuffer (handleData parse data c) = snd (deframe (messageBuffer c @ toString data))"
  by (simp add: handleData_def fold_handle_buffer split: prod.splits)

lemma handleData_feed:
  "messageBuffer (fold (handleData parse) chunks c) = snd (feed chunks (messageBuffer c))"
  by (induction chunks arbitrary: c) (simp_all add: handleData_buffer split: prod.splits)

lemma digits10_digits: "digits10 n \<noteq> [] \<and> (\<forall>d\<in>set (digits10 n). d < 10)"
proof (induction n rule: digits10.induct)
  case (1 n)
  show ?case
  proof (cases "n < 10")
    case True
    then show ?thesis using digits10.simps [of n] by simp
  next
    case False
    then show ?thesis using digits10.simps [of n] "1.IH" by simp
  qed
qed

lemma foldl_digits10: "foldl (\<lambda>a d. 10 * a + d) 0 (digits10 n) = n"
proof (induction n rule: digits10.induct)
  case (1 n)
  show ?case
  proof (cases "n < 10")
    case True
    then show ?thesis using digits10.simps [of n] by simp
  next
    case False
    then show ?thesis using digits10.simps [of n] "1.IH" by simp
  qed
qed

lemma parseInt_show_nat: "parseInt (show_nat n) = n"
proof -
  have "foldl (\<lambda>a d. 10 * a + (d - 48)) a (map (\<lambda>d. 48 + d) ds) = foldl (\<lambda>a d. 10 * a + d) a ds" for a and ds :: "nat list"
    by (induction ds arbitrary: a) simp_all
  then show ?thesis by (simp add: parseInt_def show_nat_def foldl_digits10)
qed

lemma show_nat_digits: "show_nat n \<noteq> []" "\<forall>c\<in>set (show_nat n). is_digit c"
  using digits10_digits [of n] by (auto simp: show_nat_def is_digit_def)

lemma indexOf_header:
  "13 \<notin> set h \<Longrightarrow> indexOf (h @ CRLFCRLF @ rest) CRLFCRLF = Some (length h)"
  by (induction h) (auto simp: CRLFCRLF_def)

lemma match_header: "match_content_length (content_length_key @ show_nat n) = Some (show_nat n)"
proof -
  have t: "takeWhile is_digit (show_nat n) = show_nat n"
    using show_nat_digits(2) by (simp add: takeWhile_eq_all_conv)
  obtain c cs where k: "content_length_key @ show_nat n = c # cs"
    by (simp add: key_eval)
  have "take 16 (c # cs) = content_length_key" "drop 16 (c # cs) = show_nat n"
    unfolding k [symmetric] by (simp_all add: key_eval)
  then have "match_content_length (c # cs) = Some (show_nat n)"
    using t show_nat_digits(1) [of n]
    by (simp only: match_content_length.simps) simp
  then show ?thesis by (simp only: k)
qed

lemma header_no_cr: "13 \<notin> set (content_length_key @ show_nat n)"
  using show_nat_digits(2) [of n] by (auto simp: key_eval is_digit_def)

lemma deframe_frame:
  "deframe (frame m @ tail) = (case deframe tail of (ms, rest) \<Rightarrow> (m # ms, rest))"
proof -
  define h where "h = content_length_key @ show_nat (length m)"
  define b where "b = frame m @ tail"
  have f: "b = h @ CRLFCRLF @ (m @ tail)"
    by (simp add: b_def h_def frame_def)
  have i: "indexOf b CRLFCRLF = Some (length h)"
    unfolding f h_def using header_no_cr by (rule indexOf_header)
  have t: "take (length h) b = h"
    unfolding f by simp
  have mt: "match_content_length h = Some (show_nat (length m))"
    unfolding h_def by (rule match_header)
  have d1: "take (length m) (drop (length h + 4) b) = m"
    unfolding f by (simp add: CRLFCRLF_def)
  have "drop (length (h @ CRLFCRLF @ m)) ((h @ CRLFCRLF @ m) @ tail) = tail"
    by simp
  then have d2: "drop (length h + 4 + length m) b = tail"
    unfolding f by (simp add: CRLFCRLF_def add.assoc)
  have l: "\<not> length b < length h + 4 + length m"
    unfolding f by (simp add: CRLFCRLF_def)
  have "deframe b = (case deframe tail of (ms, rest) \<Rightarrow> (m # ms, rest))"
    by (subst deframe.simps) (simp add: i t mt parseInt_show_nat Let_def d1 d2 l)
  then show ?thesis by (simp add: b_def)
qed

lemma deframe_frames: "deframe (concat (map frame ms)) = (ms, [])"
proof (induction ms)
  case Nil
  show ?case by (subst deframe.simps) (simp add: CRLFCRLF_def)
next
  case (Cons m ms)
  then show ?case by (simp add: deframe_frame)
qed

lemma feed_ascii:
  assumes "\<forall>data\<in>set chunks. \<forall>b\<in>set data. b < 128" and "deframe buf = ([], buf)"
  shows "feed chunks buf = deframe (buf @ concat chunks)"
  using assms
proof (induction chunks arbitrary: buf)
  case Nil
  then show ?case by simp
next
  case (Cons data chunks)
  have ts: "toString data = data"
    using Cons.prems(1) by (simp add: toString_ascii)
  obtain ms rest where d: "deframe (buf @ data) = (ms, rest)" by force
  have st: "deframe rest = ([], rest)"
    using deframe_rest_stuck [of "buf @ data"] d by simp
  have ih: "feed chunks rest = deframe (rest @ concat chunks)"
    using Cons.prems(1) st by (intro Cons.IH) simp_all
  have "deframe ((buf @ data) @ concat chunks) =
          (case deframe (rest @ concat chunks) of (ms', rest') \<Rightarrow> (ms @ ms', rest'))"
    by (subst deframe_append) (simp add: d)
  then show ?case
    by (simp add: ts d ih)
qed

lemma frame_ascii:
  assumes "\<forall>u\<in>set m. u < 128"
  shows "\<forall>u\<in>set (frame m). u < 128"
  using assms show_nat_digits(2) [of "length m"]
  by (auto simp: frame_def key_eval CRLFCRLF_def is_digit_def)


lemma deframe_whole:
  "deframe [67, 111, 110, 116, 101, 110, 116, 45, 76, 101, 110, 103, 116, 104, 58, 32, 57, 13, 10, 13, 10,
            123, 34, 97, 34, 58, 34, 233, 34, 125]
     = ([[123, 34, 97, 34, 58, 34, 233, 34, 125]], [])"
  using deframe_frames [of "[[123, 34, 97, 34, 58, 34, 233, 34, 125]]"]
  by (simp add: frame_example)

text \<open>
  C5 at the input where the code and the claim part. The request text
  \<open>{"a":"e"}\<close> with an e acute (U+00E9, the code unit 233) has 9 code units; its frame
  is written as 31 bytes, in which the letter is the two bytes 195 and 169. Handed
  over in one piece, the bytes give the text back. Split between those two bytes, each
  chunk is decoded on its own: both halves become U+FFFD, the body that is cut out is
  not the text that was sent, and a brace stays in the buffer.
\<close>

theorem split_character_corrupts:
  "toString ([67, 111, 110, 116, 101, 110, 116, 45, 76, 101, 110, 103, 116, 104, 58, 32, 57, 13, 10, 13, 10,
              123, 34, 97, 34, 58, 34, 195] @ [169, 34, 125])
     = frame [123, 34, 97, 34, 58, 34, 233, 34, 125] \<and>
   feed [[67, 111, 110, 116, 101, 110, 116, 45, 76, 101, 110, 103, 116, 104, 58, 32, 57, 13, 10, 13, 10,
          123, 34, 97, 34, 58, 34, 195] @ [169, 34, 125]] []
     = ([[123, 34, 97, 34, 58, 34, 233, 34, 125]], []) \<and>
   feed [[67, 111, 110, 116, 101, 110, 116, 45, 76, 101, 110, 103, 116, 104, 58, 32, 57, 13, 10, 13, 10,
          123, 34, 97, 34, 58, 34, 195], [169, 34, 125]] []
     = ([[123, 34, 97, 34, 58, 34, 65533, 65533, 34]], [125])"
  using decode_whole decode_first_chunk decode_second_chunk deframe_first_chunk deframe_both_chunks
    deframe_whole frame_example
  by simp

text \<open>
  What holds of the transport: when the texts of the messages are ASCII, their frames,
  written one after the other and cut into chunks at any places, give exactly these
  texts back, each once and in order, and leave the buffer empty.
\<close>

theorem ascii_frames_any_split:
  assumes "\<forall>m\<in>set ms. \<forall>u\<in>set m. u < 128" and "concat chunks = concat (map frame ms)"
  shows "feed chunks [] = (ms, []) \<and>
         messageBuffer (fold (handleData parse) chunks (c\<lparr>messageBuffer := []\<rparr>)) = []"
proof -
  have "\<forall>b\<in>set (concat (map frame ms)). b < 128"
    using assms(1) frame_ascii by auto
  then have a: "\<forall>data\<in>set chunks. \<forall>b\<in>set data. b < 128"
    unfolding assms(2) [symmetric] by auto
  have e: "deframe [] = ([], [])"
    by (subst deframe.simps) (simp add: CRLFCRLF_def)
  have "feed chunks [] = deframe ([] @ concat chunks)"
    using a e by (rule feed_ascii)
  then have f: "feed chunks [] = (ms, [])"
    by (simp add: assms(2) deframe_frames)
  then show ?thesis by (simp add: handleData_feed)
qed


theorem ascii_frames_any_split_witness:
  "feed (map (\<lambda>b. [b]) (frame [123, 125] @ frame [91, 93])) [] = ([[123, 125], [91, 93]], [])"
  using ascii_frames_any_split [of "[[123, 125], [91, 93]]" "map (\<lambda>b. [b]) (frame [123, 125] @ frame [91, 93])"]
  by (simp add: concat_map_singleton)

section \<open>The attach sequence\<close>


lemma call_client_halves:
  "snd (call_client cr operation reply w) =
     (case request_client cr operation w of
        (Inl e, w1) \<Rightarrow> w1
      | (Inr seq, w1) \<Rightarrow> answer_client cr seq reply w1)"
  by (simp add: call_client_def request_client_def answer_client_def update_client_def
      await_request_def Let_def split: option.splits prod.splits sum.splits)

lemma update_client_frame:
  "listeners (update_client cr f w) = listeners w"
  "cleared (update_client cr f w) = cleared w"
  "timeouts (update_client cr f w) = timeouts w"
  "sessions (update_client cr f w) = sessions w"
  "session_heap (update_client cr f w) = session_heap w"
  by (simp_all add: update_client_def split: option.splits)

lemma request_client_frame:
  "listeners (snd (request_client cr operation w)) = listeners w"
  "cleared (snd (request_client cr operation w)) = cleared w"
  "timeouts (snd (request_client cr operation w)) = timeouts w"
  by (simp_all add: request_client_def split: option.splits prod.splits)

lemma run_listeners_explicit:
  "fold (\<lambda>entry. run_listener (snd (snd entry))) called w =
     w\<lparr>cleared := cleared w @ map (\<lambda>entry. case snd (snd entry) of Resolve_initialized handle \<Rightarrow> handle) called\<rparr>"
proof (induction called arbitrary: w)
  case Nil
  show ?case by simp
next
  case (Cons entry called)
  obtain handle where l: "snd (snd entry) = Resolve_initialized handle"
    by (cases "snd (snd entry)") auto
  show ?case by (simp add: Cons.IH l clearTimeout_def)
qed

lemma receive_initialized_listeners:
  "listeners (receive_initialized cr w) =
     filter (\<lambda>entry. \<not> listens cr ''initialized'' entry) (listeners w)"
  by (simp add: receive_initialized_def Let_def run_listeners_explicit update_client_frame)

lemma attach_attempt_result:
  "fst (attach_attempt cr a w) = initialized_in_time 15000 a"
proof -
  let ?w2 = "once cr ''initialized'' (Resolve_initialized (length (timeouts w)))
               (setTimeout 15000 Reject_initialized w)"
  obtain sent w3 where r: "request_client cr attach ?w2 = (sent, w3)"
    by force
  have l3: "listeners w3 = listeners w @ [(cr, ''initialized'', Resolve_initialized (length (timeouts w)))]"
    using request_client_frame(1) [of cr attach ?w2] r by (simp add: once_def setTimeout_def)
  show ?thesis
    by (cases sent)
       (auto simp: attach_attempt_def Let_def r l3 receive_initialized_listeners answer_client_def
          update_client_frame listens_def)
qed

lemma receive_initialized_explicit:
  assumes "client_heap w cr = Some c"
  shows "receive_initialized cr w =
           w\<lparr>client_heap := (client_heap w)(cr \<mapsto>
                c\<lparr>emitted := emitted c @ [Emit_event initialized_event, Emit ''initialized'' None]\<rparr>),
             listeners := filter (\<lambda>entry. \<not> listens cr ''initialized'' entry) (listeners w),
             cleared := cleared w @
               map (\<lambda>entry. case snd (snd entry) of Resolve_initialized handle \<Rightarrow> handle)
                 (filter (listens cr ''initialized'') (listeners w))\<rparr>"
  using assms
  by (simp add: receive_initialized_def Let_def run_listeners_explicit update_client_def
      initialized_event_def)

lemma receive_initialized_missing:
  assumes "client_heap w cr = None"
  shows "receive_initialized cr w =
           w\<lparr>listeners := filter (\<lambda>entry. \<not> listens cr ''initialized'' entry) (listeners w),
             cleared := cleared w @
               map (\<lambda>entry. case snd (snd entry) of Resolve_initialized handle \<Rightarrow> handle)
                 (filter (listens cr ''initialized'') (listeners w))\<rparr>"
  using assms
  by (simp add: receive_initialized_def Let_def run_listeners_explicit update_client_def)

lemma settle_pending:
  assumes "pendingRequests c seq = Some command"
  shows "settle seq reply c =
           c\<lparr>pendingRequests := (pendingRequests c)(seq := None),
             settled := (settled c)(seq \<mapsto> reply_outcome command reply)\<rparr>"
  using assms
  by (cases reply) (auto simp: settle_def request_timeout_def reply_outcome_def Let_def)

lemma attach_attempt_states:
  assumes "client_heap w cr = Some c" and "connected c" and "socket c"
  shows "snd (attach_attempt cr a w) =
    (let s1 = w\<lparr>timeouts := timeouts w @ [(15000, Reject_initialized)]\<rparr>;
         s2 = s1\<lparr>listeners := listeners w @ [(cr, ''initialized'', Resolve_initialized (length (timeouts w)))]\<rparr>;
         c_sent = c\<lparr>sequenceNumber := sequenceNumber c + 1,
                 pendingRequests := (pendingRequests c)(sequenceNumber c \<mapsto> ''attach''),
                 wire := wire c @ [Write \<lparr>req_seq = sequenceNumber c, req_command = ''attach'', req_arguments = Args_attach\<rparr>],
                 timers := timers c @ [(10000, sequenceNumber c, ''attach'')]\<rparr>;
         c_answered = answered ''attach'' Args_attach (attach_answer a) c;
         heard = (\<lambda>c'. s2\<lparr>client_heap := (client_heap w)(cr \<mapsto>
                      c'\<lparr>emitted := emitted c @ [Emit_event initialized_event, Emit ''initialized'' None]\<rparr>),
                    listeners := filter (\<lambda>entry. \<not> listens cr ''initialized'' entry) (listeners w),
                    cleared := cleared w @
                      map (\<lambda>entry. case snd (snd entry) of Resolve_initialized handle \<Rightarrow> handle)
                        (filter (listens cr ''initialized'') (listeners w)) @ [length (timeouts w)]\<rparr>);
         s3 = s2\<lparr>client_heap := (client_heap w)(cr \<mapsto> c_sent)\<rparr>;
         s5 = s2\<lparr>client_heap := (client_heap w)(cr \<mapsto> c_answered)\<rparr>
     in [s1, s2, s3] @
        (if initialized_in_time 15000 a
         then (if before_answer a then [heard c_sent, heard c_answered] else [s5, heard c_answered])
         else [s5]))"
proof -
  let ?w2 = "once cr ''initialized'' (Resolve_initialized (length (timeouts w)))
               (setTimeout 15000 Reject_initialized w)"
  let ?c3 = "c\<lparr>sequenceNumber := sequenceNumber c + 1,
                 pendingRequests := (pendingRequests c)(sequenceNumber c \<mapsto> ''attach''),
                 wire := wire c @ [Write \<lparr>req_seq = sequenceNumber c, req_command = ''attach'', req_arguments = Args_attach\<rparr>],
                 timers := timers c @ [(10000, sequenceNumber c, ''attach'')]\<rparr>"
  have r: "request_client cr attach ?w2 = (Inr (sequenceNumber c), ?w2\<lparr>client_heap := (client_heap w)(cr \<mapsto> ?c3)\<rparr>)"
    using assms
    by (simp add: request_client_def once_def setTimeout_def attach_def sendRequest_def Let_def)
  show ?thesis
    unfolding attach_attempt_def Let_def r
    by (auto simp: receive_initialized_explicit answer_client_def update_client_def
        once_def setTimeout_def listens_def answered_def settle_pending [where command = "''attach''"]
        intro!: world.equality DAPClient.equality)
qed

lemma attach_attempt_nonempty: "snd (attach_attempt cr a w) \<noteq> []"
  by (simp add: attach_attempt_def Let_def split: prod.splits)

lemma attach_attempts_4: "attach_attempts cr env 4 w = (False, [])"
  by (subst attach_attempts.simps) simp

lemma attach_attempts_3:
  "attach_attempts cr env 3 w = (initialized_in_time 15000 (env 3), snd (attach_attempt cr (env 3) w))"
proof -
  obtain resolved states where a: "attach_attempt cr (env 3) w = (resolved, states)"
    by force
  then have "resolved = initialized_in_time 15000 (env 3)"
    using attach_attempt_result [of cr "env 3" w] by simp
  then show ?thesis
    by (subst attach_attempts.simps) (simp add: a attach_attempts_4)
qed

lemma attach_attempts_step:
  assumes "attempt < 3"
  shows "attach_attempts cr env attempt w =
     (let h = snd (attach_attempt cr (env attempt) w);
          q = (last h)\<lparr>timeouts := timeouts (last h) @ [(2000, Sleep)]\<rparr>;
          p = q # (if initialized_in_wait 15000 2000 (env attempt) then [receive_initialized cr q] else [])
      in if initialized_in_time 15000 (env attempt) then (True, h)
         else (fst (attach_attempts cr env (attempt + 1) (last p)),
               h @ p @ snd (attach_attempts cr env (attempt + 1) (last p))))"
proof -
  obtain resolved states where a: "attach_attempt cr (env attempt) w = (resolved, states)"
    by force
  then have r: "resolved = initialized_in_time 15000 (env attempt)"
    using attach_attempt_result [of cr "env attempt" w] by simp
  show ?thesis
    using assms
    by (subst attach_attempts.simps) (simp add: a r Let_def sleep_def split: prod.splits)
qed

lemma performAttachSequence_unrolled:
  "performAttachSequence cr env w =
     (let h1 = snd (attach_attempt cr (env 1) w);
          q1 = (last h1)\<lparr>timeouts := timeouts (last h1) @ [(2000, Sleep)]\<rparr>;
          p1 = q1 # (if initialized_in_wait 15000 2000 (env 1) then [receive_initialized cr q1] else []);
          h2 = snd (attach_attempt cr (env 2) (last p1));
          q2 = (last h2)\<lparr>timeouts := timeouts (last h2) @ [(2000, Sleep)]\<rparr>;
          p2 = q2 # (if initialized_in_wait 15000 2000 (env 2) then [receive_initialized cr q2] else []);
          h3 = snd (attach_attempt cr (env 3) (last p2))
      in (initialized_in_time 15000 (env 1) \<or> initialized_in_time 15000 (env 2) \<or> initialized_in_time 15000 (env 3),
          h1 @ (if initialized_in_time 15000 (env 1) then []
                else p1 @ h2 @ (if initialized_in_time 15000 (env 2) then [] else p2 @ h3))))"
proof -
  have 1: "(1::nat) < 3" and 2: "(2::nat) < 3"
    by simp_all
  have 3: "(2::nat) + 1 = 3"
    by simp
  show ?thesis
    unfolding performAttachSequence_def
    unfolding attach_attempts_step [OF 1, unfolded one_add_one]
    unfolding attach_attempts_step [OF 2, unfolded 3]
    unfolding attach_attempts_3
    by (simp add: Let_def)
qed

lemma attempt_summary:
  assumes "client_heap w cr = Some c" and "connected c" and "socket c"
  shows "\<exists>c'. client_heap (last (snd (attach_attempt cr a w))) cr = Some c' \<and> connected c' \<and> socket c' \<and>
           sequenceNumber c' = sequenceNumber c + 1 \<and>
           wire c' = wire c @ [Write \<lparr>req_seq = sequenceNumber c, req_command = ''attach'', req_arguments = Args_attach\<rparr>] \<and>
           timers c' = timers c @ [(10000, sequenceNumber c, ''attach'')] \<and>
           timeouts (last (snd (attach_attempt cr a w))) = timeouts w @ [(15000, Reject_initialized)]"
  using assms(2,3) by (simp add: attach_attempt_states [OF assms] Let_def answered_def)

lemma wait_summary:
  assumes "client_heap w cr = Some c"
  shows "\<exists>c'. client_heap (last (w\<lparr>timeouts := timeouts w @ [(2000, Sleep)]\<rparr> #
                   (if b then [receive_initialized cr (w\<lparr>timeouts := timeouts w @ [(2000, Sleep)]\<rparr>)] else []))) cr = Some c' \<and>
           connected c' = connected c \<and> socket c' = socket c \<and>
           sequenceNumber c' = sequenceNumber c \<and> wire c' = wire c \<and> timers c' = timers c \<and>
           timeouts (last (w\<lparr>timeouts := timeouts w @ [(2000, Sleep)]\<rparr> #
                   (if b then [receive_initialized cr (w\<lparr>timeouts := timeouts w @ [(2000, Sleep)]\<rparr>)] else [])))
             = timeouts w @ [(2000, Sleep)]"
  using assms
  by (simp add: receive_initialized_explicit [of "w\<lparr>timeouts := timeouts w @ [(2000, Sleep)]\<rparr>" cr c])

lemma attach_logs:
  assumes "client_heap w cr = Some c" and "connected c" and "socket c"
  shows "(case client_heap (last (snd (performAttachSequence cr env w))) cr of
            None \<Rightarrow> False
          | Some c' \<Rightarrow>
              wire c' = wire c @
                [Write \<lparr>req_seq = sequenceNumber c, req_command = ''attach'', req_arguments = Args_attach\<rparr>] @
                (if initialized_in_time 15000 (env 1) then []
                 else [Write \<lparr>req_seq = sequenceNumber c + 1, req_command = ''attach'', req_arguments = Args_attach\<rparr>] @
                   (if initialized_in_time 15000 (env 2) then []
                    else [Write \<lparr>req_seq = sequenceNumber c + 2, req_command = ''attach'', req_arguments = Args_attach\<rparr>])) \<and>
              timers c' = timers c @ [(10000, sequenceNumber c, ''attach'')] @
                (if initialized_in_time 15000 (env 1) then []
                 else [(10000, sequenceNumber c + 1, ''attach'')] @
                   (if initialized_in_time 15000 (env 2) then []
                    else [(10000, sequenceNumber c + 2, ''attach'')]))) \<and>
         timeouts (last (snd (performAttachSequence cr env w))) =
           timeouts w @ [(15000, Reject_initialized)] @
             (if initialized_in_time 15000 (env 1) then []
              else [(2000, Sleep), (15000, Reject_initialized)] @
                (if initialized_in_time 15000 (env 2) then []
                 else [(2000, Sleep), (15000, Reject_initialized)]))"
proof -
  define h1 where "h1 = snd (attach_attempt cr (env 1) w)"
  define q1 where "q1 = (last h1)\<lparr>timeouts := timeouts (last h1) @ [(2000, Sleep)]\<rparr>"
  define p1 where "p1 = q1 # (if initialized_in_wait 15000 2000 (env 1) then [receive_initialized cr q1] else [])"
  define h2 where "h2 = snd (attach_attempt cr (env 2) (last p1))"
  define q2 where "q2 = (last h2)\<lparr>timeouts := timeouts (last h2) @ [(2000, Sleep)]\<rparr>"
  define p2 where "p2 = q2 # (if initialized_in_wait 15000 2000 (env 2) then [receive_initialized cr q2] else [])"
  define h3 where "h3 = snd (attach_attempt cr (env 3) (last p2))"
  have u: "snd (performAttachSequence cr env w) =
             h1 @ (if initialized_in_time 15000 (env 1) then []
                   else p1 @ h2 @ (if initialized_in_time 15000 (env 2) then [] else p2 @ h3))"
    by (simp add: performAttachSequence_unrolled Let_def h1_def q1_def p1_def h2_def q2_def p2_def h3_def)
  have n: "h1 \<noteq> []" "h2 \<noteq> []" "h3 \<noteq> []"
    by (simp_all add: h1_def h2_def h3_def attach_attempt_nonempty)
  have l: "last (snd (performAttachSequence cr env w)) =
             (if initialized_in_time 15000 (env 1) then last h1
              else if initialized_in_time 15000 (env 2) then last h2 else last h3)"
    by (simp add: u n)
  obtain c1 where c1: "client_heap (last h1) cr = Some c1" "connected c1" "socket c1"
      "sequenceNumber c1 = sequenceNumber c + 1"
      "wire c1 = wire c @ [Write \<lparr>req_seq = sequenceNumber c, req_command = ''attach'', req_arguments = Args_attach\<rparr>]"
      "timers c1 = timers c @ [(10000, sequenceNumber c, ''attach'')]"
      "timeouts (last h1) = timeouts w @ [(15000, Reject_initialized)]"
    using attempt_summary [OF assms, of "env 1"] unfolding h1_def by blast
  obtain d1 where d1: "client_heap (last p1) cr = Some d1" "connected d1" "socket d1"
      "sequenceNumber d1 = sequenceNumber c1" "wire d1 = wire c1" "timers d1 = timers c1"
      "timeouts (last p1) = timeouts (last h1) @ [(2000, Sleep)]"
    using wait_summary [OF c1(1), of "initialized_in_wait 15000 2000 (env 1)"] c1(2,3)
    unfolding p1_def q1_def by auto
  obtain c2 where c2: "client_heap (last h2) cr = Some c2" "connected c2" "socket c2"
      "sequenceNumber c2 = sequenceNumber d1 + 1"
      "wire c2 = wire d1 @ [Write \<lparr>req_seq = sequenceNumber d1, req_command = ''attach'', req_arguments = Args_attach\<rparr>]"
      "timers c2 = timers d1 @ [(10000, sequenceNumber d1, ''attach'')]"
      "timeouts (last h2) = timeouts (last p1) @ [(15000, Reject_initialized)]"
    using attempt_summary [OF d1(1-3), of "env 2"] unfolding h2_def by blast
  obtain d2 where d2: "client_heap (last p2) cr = Some d2" "connected d2" "socket d2"
      "sequenceNumber d2 = sequenceNumber c2" "wire d2 = wire c2" "timers d2 = timers c2"
      "timeouts (last p2) = timeouts (last h2) @ [(2000, Sleep)]"
    using wait_summary [OF c2(1), of "initialized_in_wait 15000 2000 (env 2)"] c2(2,3)
    unfolding p2_def q2_def by auto
  obtain c3 where c3: "client_heap (last h3) cr = Some c3" "connected c3" "socket c3"
      "sequenceNumber c3 = sequenceNumber d2 + 1"
      "wire c3 = wire d2 @ [Write \<lparr>req_seq = sequenceNumber d2, req_command = ''attach'', req_arguments = Args_attach\<rparr>]"
      "timers c3 = timers d2 @ [(10000, sequenceNumber d2, ''attach'')]"
      "timeouts (last h3) = timeouts (last p2) @ [(15000, Reject_initialized)]"
    using attempt_summary [OF d2(1-3), of "env 3"] unfolding h3_def by blast
  show ?thesis
    unfolding l
    by (simp add: c1 d1 c2 d2 c3)
qed

lemma world_running_logs:
  "timeouts world_running = []"
  "listeners world_running = []"
  "cleared world_running = []"
  by (simp_all add: world_running_def createSession_def initial_world_def update_session_def
      updateSessionState_def getSession_def Let_def)

text \<open>
  C9. \<open>performAttachSequence\<close> makes up to three attempts and succeeds exactly when
  the \<open>initialized\<close> event arrives before the deadline of one of them. Each attempt
  sets a timer of 15000 ms that rejects the promise for the event, then registers a
  one-shot listener for \<open>initialized\<close> that clears this timer and resolves the
  promise, and then writes the \<open>attach\<close> request. Whatever the answer to that
  request is, also a rejection or none, and whether the event comes before or after
  it, the event is received by the listener, which is removed when it is called.
  After a failed first or second attempt a timer of 2000 ms is set for the wait.

  The statement gives, in this order: the result and the states of the server after
  each action of the sequence, made of those of its attempts and the waits between
  them; when the event arrives before the deadline, and when during the wait; the
  success of an attempt whose \<open>attach\<close> request is rejected; the result of one
  attempt and the states after each of its actions, for a connected client; what the
  arrival of the event does to the client, the listeners and the timers; and the
  requests written and the timers set by the whole sequence.
\<close>

theorem attach_sequence:
  "performAttachSequence cr env w =
     (let h1 = snd (attach_attempt cr (env 1) w);
          q1 = (last h1)\<lparr>timeouts := timeouts (last h1) @ [(2000, Sleep)]\<rparr>;
          p1 = q1 # (if initialized_in_wait 15000 2000 (env 1) then [receive_initialized cr q1] else []);
          h2 = snd (attach_attempt cr (env 2) (last p1));
          q2 = (last h2)\<lparr>timeouts := timeouts (last h2) @ [(2000, Sleep)]\<rparr>;
          p2 = q2 # (if initialized_in_wait 15000 2000 (env 2) then [receive_initialized cr q2] else []);
          h3 = snd (attach_attempt cr (env 3) (last p2))
      in (initialized_in_time 15000 (env 1) \<or> initialized_in_time 15000 (env 2) \<or> initialized_in_time 15000 (env 3),
          h1 @ (if initialized_in_time 15000 (env 1) then []
                else p1 @ h2 @ (if initialized_in_time 15000 (env 2) then [] else p2 @ h3)))) \<and>
   initialized_in_time 15000 a = (\<exists>t. initialized_at a = Some t \<and> t < 15000) \<and>
   initialized_in_wait 15000 2000 a = (\<exists>t. initialized_at a = Some t \<and> 15000 \<le> t \<and> t < 17000) \<and>
   (\<not> succeeds (attach_answer (env 1)) \<and> initialized_at (env 1) = Some t \<and> t < 15000 \<longrightarrow>
      fst (performAttachSequence cr env w)) \<and>
   (client_heap w cr = Some c \<and> connected c \<and> socket c \<longrightarrow>
      attach_attempt cr a w =
        (let s1 = w\<lparr>timeouts := timeouts w @ [(15000, Reject_initialized)]\<rparr>;
             s2 = s1\<lparr>listeners := listeners w @ [(cr, ''initialized'', Resolve_initialized (length (timeouts w)))]\<rparr>;
             c_sent = c\<lparr>sequenceNumber := sequenceNumber c + 1,
                     pendingRequests := (pendingRequests c)(sequenceNumber c \<mapsto> ''attach''),
                     wire := wire c @ [Write \<lparr>req_seq = sequenceNumber c, req_command = ''attach'', req_arguments = Args_attach\<rparr>],
                     timers := timers c @ [(10000, sequenceNumber c, ''attach'')]\<rparr>;
             c_answered = answered ''attach'' Args_attach (attach_answer a) c;
             heard = (\<lambda>c'. s2\<lparr>client_heap := (client_heap w)(cr \<mapsto>
                          c'\<lparr>emitted := emitted c @ [Emit_event \<lparr>event = ''initialized'', event_body = None\<rparr>, Emit ''initialized'' None]\<rparr>),
                        listeners := filter (\<lambda>entry. \<not> (fst entry = cr \<and> fst (snd entry) = ''initialized'')) (listeners w),
                        cleared := cleared w @
                          map (\<lambda>entry. case snd (snd entry) of Resolve_initialized handle \<Rightarrow> handle)
                            (filter (\<lambda>entry. fst entry = cr \<and> fst (snd entry) = ''initialized'') (listeners w)) @ [length (timeouts w)]\<rparr>);
             s3 = s2\<lparr>client_heap := (client_heap w)(cr \<mapsto> c_sent)\<rparr>;
             s5 = s2\<lparr>client_heap := (client_heap w)(cr \<mapsto> c_answered)\<rparr>
         in (initialized_in_time 15000 a,
             [s1, s2, s3] @
             (if initialized_in_time 15000 a
              then (if before_answer a then [heard c_sent, heard c_answered] else [s5, heard c_answered])
              else [s5])))) \<and>
   (client_heap w cr = Some c \<longrightarrow>
      receive_initialized cr w =
        w\<lparr>client_heap := (client_heap w)(cr \<mapsto>
             c\<lparr>emitted := emitted c @ [Emit_event \<lparr>event = ''initialized'', event_body = None\<rparr>, Emit ''initialized'' None]\<rparr>),
          listeners := filter (\<lambda>entry. \<not> (fst entry = cr \<and> fst (snd entry) = ''initialized'')) (listeners w),
          cleared := cleared w @
            map (\<lambda>entry. case snd (snd entry) of Resolve_initialized handle \<Rightarrow> handle)
              (filter (\<lambda>entry. fst entry = cr \<and> fst (snd entry) = ''initialized'') (listeners w))\<rparr>) \<and>
   (client_heap w cr = Some c \<and> connected c \<and> socket c \<longrightarrow>
      (case client_heap (last (snd (performAttachSequence cr env w))) cr of
         None \<Rightarrow> False
       | Some c' \<Rightarrow>
           wire c' = wire c @
             [Write \<lparr>req_seq = sequenceNumber c, req_command = ''attach'', req_arguments = Args_attach\<rparr>] @
             (if initialized_in_time 15000 (env 1) then []
              else [Write \<lparr>req_seq = sequenceNumber c + 1, req_command = ''attach'', req_arguments = Args_attach\<rparr>] @
                (if initialized_in_time 15000 (env 2) then []
                 else [Write \<lparr>req_seq = sequenceNumber c + 2, req_command = ''attach'', req_arguments = Args_attach\<rparr>])) \<and>
           timers c' = timers c @ [(10000, sequenceNumber c, ''attach'')] @
             (if initialized_in_time 15000 (env 1) then []
              else [(10000, sequenceNumber c + 1, ''attach'')] @
                (if initialized_in_time 15000 (env 2) then []
                 else [(10000, sequenceNumber c + 2, ''attach'')]))) \<and>
      timeouts (last (snd (performAttachSequence cr env w))) =
        timeouts w @ [(15000, Reject_initialized)] @
          (if initialized_in_time 15000 (env 1) then []
           else [(2000, Sleep), (15000, Reject_initialized)] @
             (if initialized_in_time 15000 (env 2) then []
              else [(2000, Sleep), (15000, Reject_initialized)])))"
proof (intro conjI impI)
  show "performAttachSequence cr env w =
     (let h1 = snd (attach_attempt cr (env 1) w);
          q1 = (last h1)\<lparr>timeouts := timeouts (last h1) @ [(2000, Sleep)]\<rparr>;
          p1 = q1 # (if initialized_in_wait 15000 2000 (env 1) then [receive_initialized cr q1] else []);
          h2 = snd (attach_attempt cr (env 2) (last p1));
          q2 = (last h2)\<lparr>timeouts := timeouts (last h2) @ [(2000, Sleep)]\<rparr>;
          p2 = q2 # (if initialized_in_wait 15000 2000 (env 2) then [receive_initialized cr q2] else []);
          h3 = snd (attach_attempt cr (env 3) (last p2))
      in (initialized_in_time 15000 (env 1) \<or> initialized_in_time 15000 (env 2) \<or> initialized_in_time 15000 (env 3),
          h1 @ (if initialized_in_time 15000 (env 1) then []
                else p1 @ h2 @ (if initialized_in_time 15000 (env 2) then [] else p2 @ h3))))"
    by (rule performAttachSequence_unrolled)
next
  show "initialized_in_time 15000 a = (\<exists>t. initialized_at a = Some t \<and> t < 15000)"
    by (simp add: initialized_in_time_def split: option.splits)
next
  show "initialized_in_wait 15000 2000 a = (\<exists>t. initialized_at a = Some t \<and> 15000 \<le> t \<and> t < 17000)"
    by (simp add: initialized_in_wait_def split: option.splits)
next
  assume "\<not> succeeds (attach_answer (env 1)) \<and> initialized_at (env 1) = Some t \<and> t < 15000"
  then show "fst (performAttachSequence cr env w)"
    by (simp add: performAttachSequence_unrolled Let_def initialized_in_time_def)
next
  assume "client_heap w cr = Some c \<and> connected c \<and> socket c"
  then show "attach_attempt cr a w =
        (let s1 = w\<lparr>timeouts := timeouts w @ [(15000, Reject_initialized)]\<rparr>;
             s2 = s1\<lparr>listeners := listeners w @ [(cr, ''initialized'', Resolve_initialized (length (timeouts w)))]\<rparr>;
             c_sent = c\<lparr>sequenceNumber := sequenceNumber c + 1,
                     pendingRequests := (pendingRequests c)(sequenceNumber c \<mapsto> ''attach''),
                     wire := wire c @ [Write \<lparr>req_seq = sequenceNumber c, req_command = ''attach'', req_arguments = Args_attach\<rparr>],
                     timers := timers c @ [(10000, sequenceNumber c, ''attach'')]\<rparr>;
             c_answered = answered ''attach'' Args_attach (attach_answer a) c;
             heard = (\<lambda>c'. s2\<lparr>client_heap := (client_heap w)(cr \<mapsto>
                          c'\<lparr>emitted := emitted c @ [Emit_event \<lparr>event = ''initialized'', event_body = None\<rparr>, Emit ''initialized'' None]\<rparr>),
                        listeners := filter (\<lambda>entry. \<not> (fst entry = cr \<and> fst (snd entry) = ''initialized'')) (listeners w),
                        cleared := cleared w @
                          map (\<lambda>entry. case snd (snd entry) of Resolve_initialized handle \<Rightarrow> handle)
                            (filter (\<lambda>entry. fst entry = cr \<and> fst (snd entry) = ''initialized'') (listeners w)) @ [length (timeouts w)]\<rparr>);
             s3 = s2\<lparr>client_heap := (client_heap w)(cr \<mapsto> c_sent)\<rparr>;
             s5 = s2\<lparr>client_heap := (client_heap w)(cr \<mapsto> c_answered)\<rparr>
         in (initialized_in_time 15000 a,
             [s1, s2, s3] @
             (if initialized_in_time 15000 a
              then (if before_answer a then [heard c_sent, heard c_answered] else [s5, heard c_answered])
              else [s5])))"
    using attach_attempt_states [of w cr c a] attach_attempt_result [of cr a w]
    by (simp add: Let_def prod_eq_iff listens_def [abs_def] initialized_event_def)
next
  assume "client_heap w cr = Some c"
  then show "receive_initialized cr w =
        w\<lparr>client_heap := (client_heap w)(cr \<mapsto>
             c\<lparr>emitted := emitted c @ [Emit_event \<lparr>event = ''initialized'', event_body = None\<rparr>, Emit ''initialized'' None]\<rparr>),
          listeners := filter (\<lambda>entry. \<not> (fst entry = cr \<and> fst (snd entry) = ''initialized'')) (listeners w),
          cleared := cleared w @
            map (\<lambda>entry. case snd (snd entry) of Resolve_initialized handle \<Rightarrow> handle)
              (filter (\<lambda>entry. fst entry = cr \<and> fst (snd entry) = ''initialized'') (listeners w))\<rparr>"
    using receive_initialized_explicit [of w cr c]
    by (simp add: listens_def [abs_def] initialized_event_def)
next
  assume "client_heap w cr = Some c \<and> connected c \<and> socket c"
  then show "case client_heap (last (snd (performAttachSequence cr env w))) cr of
         None \<Rightarrow> False
       | Some c' \<Rightarrow>
           wire c' = wire c @
             [Write \<lparr>req_seq = sequenceNumber c, req_command = ''attach'', req_arguments = Args_attach\<rparr>] @
             (if initialized_in_time 15000 (env 1) then []
              else [Write \<lparr>req_seq = sequenceNumber c + 1, req_command = ''attach'', req_arguments = Args_attach\<rparr>] @
                (if initialized_in_time 15000 (env 2) then []
                 else [Write \<lparr>req_seq = sequenceNumber c + 2, req_command = ''attach'', req_arguments = Args_attach\<rparr>])) \<and>
           timers c' = timers c @ [(10000, sequenceNumber c, ''attach'')] @
             (if initialized_in_time 15000 (env 1) then []
              else [(10000, sequenceNumber c + 1, ''attach'')] @
                (if initialized_in_time 15000 (env 2) then []
                 else [(10000, sequenceNumber c + 2, ''attach'')]))"
    using attach_logs [of w cr c env] by blast
next
  assume "client_heap w cr = Some c \<and> connected c \<and> socket c"
  then show "timeouts (last (snd (performAttachSequence cr env w))) =
        timeouts w @ [(15000, Reject_initialized)] @
          (if initialized_in_time 15000 (env 1) then []
           else [(2000, Sleep), (15000, Reject_initialized)] @
             (if initialized_in_time 15000 (env 2) then []
              else [(2000, Sleep), (15000, Reject_initialized)]))"
    using attach_logs [of w cr c env] by blast
qed

theorem attach_sequence_witness:
  "fst (performAttachSequence 0
      (\<lambda>n. \<lparr>attach_answer = Respond False (Some ''refused'') None, initialized_at = Some 3000, before_answer = False\<rparr>)
      world_running) \<and>
   length (snd (performAttachSequence 0
      (\<lambda>n. \<lparr>attach_answer = Respond False (Some ''refused'') None, initialized_at = Some 3000, before_answer = False\<rparr>)
      world_running)) = 5 \<and>
   listeners (last (snd (performAttachSequence 0
      (\<lambda>n. \<lparr>attach_answer = Respond False (Some ''refused'') None, initialized_at = Some 3000, before_answer = False\<rparr>)
      world_running))) = [] \<and>
   cleared (last (snd (performAttachSequence 0
      (\<lambda>n. \<lparr>attach_answer = Respond False (Some ''refused'') None, initialized_at = Some 3000, before_answer = False\<rparr>)
      world_running))) = [0] \<and>
   timeouts (last (snd (performAttachSequence 0
      (\<lambda>n. \<lparr>attach_answer = Respond False (Some ''refused'') None, initialized_at = Some 3000, before_answer = False\<rparr>)
      world_running))) = [(15000, Reject_initialized)] \<and>
   (case client_heap (last (snd (performAttachSequence 0
      (\<lambda>n. \<lparr>attach_answer = Respond False (Some ''refused'') None, initialized_at = Some 3000, before_answer = False\<rparr>)
      world_running))) 0 of
      None \<Rightarrow> False
    | Some c \<Rightarrow>
        wire c = [Write \<lparr>req_seq = 1, req_command = ''attach'', req_arguments = Args_attach\<rparr>] \<and>
        settled c 1 = Some (Rejected (Error ''refused'')) \<and>
        emitted c = [Emit_event \<lparr>event = ''initialized'', event_body = None\<rparr>, Emit ''initialized'' None]) \<and>
   \<not> fst (performAttachSequence 0
      (\<lambda>n. \<lparr>attach_answer = No_response, initialized_at = None, before_answer = False\<rparr>) world_running) \<and>
   timeouts (last (snd (performAttachSequence 0
      (\<lambda>n. \<lparr>attach_answer = No_response, initialized_at = None, before_answer = False\<rparr>) world_running))) =
     [(15000, Reject_initialized), (2000, Sleep), (15000, Reject_initialized), (2000, Sleep),
      (15000, Reject_initialized)] \<and>
   (case client_heap (last (snd (performAttachSequence 0
      (\<lambda>n. \<lparr>attach_answer = No_response, initialized_at = None, before_answer = False\<rparr>) world_running))) 0 of
      None \<Rightarrow> False
    | Some c \<Rightarrow>
        wire c = [Write \<lparr>req_seq = 1, req_command = ''attach'', req_arguments = Args_attach\<rparr>,
                  Write \<lparr>req_seq = 2, req_command = ''attach'', req_arguments = Args_attach\<rparr>,
                  Write \<lparr>req_seq = 3, req_command = ''attach'', req_arguments = Args_attach\<rparr>])"
proof -
  let ?ok = "\<lambda>n::nat. \<lparr>attach_answer = Respond False (Some ''refused'') None, initialized_at = Some 3000, before_answer = False\<rparr>"
  let ?no = "\<lambda>n::nat. \<lparr>attach_answer = No_response, initialized_at = None, before_answer = False\<rparr>"
  have c: "client_heap world_running 0 = Some (on_socket_connect new_DAPClient) \<and>
           connected (on_socket_connect new_DAPClient) \<and> socket (on_socket_connect new_DAPClient)"
    by (simp add: world_running_client connected_client_simps)
  have ok: "initialized_in_time 15000 (?ok n)" and no: "\<not> initialized_in_time 15000 (?no n)" for n
    by (simp_all add: initialized_in_time_def)
  note 1 = attach_sequence [where cr = 0 and env = ?ok and w = world_running
      and c = "on_socket_connect new_DAPClient" and a = "?ok 1" and t = 3000]
  note 2 = attach_sequence [where cr = 0 and env = ?no and w = world_running
      and c = "on_socket_connect new_DAPClient" and a = "?no 1" and t = 0]
  have r1: "performAttachSequence 0 ?ok world_running = attach_attempt 0 (?ok 1) world_running"
    using 1 ok by (simp add: Let_def prod_eq_iff attach_attempt_result)
  have a1: "attach_attempt 0 (?ok 1) world_running =
        (let w = world_running; c = on_socket_connect new_DAPClient;
             s1 = w\<lparr>timeouts := timeouts w @ [(15000, Reject_initialized)]\<rparr>;
             s2 = s1\<lparr>listeners := listeners w @ [(0, ''initialized'', Resolve_initialized (length (timeouts w)))]\<rparr>;
             c_sent = c\<lparr>sequenceNumber := sequenceNumber c + 1,
                     pendingRequests := (pendingRequests c)(sequenceNumber c \<mapsto> ''attach''),
                     wire := wire c @ [Write \<lparr>req_seq = sequenceNumber c, req_command = ''attach'', req_arguments = Args_attach\<rparr>],
                     timers := timers c @ [(10000, sequenceNumber c, ''attach'')]\<rparr>;
             c_answered = answered ''attach'' Args_attach (Respond False (Some ''refused'') None) c;
             heard = (\<lambda>c'. s2\<lparr>client_heap := (client_heap w)(0 \<mapsto>
                          c'\<lparr>emitted := emitted c @ [Emit_event \<lparr>event = ''initialized'', event_body = None\<rparr>, Emit ''initialized'' None]\<rparr>),
                        listeners := filter (\<lambda>entry. \<not> (fst entry = 0 \<and> fst (snd entry) = ''initialized'')) (listeners w),
                        cleared := cleared w @
                          map (\<lambda>entry. case snd (snd entry) of Resolve_initialized handle \<Rightarrow> handle)
                            (filter (\<lambda>entry. fst entry = 0 \<and> fst (snd entry) = ''initialized'') (listeners w)) @ [length (timeouts w)]\<rparr>);
             s3 = s2\<lparr>client_heap := (client_heap w)(0 \<mapsto> c_sent)\<rparr>;
             s5 = s2\<lparr>client_heap := (client_heap w)(0 \<mapsto> c_answered)\<rparr>
         in (True, [s1, s2, s3, s5, heard c_answered]))"
    using 1 c ok by (simp add: Let_def)
  have "fst (performAttachSequence 0 ?ok world_running) \<and>
        length (snd (performAttachSequence 0 ?ok world_running)) = 5 \<and>
        listeners (last (snd (performAttachSequence 0 ?ok world_running))) = [] \<and>
        cleared (last (snd (performAttachSequence 0 ?ok world_running))) = [0] \<and>
        timeouts (last (snd (performAttachSequence 0 ?ok world_running))) = [(15000, Reject_initialized)] \<and>
        (case client_heap (last (snd (performAttachSequence 0 ?ok world_running))) 0 of
           None \<Rightarrow> False
         | Some c \<Rightarrow>
             wire c = [Write \<lparr>req_seq = 1, req_command = ''attach'', req_arguments = Args_attach\<rparr>] \<and>
             settled c 1 = Some (Rejected (Error ''refused'')) \<and>
             emitted c = [Emit_event \<lparr>event = ''initialized'', event_body = None\<rparr>, Emit ''initialized'' None])"
    unfolding r1 a1
    by (simp add: Let_def world_running_logs connected_client_simps answered_def reply_outcome_def
        message_or_default_def on_socket_connect_def new_DAPClient_def)
  moreover have "\<not> fst (performAttachSequence 0 ?no world_running)"
    using 2 no by (simp add: Let_def)
  moreover have "timeouts (last (snd (performAttachSequence 0 ?no world_running))) =
     [(15000, Reject_initialized), (2000, Sleep), (15000, Reject_initialized), (2000, Sleep),
      (15000, Reject_initialized)] \<and>
   (case client_heap (last (snd (performAttachSequence 0 ?no world_running))) 0 of
      None \<Rightarrow> False
    | Some c \<Rightarrow>
        wire c = [Write \<lparr>req_seq = 1, req_command = ''attach'', req_arguments = Args_attach\<rparr>,
                  Write \<lparr>req_seq = 2, req_command = ''attach'', req_arguments = Args_attach\<rparr>,
                  Write \<lparr>req_seq = 3, req_command = ''attach'', req_arguments = Args_attach\<rparr>])"
    using 2 [THEN conjunct2, THEN conjunct2, THEN conjunct2, THEN conjunct2] c no
    by (simp add: world_running_logs on_socket_connect_def new_DAPClient_def split: option.splits)
  ultimately show ?thesis
    by simp
qed

end
